theory Spec2Isabelle
  imports Main "HOL-Library.Sublist" "HOL-Library.Char_ord" "HOL-Library.List_Lexorder"
    "HOL-Library.Multiset"
begin

section \<open>Text primitives of the generator\<close>

text \<open>
  The program is \<^verbatim>\<open>src/generate_content.py\<close>, class \<^verbatim>\<open>PortfolioGenerator\<close>.
  A Python \<^verbatim>\<open>str\<close> is modelled as a \<^typ>\<open>string\<close>: one \<^typ>\<open>char\<close> per code point,
  which covers the code points below 256 (every marker and template of the program
  lies in that range).

  The diagnostics the program prints are modelled as values of \<open>error\<close>: the kind of
  failure a message reports.
\<close>

datatype error = AlreadyExists | NotFound | RegionNotFound | IOFailure

text \<open>
  \<^verbatim>\<open>str.find(sub)\<close>: the lowest index at which \<open>sub\<close> occurs, \<open>None\<close> for Python's \<open>-1\<close>.
\<close>

fun find_first :: "string \<Rightarrow> string \<Rightarrow> nat option" where
  "find_first sub [] = (if sub = [] then Some 0 else None)"
| "find_first sub (c # cs) =
     (if prefix sub (c # cs) then Some 0 else map_option Suc (find_first sub cs))"

text \<open>
  \<^verbatim>\<open>s.find(sub, start)\<close> for \<open>start \<ge> 0\<close>: the lowest index \<open>i \<ge> start\<close> with
  \<^verbatim>\<open>s[i:i+len(sub)] == sub\<close>; \<open>None\<close> (Python's \<open>-1\<close>) when there is none, and when
  \<open>start\<close> lies beyond the end of \<open>s\<close>.
\<close>

definition py_find :: "string \<Rightarrow> string \<Rightarrow> nat \<Rightarrow> nat option" where
  "py_find s sub start =
     (if length s < start then None
      else map_option (\<lambda>i. start + i) (find_first sub (drop start s)))"

text \<open>\<^verbatim>\<open>sep.join(parts)\<close>.\<close>

fun join :: "string \<Rightarrow> string list \<Rightarrow> string" where
  "join sep [] = []"
| "join sep [x] = x"
| "join sep (x # y # ys) = x @ sep @ join sep (y # ys)"

section \<open>Region replacement\<close>

text \<open>
  The six page rewriters of the program repeat one pattern
  (\<^verbatim>\<open>_update_writeup_tags\<close> lines 217-228, \<^verbatim>\<open>_update_single_tag_page\<close> lines 509-520,
  \<^verbatim>\<open>_update_writeups_page\<close> lines 936-951, and the tags, projects and home page
  rewriters):
  \<^verbatim>\<open>
    start_pos = content.find(start_marker)
    if start_pos == -1: print(...); return
    end_pos = content.find(end_marker, start_pos + skip)
    if end_pos == -1: print(...); return
    new_content = content[:start_pos + len(start_marker)] + before + inner + after + content[end_pos:]
  \<close>
  where \<open>skip\<close> is \<^verbatim>\<open>len(start_marker)\<close> in \<^verbatim>\<open>_update_writeup_tags\<close> and \<open>0\<close> in the five
  others. \<open>replace_region\<close> is that pattern; each rewriter below instantiates it with
  its own markers, offset and separators.
\<close>

definition replace_region ::
  "string \<Rightarrow> string \<Rightarrow> string \<Rightarrow> nat \<Rightarrow> string \<Rightarrow> string \<Rightarrow> string \<Rightarrow> error + string" where
  "replace_region content start_marker end_marker skip before inner after =
     (case py_find content start_marker 0 of
        None \<Rightarrow> Inl RegionNotFound
      | Some start_pos \<Rightarrow>
          (case py_find content end_marker (start_pos + skip) of
             None \<Rightarrow> Inl RegionNotFound
           | Some end_pos \<Rightarrow>
               Inr (take (start_pos + length start_marker) content
                    @ before @ inner @ after @ drop end_pos content)))"

subsection \<open>The tag region of a writeup page\<close>

definition writeup_tags_start_marker :: string where
  \<open>writeup_tags_start_marker = ''<div class="tag-container mb-4">''\<close>

definition writeup_tags_end_marker :: string where
  \<open>writeup_tags_end_marker = ''</div>''\<close>

definition writeup_tags_before :: string where
  \<open>writeup_tags_before = ''\<newline>                        ''\<close>

definition writeup_tags_after :: string where
  \<open>writeup_tags_after = ''\<newline>                    ''\<close>

text \<open>Line 211: the links of a writeup page to its tag pages.\<close>

definition writeup_tag_links :: "string list \<Rightarrow> string" where
  \<open>writeup_tag_links tags =
     join ''\<newline>''
       (map (\<lambda>tag. ''<a href="../tags/tag-'' @ tag @ ''.html" class="tag-badge me-1">'' @ tag @ ''</a>'')
          tags)\<close>

text \<open>
  \<^verbatim>\<open>_update_writeup_tags\<close>, lines 210-228: from the text read to the text written.
\<close>

definition update_writeup_tags_content :: "string \<Rightarrow> string list \<Rightarrow> error + string" where
  "update_writeup_tags_content content tags =
     replace_region content writeup_tags_start_marker writeup_tags_end_marker
       (length writeup_tags_start_marker)
       writeup_tags_before (writeup_tag_links tags) writeup_tags_after"

subsection \<open>The writeups region of a tag page and of the writeups listing\<close>

definition writeups_container_start_marker :: string where
  \<open>writeups_container_start_marker = ''<div class="row" id="writeupsContainer">''\<close>

text \<open>
  The end marker \<^verbatim>\<open>'</div>\n\n                </main>'\<close> of lines 507, 934, 973, 1011 and
  1050.
\<close>

definition main_end_marker :: string where
  \<open>main_end_marker = ''</div>\<newline>\<newline>                </main>''\<close>

text \<open>
  \<^verbatim>\<open>_update_single_tag_page\<close>, lines 505-520, given the cards generated at line 499.
\<close>

definition update_single_tag_page_content :: "string \<Rightarrow> string \<Rightarrow> error + string" where
  "update_single_tag_page_content content writeup_cards_html =
     replace_region content writeups_container_start_marker main_end_marker 0
       ''\<newline>'' writeup_cards_html ''\<newline>''"

text \<open>
  \<^verbatim>\<open>_update_writeups_page\<close>, lines 932-951, given the grid generated at line 948.
\<close>

definition update_writeups_page_content :: "string \<Rightarrow> string \<Rightarrow> error + string" where
  "update_writeups_page_content content writeups_content =
     replace_region content writeups_container_start_marker main_end_marker 0
       ''\<newline>'' writeups_content ''\<newline>''"

section \<open>The content model\<close>

text \<open>
  A writeup is the dict built at lines 108-118 and 273-283; a project the dict of lines
  136-140 and 456-461 (an extracted project has no \<^verbatim>\<open>'description'\<close> key). The fields keep
  the keys' names behind a prefix. Every writeup dict the program builds has the key
  \<^verbatim>\<open>'machine_photo'\<close>, so the default of \<^verbatim>\<open>writeup.get('machine_photo', ...)\<close> in the card
  renderers is never taken. The list under \<^verbatim>\<open>'tags'\<close> belongs to its writeup alone: a caller
  that hands one list object to two calls of \<^verbatim>\<open>create_writeup\<close> is outside the model.
\<close>

record writeup =
  w_title :: string
  w_filename :: string
  w_created_date :: string
  w_updated_date :: string
  w_machine_photo :: string
  w_tags :: "string list"
  w_difficulty :: string
  w_os_type :: string
  w_ip_address :: string

record project =
  p_title :: string
  p_description :: "string option"
  p_url :: string
  p_date :: string

text \<open>
  The three directories of \<^verbatim>\<open>__init__\<close> (\<^verbatim>\<open>base_dir\<close>, \<^verbatim>\<open>tags_dir\<close>, \<^verbatim>\<open>writeups_dir\<close>); a path is
  a directory and a file name, taken literally (names with path separators are outside
  the model).
\<close>

datatype dir = BaseDir | TagsDir | WriteupsDir

type_synonym path = "dir \<times> string"

datatype io_op = Stat | Scan | Read | Write | Unlink

text \<open>
  The state of a \<^verbatim>\<open>PortfolioGenerator\<close> together with the file system it works on.
  \<open>faults\<close> says on which paths an operation of the file system raises \<^verbatim>\<open>OSError\<close>:
  \<^descr> \<open>Stat\<close>: the test \<^verbatim>\<open>Path.exists()\<close>, which answers \<^verbatim>\<open>False\<close> for a missing file and raises
    for every other failure of \<^verbatim>\<open>stat\<close> (a name too long for the file system, a directory
    that may not be searched); on a directory, the listing of \<^verbatim>\<open>Path.glob\<close> raising;
  \<^descr> \<open>Scan\<close>: on a directory, the listing of \<^verbatim>\<open>Path.glob\<close> refused with \<^verbatim>\<open>PermissionError\<close>,
    which \<^verbatim>\<open>glob\<close> swallows: it then lists nothing;
  \<^descr> \<open>Read\<close>, \<open>Write\<close>, \<open>Unlink\<close>: \<^verbatim>\<open>open(p, 'r')\<close> with \<^verbatim>\<open>read\<close>, \<^verbatim>\<open>open(p, 'w')\<close> with \<^verbatim>\<open>write\<close>,
    \<^verbatim>\<open>p.unlink()\<close>.

  An operation that raises leaves the file as it was. The faults of a path do not change
  while the program runs. \<^verbatim>\<open>print\<close> is taken to succeed.
\<close>

record generator =
  files :: "path \<Rightarrow> string option"
  faults :: "io_op \<Rightarrow> path \<Rightarrow> bool"
  existing_tags :: "string set"
  existing_writeups :: "writeup list"
  existing_projects :: "project list"

text \<open>
  How a call ends: \<open>Done\<close>, it returns (\<^verbatim>\<open>True\<close>, where it has a result); \<open>Failed e\<close>, it
  reports \<open>e\<close> and returns \<^verbatim>\<open>False\<close>; \<open>Raised\<close>, an exception raised outside every \<^verbatim>\<open>try\<close>
  leaves the call, and every caller without a \<^verbatim>\<open>try\<close> around it. Beside the outcome stands
  the state at that moment.
\<close>

datatype outcome = Done | Failed error | Raised

text \<open>
  \<open>and_then r k\<close>: the statement \<open>k\<close> after a call that ended as \<open>r\<close>, where the result of
  the call is not looked at: \<open>k\<close> runs unless the call raised.
\<close>

definition and_then ::
  "outcome \<times> generator \<Rightarrow> (generator \<Rightarrow> outcome \<times> generator) \<Rightarrow> outcome \<times> generator" where
  "and_then r k = (if fst r = Raised then r else k (snd r))"

text \<open>\<^verbatim>\<open>p.exists()\<close>: \<open>None\<close> where it raises.\<close>

definition exists_file :: "generator \<Rightarrow> path \<Rightarrow> bool option" where
  "exists_file g p = (if faults g Stat p then None else Some (files g p \<noteq> None))"

text \<open>
  Text mode with universal newlines, the default of \<^verbatim>\<open>open(p, 'r')\<close>: what is read has a
  line feed for every carriage return with line feed and for every other carriage
  return.
\<close>

fun universal_newlines :: "string \<Rightarrow> string" where
  "universal_newlines [] = []"
| "universal_newlines [c] = (if c = CHR 0x0D then [CHR 0x0A] else [c])"
| "universal_newlines (c # d # cs) =
     (if c = CHR 0x0D \<and> d = CHR 0x0A then CHR 0x0A # universal_newlines cs
      else if c = CHR 0x0D then CHR 0x0A # universal_newlines (d # cs)
      else c # universal_newlines (d # cs))"

text \<open>\<^verbatim>\<open>open(p, 'r').read()\<close>: raises when the file is missing or cannot be read.\<close>

definition read_file :: "generator \<Rightarrow> path \<Rightarrow> error + string" where
  "read_file g p =
     (case files g p of
        None \<Rightarrow> Inl IOFailure
      | Some content \<Rightarrow>
          if faults g Read p then Inl IOFailure else Inr (universal_newlines content))"

text \<open>
  \<^verbatim>\<open>open(p, 'w').write(content)\<close>: creates or replaces the file, or raises. The text is
  stored as it is written: the line separator of the platform is taken to be the line
  feed, as on POSIX.
\<close>

definition write_file :: "path \<Rightarrow> string \<Rightarrow> generator \<Rightarrow> error + generator" where
  "write_file p content g =
     (if faults g Write p then Inl IOFailure
      else Inr (g\<lparr>files := (files g)(p \<mapsto> content)\<rparr>))"

text \<open>\<^verbatim>\<open>p.unlink()\<close>: raises when the file is missing or cannot be removed.\<close>

definition unlink :: "path \<Rightarrow> generator \<Rightarrow> error + generator" where
  "unlink p g =
     (if files g p = None \<or> faults g Unlink p then Inl IOFailure
      else Inr (g\<lparr>files := (files g)(p := None)\<rparr>))"

text \<open>
  The body shared by the page rewriters: read the file, compute the new text, write it
  back, all inside one \<^verbatim>\<open>try\<close> whose \<^verbatim>\<open>except\<close> prints and returns. A marker that is
  not found returns before the write. In every failure the state is left as it was.
\<close>

definition rewrite_file :: "path \<Rightarrow> (string \<Rightarrow> error + string) \<Rightarrow> generator \<Rightarrow> generator" where
  "rewrite_file p f g =
     (case read_file g p of
        Inl e \<Rightarrow> g
      | Inr content \<Rightarrow>
          (case f content of
             Inl e \<Rightarrow> g
           | Inr new_content \<Rightarrow>
               (case write_file p new_content g of Inl e \<Rightarrow> g | Inr g' \<Rightarrow> g')))"

section \<open>Rendering\<close>

text \<open>\<^verbatim>\<open>_generate_tag_html\<close>, lines 575-688: the document of a new tag page.\<close>

definition generate_tag_html :: "string \<Rightarrow> string \<Rightarrow> string" where
  \<open>generate_tag_html tag_name description =
     (''<!DOCTYPE html>\<newline>''
        @ ''<html lang="en">\<newline>''
        @ ''<head>\<newline>''
        @ ''    <meta charset="UTF-8">\<newline>''
        @ ''    <meta name="viewport" content="width=device-width, initial-scale=1.0">\<newline>''
        @ ''    <title>Tag: ''
        @ tag_name
        @ '' - V01</title>\<newline>''
        @ ''    <link href="https://cdn.jsdelivr.net/npm/bootstrap@5.3.0/dist/css/bootstrap.min.css" rel="stylesheet">\<newline>''
        @ ''    <link href="https://cdnjs.cloudflare.com/ajax/libs/font-awesome/6.4.0/css/all.min.css" rel="stylesheet">\<newline>''
        @ ''    <link href="https://cdnjs.cloudflare.com/ajax/libs/prism/1.29.0/themes/prism-tomorrow.min.css" rel="stylesheet">\<newline>''
        @ ''    <link href="../assets/css/style.css" rel="stylesheet">\<newline>''
        @ ''</head>\<newline>''
        @ ''<body>\<newline>''
        @ ''    <!-- Navigation -->\<newline>''
        @ ''    <nav class="navbar navbar-expand-lg navbar-dark bg-dark" style="background-color:#212529 !important;">\<newline>''
        @ ''        <div class="container">\<newline>''
        @ ''            <a class="navbar-brand" href="../index.html">\<newline>''
        @ ''                <i class="fas fa-skull me-2"></i>V01\<newline>''
        @ ''            </a>\<newline>''
        @ ''            <button class="navbar-toggler" type="button" data-bs-toggle="collapse" data-bs-target="#navbarNav">\<newline>''
        @ ''                <span class="navbar-toggler-icon"></span>\<newline>''
        @ ''            </button>\<newline>''
        @ ''            <div class="collapse navbar-collapse" id="navbarNav">\<newline>''
        @ ''                <ul class="navbar-nav ms-auto">\<newline>''
        @ ''                    <li class="nav-item">\<newline>''
        @ ''                        <a class="nav-link" href="../index.html">\<newline>''
        @ ''                            <i class="fas fa-home me-1"></i>Home\<newline>''
        @ ''                        </a>\<newline>''
        @ ''                    </li>\<newline>''
        @ ''                    <li class="nav-item">\<newline>''
        @ ''                        <a class="nav-link" href="../writeups.html">\<newline>''
        @ ''                            <i class="fas fa-file-alt me-1"></i>Writeups\<newline>''
        @ ''                        </a>\<newline>''
        @ ''                    </li>\<newline>''
        @ ''                    <li class="nav-item">\<newline>''
        @ ''                        <a class="nav-link" href="../projects.html">\<newline>''
        @ ''                            <i class="fas fa-code me-1"></i>Projects\<newline>''
        @ ''                        </a>\<newline>''
        @ ''                    </li>\<newline>''
        @ ''                    <li class="nav-item">\<newline>''
        @ ''                        <a class="nav-link" href="../tags.html">\<newline>''
        @ ''                            <i class="fas fa-tags me-1"></i>Tags\<newline>''
        @ ''                        </a>\<newline>''
        @ ''                    </li>\<newline>''
        @ ''                </ul>\<newline>''
        @ ''            </div>\<newline>''
        @ ''        </div>\<newline>''
        @ ''    </nav>\<newline>''
        @ ''\<newline>''
        @ ''    <!-- Main Content with Sidebar -->\<newline>''
        @ ''    <div class="container-fluid">\<newline>''
        @ ''        <div class="row">\<newline>''
        @ ''            <!-- Sidebar -->\<newline>''
        @ ''            <div class="col-md-3 col-lg-2 sidebar">\<newline>''
        @ ''                <div class="sidebar-content">\<newline>''
        @ ''                    <div class="profile-section text-center mb-4">\<newline>''
        @ ''                        <img src="https://hackmyvm.eu/img/u/218d122cff717db7624e56a4d380872c.jpg" \<newline>''
        @ ''                             alt="V01" class="profile-avatar mb-3">\<newline>''
        @ ''                        <h5 class="text-white mb-2">V01</h5>\<newline>''
        @ ''                        <p class="text-white-50 mb-3">Pentester, CTF player</p>\<newline>''
        @ ''                        <p class="text-white-50 mb-3">ACCH Team</p>\<newline>''
        @ ''                        <a href="https://github.com/EndlssNightmare" \<newline>''
        @ ''                           target="_blank" class="btn btn-outline-light btn-sm">\<newline>''
        @ ''                            <i class="fab fa-github me-1"></i>GitHub\<newline>''
        @ ''                        </a>\<newline>''
        @ ''                    </div>\<newline>''
        @ ''                </div>\<newline>''
        @ ''            </div>\<newline>''
        @ ''            \<newline>''
        @ ''            <!-- Main Content -->\<newline>''
        @ ''            <div class="col-md-9 col-lg-10 main-content">\<newline>''
        @ ''                <main class="my-4">\<newline>''
        @ ''                    \<newline>''
        @ ''                    <nav aria-label="breadcrumb">\<newline>''
        @ ''                        <ol class="breadcrumb">\<newline>''
        @ ''                            <li class="breadcrumb-item"><a href="../index.html">Home</a></li>\<newline>''
        @ ''                            <li class="breadcrumb-item"><a href="../tags.html">Tags</a></li>\<newline>''
        @ ''                            <li class="breadcrumb-item active" aria-current="page">''
        @ tag_name
        @ ''</li>\<newline>''
        @ ''                        </ol>\<newline>''
        @ ''                    </nav>\<newline>''
        @ ''\<newline>''
        @ ''                    <div class="mb-4">\<newline>''
        @ ''                        <h2><i class="fas fa-tag me-2"></i>Tag: ''
        @ tag_name
        @ ''</h2>\<newline>''
        @ ''                        ''
        @ (if description \<noteq> [] then ''<p class="text-muted">'' @ description @ ''</p>'' else [])
        @ ''\<newline>''
        @ ''                    </div>\<newline>''
        @ ''\<newline>''
        @ ''                    <div class="row" id="writeupsContainer">\<newline>''
        @ ''                        <!-- Writeups with this tag will be listed here -->\<newline>''
        @ ''                    </div>\<newline>''
        @ ''\<newline>''
        @ ''                </main>\<newline>''
        @ ''            </div>\<newline>''
        @ ''        </div>\<newline>''
        @ ''    </div>\<newline>''
        @ ''\<newline>''
        @ ''    <!-- Footer -->\<newline>''
        @ ''    <footer class="bg-dark text-light py-3 mt-5">\<newline>''
        @ ''        <div class="container">\<newline>''
        @ ''            <div class="row">\<newline>''
        @ ''                <div class="col-12">\<newline>''
        @ ''                    <p class="mb-0">'' @ [CHR 0xAC] @ [CHR 0xA9] @ '' 2025 V01</p>\<newline>''
        @ ''                </div>\<newline>''
        @ ''            </div>\<newline>''
        @ ''        </div>\<newline>''
        @ ''    </footer>\<newline>''
        @ ''\<newline>''
        @ ''    <script src="https://cdn.jsdelivr.net/npm/bootstrap@5.3.0/dist/js/bootstrap.bundle.min.js"></script>\<newline>''
        @ ''    <script src="https://cdnjs.cloudflare.com/ajax/libs/prism/1.29.0/components/prism-core.min.js"></script>\<newline>''
        @ ''    <script src="https://cdnjs.cloudflare.com/ajax/libs/prism/1.29.0/plugins/autoloader/prism-autoloader.min.js"></script>\<newline>''
        @ ''    <script src="../assets/js/script.js"></script>\<newline>''
        @ ''    <script src="../assets/js/search.js"></script>\<newline>''
        @ ''</body>\<newline>''
        @ ''</html>'')\<close>

text \<open>Lines 699-705 of \<^verbatim>\<open>_generate_writeup_html\<close>: one badge per machine field given.\<close>

definition machine_info_parts :: "string \<Rightarrow> string \<Rightarrow> string \<Rightarrow> string list" where
  \<open>machine_info_parts difficulty os_type ip_address =
     ((if difficulty \<noteq> [] then [''<span class="badge bg-primary me-2"><i class="fas fa-star me-1"></i>Difficulty: ''
        @ difficulty
        @ ''</span>''] else []) @
      (if os_type \<noteq> [] then [''<span class="badge bg-info me-2"><i class="fas fa-desktop me-1"></i>OS: ''
        @ os_type
        @ ''</span>''] else []) @
      (if ip_address \<noteq> [] then [''<span class="badge bg-secondary me-2"><i class="fas fa-network-wired me-1"></i>IP: ''
        @ ip_address
        @ ''</span>''] else []))\<close>

text \<open>Lines 697-713: the machine information block, empty when no field is given.\<close>

definition machine_info_html :: "string \<Rightarrow> string \<Rightarrow> string \<Rightarrow> string" where
  \<open>machine_info_html difficulty os_type ip_address =
     (if difficulty \<noteq> [] \<or> os_type \<noteq> [] \<or> ip_address \<noteq> [] then
      ''\<newline>''
        @ ''                                    <div class="machine-info mb-3">\<newline>''
        @ ''                                        <h6 class="text-muted mb-2"><i class="fas fa-server me-1"></i>Machine Information:</h6>\<newline>''
        @ ''                                        <div class="d-flex flex-wrap">\<newline>''
        @ ''                                            ''
        @ concat (machine_info_parts difficulty os_type ip_address)
        @ ''\<newline>''
        @ ''                                        </div>\<newline>''
        @ ''                                    </div>''
      else [])\<close>

text \<open>\<^verbatim>\<open>_generate_writeup_html\<close>, lines 690-919: the document of a new writeup page.\<close>

definition generate_writeup_html :: "string \<Rightarrow> string list \<Rightarrow> string \<Rightarrow> string \<Rightarrow> string \<Rightarrow> string \<Rightarrow> string \<Rightarrow> string \<Rightarrow> string" where
  \<open>generate_writeup_html title tags machine_photo created_date updated_date difficulty os_type ip_address =
     (''<!DOCTYPE html>\<newline>''
        @ ''<html lang="en">\<newline>''
        @ ''<head>\<newline>''
        @ ''    <meta charset="UTF-8">\<newline>''
        @ ''    <meta name="viewport" content="width=device-width, initial-scale=1.0">\<newline>''
        @ ''    <title>''
        @ title
        @ '' - V01</title>\<newline>''
        @ ''    <link href="https://cdn.jsdelivr.net/npm/bootstrap@5.3.0/dist/css/bootstrap.min.css" rel="stylesheet">\<newline>''
        @ ''    <link href="https://cdnjs.cloudflare.com/ajax/libs/font-awesome/6.4.0/css/all.min.css" rel="stylesheet">\<newline>''
        @ ''    <link href="https://cdnjs.cloudflare.com/ajax/libs/prism/1.29.0/themes/prism-tomorrow.min.css" rel="stylesheet">\<newline>''
        @ ''    <link href="../assets/css/style.css" rel="stylesheet">\<newline>''
        @ ''</head>\<newline>''
        @ ''<body>\<newline>''
        @ ''    <!-- Navigation -->\<newline>''
        @ ''    <nav class="navbar navbar-expand-lg navbar-dark bg-dark" style="background-color:#212529 !important;">\<newline>''
        @ ''        <div class="container">\<newline>''
        @ ''            <a class="navbar-brand" href="../index.html">\<newline>''
        @ ''                <i class="fas fa-skull me-2"></i>V01\<newline>''
        @ ''            </a>\<newline>''
        @ ''            <button class="navbar-toggler" type="button" data-bs-toggle="collapse" data-bs-target="#navbarNav">\<newline>''
        @ ''                <span class="navbar-toggler-icon"></span>\<newline>''
        @ ''            </button>\<newline>''
        @ ''            <div class="collapse navbar-collapse" id="navbarNav">\<newline>''
        @ ''                <ul class="navbar-nav ms-auto">\<newline>''
        @ ''                    <li class="nav-item">\<newline>''
        @ ''                        <a class="nav-link" href="../index.html">\<newline>''
        @ ''                            <i class="fas fa-home me-1"></i>Home\<newline>''
        @ ''                        </a>\<newline>''
        @ ''                    </li>\<newline>''
        @ ''                    <li class="nav-item">\<newline>''
        @ ''                        <a class="nav-link" href="../writeups.html">\<newline>''
        @ ''                            <i class="fas fa-file-alt me-1"></i>Writeups\<newline>''
        @ ''                        </a>\<newline>''
        @ ''                    </li>\<newline>''
        @ ''                    <li class="nav-item">\<newline>''
        @ ''                        <a class="nav-link" href="../projects.html">\<newline>''
        @ ''                            <i class="fas fa-code me-1"></i>Projects\<newline>''
        @ ''                        </a>\<newline>''
        @ ''                    </li>\<newline>''
        @ ''                    <li class="nav-item">\<newline>''
        @ ''                        <a class="nav-link" href="../tags.html">\<newline>''
        @ ''                            <i class="fas fa-tags me-1"></i>Tags\<newline>''
        @ ''                        </a>\<newline>''
        @ ''                    </li>\<newline>''
        @ ''                </ul>\<newline>''
        @ ''            </div>\<newline>''
        @ ''        </div>\<newline>''
        @ ''    </nav>\<newline>''
        @ ''\<newline>''
        @ ''    <!-- Main Content with Sidebar -->\<newline>''
        @ ''    <div class="container-fluid">\<newline>''
        @ ''        <div class="row">\<newline>''
        @ ''            <!-- Sidebar -->\<newline>''
        @ ''            <div class="col-md-3 col-lg-2 sidebar">\<newline>''
        @ ''                <div class="sidebar-content">\<newline>''
        @ ''                    <div class="profile-section text-center mb-4">\<newline>''
        @ ''                        <img src="https://hackmyvm.eu/img/u/218d122cff717db7624e56a4d380872c.jpg" \<newline>''
        @ ''                             alt="V01" class="profile-avatar mb-3">\<newline>''
        @ ''                        <h5 class="text-white mb-2">V01</h5>\<newline>''
        @ ''                        <p class="text-white-50 mb-3">Pentester, CTF player</p>\<newline>''
        @ ''                        <p class="text-white-50 mb-3">ACCH Team</p>\<newline>''
        @ ''                        <a href="https://github.com/EndlssNightmare" \<newline>''
        @ ''                           target="_blank" class="btn btn-outline-light btn-sm">\<newline>''
        @ ''                            <i class="fab fa-github me-1"></i>GitHub\<newline>''
        @ ''                        </a>\<newline>''
        @ ''                    </div>\<newline>''
        @ ''                </div>\<newline>''
        @ ''            </div>\<newline>''
        @ ''            \<newline>''
        @ ''            <!-- Main Content -->\<newline>''
        @ ''            <div class="col-md-9 col-lg-10 main-content">\<newline>''
        @ ''                <main class="my-4">\<newline>''
        @ ''                    \<newline>''
        @ ''                    <nav aria-label="breadcrumb">\<newline>''
        @ ''                        <ol class="breadcrumb">\<newline>''
        @ ''                            <li class="breadcrumb-item"><a href="../index.html">Home</a></li>\<newline>''
        @ ''                            <li class="breadcrumb-item"><a href="../writeups.html">Writeups</a></li>\<newline>''
        @ ''                            <li class="breadcrumb-item active" aria-current="page">''
        @ title
        @ ''</li>\<newline>''
        @ ''                        </ol>\<newline>''
        @ ''                    </nav>\<newline>''
        @ ''\<newline>''
        @ ''                    <div class="card border-0 shadow-sm">\<newline>''
        @ ''                        <div class="card-body">\<newline>''
        @ ''                            <div class="d-flex align-items-start gap-4">\<newline>''
        @ ''                                <div class="flex-grow-1">\<newline>''
        @ ''                                    <h1 class="card-title mb-3">''
        @ title
        @ ''</h1>\<newline>''
        @ ''                                    \<newline>''
        @ ''                                    <div class="mb-3">\<newline>''
        @ ''                                        <small class="text-muted">\<newline>''
        @ ''                                            <i class="fas fa-calendar me-1"></i>Created: ''
        @ created_date
        @ ''\<newline>''
        @ ''                                            \<newline>''
        @ ''                                            <br><i class="fas fa-edit me-1"></i>Updated: ''
        @ updated_date
        @ ''\<newline>''
        @ ''                                        </small>\<newline>''
        @ ''                                    </div>\<newline>''
        @ ''\<newline>''
        @ ''                                    <div class="tag-container mb-4">\<newline>''
        @ ''                                        ''
        @ writeup_tag_links tags
        @ ''\<newline>''
        @ ''                                    </div>\<newline>''
        @ ''                                    \<newline>''
        @ ''                                    ''
        @ machine_info_html difficulty os_type ip_address
        @ ''\<newline>''
        @ ''                                </div>\<newline>''
        @ ''                                \<newline>''
        @ ''                                ''
        @ (if machine_photo \<noteq> [] then ''<div class="d-none d-md-block"><img src="'' @ machine_photo @ ''" alt="Machine Photo" class="img-fluid rounded" style="max-width: 300px; height: auto;"></div>'' else [])
        @ ''\<newline>''
        @ ''                            </div>\<newline>''
        @ ''\<newline>''
        @ ''                            <div id="markdown-content" class="markdown-content" style="display: none;">\<newline>''
        @ ''# Overview\<newline>''
        @ ''\<newline>''
        @ ''Add your writeup content here using **markdown** syntax!\<newline>''
        @ ''\<newline>''
        @ ''## Initial Reconnaissance\<newline>''
        @ ''\<newline>''
        @ ''Describe your initial reconnaissance process...\<newline>''
        @ ''\<newline>''
        @ ''### Example Commands\<newline>''
        @ ''\<newline>''
        @ ''```bash\<newline>''
        @ ''nmap -sC -sV -p- 10.10.10.10\<newline>''
        @ ''```\<newline>''
        @ ''\<newline>''
        @ ''### Key Findings\<newline>''
        @ ''\<newline>''
        @ ''- Port 80: HTTP service\<newline>''
        @ ''- Port 22: SSH service\<newline>''
        @ ''- Port 445: SMB service\<newline>''
        @ ''\<newline>''
        @ ''## Exploitation\<newline>''
        @ ''\<newline>''
        @ ''Detail your exploitation steps...\<newline>''
        @ ''\<newline>''
        @ ''### Code Example\<newline>''
        @ ''\<newline>''
        @ ''```python\<newline>''
        @ ''import requests\<newline>''
        @ ''\<newline>''
        @ ''url = "http://10.10.10.10/admin"\<newline>''
        @ ''data = {"username": "admin", "password": "password"}\<newline>''
        @ ''response = requests.post(url, data=data)\<newline>''
        @ ''```\<newline>''
        @ ''\<newline>''
        @ ''## Privilege Escalation\<newline>''
        @ ''\<newline>''
        @ ''Explain privilege escalation techniques used...\<newline>''
        @ ''\<newline>''
        @ ''### Important Notes\<newline>''
        @ ''\<newline>''
        @ ''> **Note**: Always document your methodology and findings clearly.\<newline>''
        @ ''\<newline>''
        @ ''## Conclusion\<newline>''
        @ ''\<newline>''
        @ ''Summarize your findings and lessons learned...\<newline>''
        @ ''                            </div>\<newline>''
        @ ''                        </div>\<newline>''
        @ ''                    </div>\<newline>''
        @ ''\<newline>''
        @ ''                </main>\<newline>''
        @ ''            </div>\<newline>''
        @ ''        </div>\<newline>''
        @ ''    </div>\<newline>''
        @ ''\<newline>''
        @ ''    <!-- Footer -->\<newline>''
        @ ''    <footer class="bg-dark text-light py-3 mt-5">\<newline>''
        @ ''        <div class="container">\<newline>''
        @ ''            <div class="row">\<newline>''
        @ ''                <div class="col-12">\<newline>''
        @ ''                    <p class="mb-0">'' @ [CHR 0xAC] @ [CHR 0xA9] @ '' 2025 V01</p>\<newline>''
        @ ''                </div>\<newline>''
        @ ''            </div>\<newline>''
        @ ''        </div>\<newline>''
        @ ''    </footer>\<newline>''
        @ ''\<newline>''
        @ ''    <script src="https://cdn.jsdelivr.net/npm/bootstrap@5.3.0/dist/js/bootstrap.bundle.min.js"></script>\<newline>''
        @ ''    <script src="https://cdnjs.cloudflare.com/ajax/libs/prism/1.29.0/components/prism-core.min.js"></script>\<newline>''
        @ ''    <script src="https://cdnjs.cloudflare.com/ajax/libs/prism/1.29.0/plugins/autoloader/prism-autoloader.min.js"></script>\<newline>''
        @ ''    <script src="https://cdn.jsdelivr.net/npm/marked/marked.min.js"></script>\<newline>''
        @ ''    <script src="../assets/js/script.js"></script>\<newline>''
        @ ''    <script src="../assets/js/search.js"></script>\<newline>''
        @ ''    <script>\<newline>''
        @ ''        // Initialize markdown processing\<newline>''
        @ ''        document.addEventListener('DOMContentLoaded', function() {\<newline>''
        @ ''            const markdownContainer = document.getElementById('markdown-content');\<newline>''
        @ ''            if (markdownContainer) {\<newline>''
        @ ''                // Configure marked.js options\<newline>''
        @ ''                marked.setOptions({\<newline>''
        @ ''                    breaks: true,\<newline>''
        @ ''                    gfm: true,\<newline>''
        @ ''                    highlight: function(code, lang) {\<newline>''
        @ ''                        if (lang && Prism.languages[lang]) {\<newline>''
        @ ''                            return Prism.highlight(code, Prism.languages[lang], lang);\<newline>''
        @ ''                        }\<newline>''
        @ ''                        return code;\<newline>''
        @ ''                    }\<newline>''
        @ ''                });\<newline>''
        @ ''                \<newline>''
        @ ''                // Convert markdown to HTML\<newline>''
        @ ''                const markdownText = markdownContainer.textContent;\<newline>''
        @ ''                markdownContainer.innerHTML = marked.parse(markdownText);\<newline>''
        @ ''                markdownContainer.style.display = 'block';\<newline>''
        @ ''                \<newline>''
        @ ''                // Re-highlight code blocks with Prism\<newline>''
        @ ''                Prism.highlightAll();\<newline>''
        @ ''            }\<newline>''
        @ ''        });\<newline>''
        @ ''    </script>\<newline>''
        @ ''</body>\<newline>''
        @ ''</html>'')\<close>

text \<open>The body of the loop of \<^verbatim>\<open>_generate_writeup_cards_for_tag\<close>, lines 534-571: the card of one writeup on a tag page.\<close>

definition writeup_card_for_tag :: "writeup \<Rightarrow> string" where
  \<open>writeup_card_for_tag writeup =
     (''    <div class="col-lg-6 col-xl-4 mb-4 writeup-card" data-category="">\<newline>''
        @ ''        <div class="card h-100 border-0 shadow-sm">\<newline>''
        @ ''            <div class="card-body d-flex align-items-start gap-3">\<newline>''
        @ ''                <div class="flex-grow-1">\<newline>''
        @ ''                    <h5 class="card-title mb-2 writeup-title">\<newline>''
        @ ''                        <a href="../writeups/''
        @ w_filename writeup
        @ ''" class="text-decoration-none">\<newline>''
        @ ''                            ''
        @ w_title writeup
        @ ''\<newline>''
        @ ''                        </a>\<newline>''
        @ ''                    </h5>\<newline>''
        @ ''                    <p class="card-text project-excerpt mb-2">\<newline>''
        @ ''                        ''
        @ w_title writeup
        @ '' This writeup documents the discovery and analysis...\<newline>''
        @ ''                    </p>\<newline>''
        @ ''                    <small class="project-date mb-2">\<newline>''
        @ ''                        <i class="fas fa-calendar me-1"></i>''
        @ w_created_date writeup
        @ ''\<newline>''
        @ ''                    </small>\<newline>''
        @ ''                    \<newline>''
        @ ''                    <div class="tag-container">\<newline>''
        @ ''                        ''
        @ join ''\<newline>'' (map (\<lambda>tag. ''<a href="tag-''
        @ tag
        @ ''.html" class="tag-badge me-1">''
        @ tag
        @ ''</a>'') (w_tags writeup))
        @ ''\<newline>''
        @ ''                    </div>\<newline>''
        @ ''                    \<newline>''
        @ ''                </div>\<newline>''
        @ ''                <div class="d-none d-md-block">\<newline>''
        @ ''                    <img\<newline>''
        @ ''                        src="''
        @ w_machine_photo writeup
        @ ''"\<newline>''
        @ ''                        alt="Writeup image"\<newline>''
        @ ''                        class="writeup-thumb"\<newline>''
        @ ''                    />\<newline>''
        @ ''                </div>\<newline>''
        @ ''            </div>\<newline>''
        @ ''        </div>\<newline>''
        @ ''    </div>'')\<close>

text \<open>The body of the loop of \<^verbatim>\<open>_generate_writeups_grid\<close>, lines 1079-1115: the card of one writeup on the writeups listing.\<close>

definition writeups_grid_card :: "writeup \<Rightarrow> string" where
  \<open>writeups_grid_card writeup =
     (''    <div class="col-lg-6 col-xl-4 mb-4 writeup-card" data-category="">\<newline>''
        @ ''        <div class="card h-100 border-0 shadow-sm">\<newline>''
        @ ''            <div class="card-body d-flex align-items-start gap-3">\<newline>''
        @ ''                <div class="flex-grow-1">\<newline>''
        @ ''                    <h5 class="card-title mb-2 writeup-title">\<newline>''
        @ ''                        <a href="writeups/''
        @ w_filename writeup
        @ ''" class="text-decoration-none">\<newline>''
        @ ''                            ''
        @ w_title writeup
        @ ''\<newline>''
        @ ''                        </a>\<newline>''
        @ ''                    </h5>\<newline>''
        @ ''                    <p class="card-text project-excerpt mb-2">\<newline>''
        @ ''                        ''
        @ w_title writeup
        @ '' This writeup documents the discovery and analysis...\<newline>''
        @ ''                    </p>\<newline>''
        @ ''                    <small class="project-date mb-2">\<newline>''
        @ ''                        <i class="fas fa-calendar me-1"></i>''
        @ w_created_date writeup
        @ ''\<newline>''
        @ ''                    </small>\<newline>''
        @ ''                    \<newline>''
        @ ''                    <div class="tag-container">\<newline>''
        @ ''                        ''
        @ join ''\<newline>'' (map (\<lambda>tag. ''<a href="tags/tag-''
        @ tag
        @ ''.html" class="tag-badge me-1">''
        @ tag
        @ ''</a>'') (w_tags writeup))
        @ ''\<newline>''
        @ ''                    </div>\<newline>''
        @ ''                    \<newline>''
        @ ''                </div>\<newline>''
        @ ''                <div class="d-none d-md-block">\<newline>''
        @ ''                    <img\<newline>''
        @ ''                        src="''
        @ w_machine_photo writeup
        @ ''"\<newline>''
        @ ''                        alt="Writeup image"\<newline>''
        @ ''                        class="writeup-thumb"\<newline>''
        @ ''                    />\<newline>''
        @ ''                </div>\<newline>''
        @ ''            </div>\<newline>''
        @ ''        </div>\<newline>''
        @ ''    </div>'')\<close>

text \<open>The body of the loop of \<^verbatim>\<open>_generate_recent_posts\<close>, lines 1166-1202: the card of one writeup on the home page.\<close>

definition recent_posts_card :: "writeup \<Rightarrow> string" where
  \<open>recent_posts_card writeup =
     (''    <div class="col-12 mb-4 writeup-card" data-category="">\<newline>''
        @ ''        <div class="card h-100 border-0 shadow-sm">\<newline>''
        @ ''            <div class="card-body d-flex align-items-start gap-3">\<newline>''
        @ ''                <div class="flex-grow-1">\<newline>''
        @ ''                    <h5 class="card-title mb-2 writeup-title">\<newline>''
        @ ''                        <a href="writeups/''
        @ w_filename writeup
        @ ''" class="text-decoration-none">\<newline>''
        @ ''                            ''
        @ w_title writeup
        @ ''\<newline>''
        @ ''                        </a>\<newline>''
        @ ''                    </h5>\<newline>''
        @ ''                    <p class="card-text project-excerpt mb-2">\<newline>''
        @ ''                        ''
        @ w_title writeup
        @ '' This writeup documents the discovery and analysis...\<newline>''
        @ ''                    </p>\<newline>''
        @ ''                    <small class="project-date mb-2">\<newline>''
        @ ''                        <i class="fas fa-calendar me-1"></i>''
        @ w_created_date writeup
        @ ''\<newline>''
        @ ''                    </small>\<newline>''
        @ ''                                                \<newline>''
        @ ''                            <div class="tag-container">\<newline>''
        @ ''                                ''
        @ join ''\<newline>'' (map (\<lambda>tag. ''<a href="tags/tag-''
        @ tag
        @ ''.html" class="tag-badge me-1">''
        @ tag
        @ ''</a>'') (w_tags writeup))
        @ ''\<newline>''
        @ ''                            </div>\<newline>''
        @ ''                            \<newline>''
        @ ''                </div>\<newline>''
        @ ''                <div class="d-none d-md-block">\<newline>''
        @ ''                    <img\<newline>''
        @ ''                        src="''
        @ w_machine_photo writeup
        @ ''"\<newline>''
        @ ''                        alt="Writeup image"\<newline>''
        @ ''                        class="writeup-thumb"\<newline>''
        @ ''                    />\<newline>''
        @ ''                </div>\<newline>''
        @ ''            </div>\<newline>''
        @ ''        </div>\<newline>''
        @ ''    </div>'')\<close>

text \<open>The body of the loop of \<^verbatim>\<open>_generate_tags_grid\<close>, lines 1124-1126: the card of one tag.\<close>

definition tags_grid_card :: "string \<Rightarrow> string" where
  \<open>tags_grid_card tag =
     (''    <div class="col-auto mb-2 tag-card" data-category="">\<newline>''
        @ ''        <a href="tags/tag-''
        @ tag
        @ ''.html" class="tag-badge">''
        @ tag
        @ ''</a>\<newline>''
        @ ''    </div>'')\<close>

text \<open>The body of the loop of \<^verbatim>\<open>_generate_projects_grid\<close>, lines 1134-1155: the card of one project.\<close>

definition projects_grid_card :: "project \<Rightarrow> string" where
  \<open>projects_grid_card project =
     (''    <div class="col-lg-6 col-xl-4 mb-4 project-card" data-category="">\<newline>''
        @ ''        <div class="card h-100 border-0 shadow-sm">\<newline>''
        @ ''            <div class="card-body">\<newline>''
        @ ''                <h5 class="card-title mb-2">\<newline>''
        @ ''                    <a href="''
        @ p_url project
        @ ''" target="_blank" class="text-decoration-none">\<newline>''
        @ ''                        ''
        @ p_title project
        @ ''\<newline>''
        @ ''                    </a>\<newline>''
        @ ''                </h5>\<newline>''
        @ ''                <p class="card-text project-excerpt mb-2">\<newline>''
        @ ''                    ''
        @ (case p_description project of None \<Rightarrow> p_title project
        @ '' - A cybersecurity project.'' | Some description \<Rightarrow> description)
        @ ''\<newline>''
        @ ''                </p>\<newline>''
        @ ''                <small class="project-date">\<newline>''
        @ ''                    <i class="fas fa-calendar me-1"></i>''
        @ p_date project
        @ ''\<newline>''
        @ ''                </small>\<newline>''
        @ ''            </div>\<newline>''
        @ ''        </div>\<newline>''
        @ ''    </div>'')\<close>

text \<open>\<^verbatim>\<open>_generate_writeup_cards_for_tag\<close>, lines 530-573.\<close>

definition generate_writeup_cards_for_tag :: "writeup list \<Rightarrow> string" where
  "generate_writeup_cards_for_tag writeups = join ''\<newline>'' (map writeup_card_for_tag writeups)"

text \<open>\<^verbatim>\<open>_generate_writeups_grid\<close>, lines 1075-1117.\<close>

definition generate_writeups_grid :: "generator \<Rightarrow> string" where
  "generate_writeups_grid g = join ''\<newline>'' (map writeups_grid_card (existing_writeups g))"

text \<open>
  \<^verbatim>\<open>_generate_tags_grid\<close>, lines 1119-1128: one card per known tag, the names sorted
  (\<^verbatim>\<open>sorted\<close> compares strings code point by code point, a prefix first).
\<close>

definition generate_tags_grid :: "generator \<Rightarrow> string" where
  "generate_tags_grid g =
     join ''\<newline>'' (map tags_grid_card (sorted_list_of_set (existing_tags g)))"

text \<open>\<^verbatim>\<open>_generate_projects_grid\<close>, lines 1130-1157.\<close>

definition generate_projects_grid :: "generator \<Rightarrow> string" where
  "generate_projects_grid g = join ''\<newline>'' (map projects_grid_card (existing_projects g))"

text \<open>\<^verbatim>\<open>_generate_recent_posts\<close>, lines 1159-1204: every writeup, newest first.\<close>

definition generate_recent_posts :: "generator \<Rightarrow> string" where
  "generate_recent_posts g = join ''\<newline>'' (map recent_posts_card (rev (existing_writeups g)))"

section \<open>Rewriting pages\<close>

text \<open>
  \<^verbatim>\<open>_update_writeup_tags\<close>, lines 204-234: its whole body is one \<^verbatim>\<open>try\<close>. The callers
  check that the file exists; a missing file would raise at \<^verbatim>\<open>open\<close> and be caught.
\<close>

definition update_writeup_tags :: "path \<Rightarrow> string list \<Rightarrow> generator \<Rightarrow> generator" where
  "update_writeup_tags writeup_file tags g =
     rewrite_file writeup_file (\<lambda>content. update_writeup_tags_content content tags) g"

definition tag_path :: "string \<Rightarrow> path" where
  "tag_path tag_name = (TagsDir, ''tag-'' @ tag_name @ ''.html'')"

text \<open>
  \<^verbatim>\<open>_update_single_tag_page\<close>, lines 486-528. The test of line 490 stands before the
  \<^verbatim>\<open>try\<close>, as it does in the four rewriters of the main pages below.
\<close>

definition update_single_tag_page :: "string \<Rightarrow> generator \<Rightarrow> outcome \<times> generator" where
  "update_single_tag_page tag_name g =
     (let tag_file = tag_path tag_name in
      case exists_file g tag_file of
        None \<Rightarrow> (Raised, g)
      | Some found \<Rightarrow>
          if \<not> found then (Done, g)
          else
            let writeups_with_tag =
                  filter (\<lambda>w. tag_name \<in> set (w_tags w)) (existing_writeups g);
                writeup_cards_html = generate_writeup_cards_for_tag writeups_with_tag
            in (Done,
                rewrite_file tag_file
                  (\<lambda>content. update_single_tag_page_content content writeup_cards_html) g))"

text \<open>
  \<^verbatim>\<open>_update_all_tag_pages\<close>, lines 475-484. The program iterates over a Python set, in an
  order it does not fix; each iteration rewrites the page of its own tag only, so the
  order chosen here (first appearance) does not show in the result of a loop that
  runs to its end (\<open>update_all_tag_pages_any_order\<close> below). Where an iteration raises,
  which pages were rewritten before it depends on the order, and the state given here is
  the one of this order.
\<close>

fun update_tag_pages :: "string list \<Rightarrow> generator \<Rightarrow> outcome \<times> generator" where
  "update_tag_pages [] g = (Done, g)"
| "update_tag_pages (tag # tags) g =
     and_then (update_single_tag_page tag g) (\<lambda>g1. update_tag_pages tags g1)"

definition update_all_tag_pages :: "generator \<Rightarrow> outcome \<times> generator" where
  "update_all_tag_pages g =
     (let all_used_tags = remdups (concat (map w_tags (existing_writeups g)))
      in update_tag_pages all_used_tags g)"

text \<open>\<^verbatim>\<open>_update_writeups_page\<close>, lines 921-958.\<close>

definition update_writeups_page :: "generator \<Rightarrow> outcome \<times> generator" where
  "update_writeups_page g =
     (let writeups_file = (BaseDir, ''writeups.html'') in
      case exists_file g writeups_file of
        None \<Rightarrow> (Raised, g)
      | Some found \<Rightarrow>
          if \<not> found then (Done, g)
          else (Done,
                rewrite_file writeups_file
                  (\<lambda>content. update_writeups_page_content content (generate_writeups_grid g)) g))"

text \<open>\<^verbatim>\<open>_update_tags_page\<close>, lines 960-996.\<close>

definition tags_container_start_marker :: string where
  \<open>tags_container_start_marker = ''<div class="row" id="tagsContainer">''\<close>

definition update_tags_page_content :: "string \<Rightarrow> string \<Rightarrow> error + string" where
  "update_tags_page_content content tags_content =
     replace_region content tags_container_start_marker main_end_marker 0
       ''\<newline>'' tags_content ''\<newline>''"

definition update_tags_page :: "generator \<Rightarrow> outcome \<times> generator" where
  "update_tags_page g =
     (let tags_file = (BaseDir, ''tags.html'') in
      case exists_file g tags_file of
        None \<Rightarrow> (Raised, g)
      | Some found \<Rightarrow>
          if \<not> found then (Done, g)
          else (Done,
                rewrite_file tags_file
                  (\<lambda>content. update_tags_page_content content (generate_tags_grid g)) g))"

text \<open>\<^verbatim>\<open>_update_projects_page\<close>, lines 998-1034.\<close>

definition projects_start_marker :: string where
  \<open>projects_start_marker =
     ''<div class="mb-4">\<newline>''
     @ ''    <h2><i class="fas fa-code me-2"></i>Projects</h2>\<newline>''
     @ ''</div>\<newline>''
     @ ''\<newline>''
     @ ''<div class="row">''\<close>

definition update_projects_page_content :: "string \<Rightarrow> string \<Rightarrow> error + string" where
  "update_projects_page_content content projects_content =
     replace_region content projects_start_marker main_end_marker 0
       ''\<newline>'' projects_content ''\<newline>''"

definition update_projects_page :: "generator \<Rightarrow> outcome \<times> generator" where
  "update_projects_page g =
     (let projects_file = (BaseDir, ''projects.html'') in
      case exists_file g projects_file of
        None \<Rightarrow> (Raised, g)
      | Some found \<Rightarrow>
          if \<not> found then (Done, g)
          else (Done,
                rewrite_file projects_file
                  (\<lambda>content. update_projects_page_content content (generate_projects_grid g)) g))"

text \<open>\<^verbatim>\<open>_update_home_page\<close>, lines 1036-1073.\<close>

definition recent_posts_start_marker :: string where
  \<open>recent_posts_start_marker =
     ''<div class="mb-4">\<newline>''
     @ ''    <h2><i class="fas fa-clock me-2"></i>Recent Posts</h2>\<newline>''
     @ ''</div>\<newline>''
     @ ''\<newline>''
     @ ''<div class="row">''\<close>

definition update_home_page_content :: "string \<Rightarrow> string \<Rightarrow> error + string" where
  "update_home_page_content content recent_posts_content =
     replace_region content recent_posts_start_marker main_end_marker 0
       ''\<newline>'' recent_posts_content ''\<newline>''"

definition update_home_page :: "generator \<Rightarrow> outcome \<times> generator" where
  "update_home_page g =
     (let home_file = (BaseDir, ''index.html'') in
      case exists_file g home_file of
        None \<Rightarrow> (Raised, g)
      | Some found \<Rightarrow>
          if \<not> found then (Done, g)
          else (Done,
                rewrite_file home_file
                  (\<lambda>content. update_home_page_content content (generate_recent_posts g)) g))"

text \<open>\<^verbatim>\<open>update_main_pages\<close>, lines 466-473: the listing refresh.\<close>

definition update_main_pages :: "generator \<Rightarrow> outcome \<times> generator" where
  "update_main_pages g =
     and_then (update_writeups_page g) (\<lambda>g1.
     and_then (update_tags_page g1) (\<lambda>g2.
     and_then (update_projects_page g2) (\<lambda>g3.
     and_then (update_home_page g3) (\<lambda>g4.
     update_all_tag_pages g4))))"

section \<open>Tags\<close>

text \<open>
  \<^verbatim>\<open>str.lower\<close> on code points below 256: the letters A-Z and the capital letters of
  Latin-1 (192-222 but the multiplication sign 215) move up by 32.
\<close>

definition lower_char :: "char \<Rightarrow> char" where
  "lower_char c =
     (let n = (of_char c :: nat)
      in if (65 \<le> n \<and> n \<le> 90) \<or> (192 \<le> n \<and> n \<le> 222 \<and> n \<noteq> 215) then char_of (n + 32) else c)"

definition lower :: "string \<Rightarrow> string" where
  "lower s = map lower_char s"

text \<open>
  The search loops of lines 179-182 and 425-428: the position of the first writeup whose
  title equals \<open>title\<close> up to case.
\<close>

fun index_where :: "('a \<Rightarrow> bool) \<Rightarrow> 'a list \<Rightarrow> nat option" where
  "index_where P [] = None"
| "index_where P (x # xs) = (if P x then Some 0 else map_option Suc (index_where P xs))"

text \<open>
  \<^verbatim>\<open>_add_tag_to_writeups\<close>, lines 174-202: \<open>add_tag_to_writeup\<close> is one round of its loop.
  The writeup found is a dict of the list \<^verbatim>\<open>existing_writeups\<close>, changed in place: here the
  list is updated at its position. The test of line 198 stands in no \<^verbatim>\<open>try\<close> of this
  function: where it raises, the tag is in the list already and the page is not rewritten.
\<close>

definition add_tag_to_writeup :: "string \<Rightarrow> string \<Rightarrow> generator \<Rightarrow> outcome \<times> generator" where
  "add_tag_to_writeup tag_name title g =
     (case index_where (\<lambda>w. lower (w_title w) = lower title) (existing_writeups g) of
        None \<Rightarrow> (Done, g)
      | Some i \<Rightarrow>
          (let writeup_to_update = existing_writeups g ! i in
           if tag_name \<in> set (w_tags writeup_to_update) then (Done, g)
           else
             let updated = writeup_to_update\<lparr>w_tags := w_tags writeup_to_update @ [tag_name]\<rparr>;
                 g1 = g\<lparr>existing_writeups := (existing_writeups g)[i := updated]\<rparr>;
                 writeup_file = (WriteupsDir, w_filename updated)
             in case exists_file g1 writeup_file of
                  None \<Rightarrow> (Raised, g1)
                | Some found \<Rightarrow>
                    if found then (Done, update_writeup_tags writeup_file (w_tags updated) g1)
                    else (Done, g1)))"

fun add_tag_to_writeups :: "string \<Rightarrow> string list \<Rightarrow> generator \<Rightarrow> outcome \<times> generator" where
  "add_tag_to_writeups tag_name [] g = (Done, g)"
| "add_tag_to_writeups tag_name (title # writeup_titles) g =
     and_then (add_tag_to_writeup tag_name title g)
       (\<lambda>g1. add_tag_to_writeups tag_name writeup_titles g1)"

text \<open>
  \<^verbatim>\<open>create_tag\<close>, lines 146-172. The test of line 151 stands before the \<^verbatim>\<open>try\<close> of lines
  158-172: where it raises, the exception leaves \<^verbatim>\<open>create_tag\<close>. The \<^verbatim>\<open>try\<close> holds the write,
  the new name and the call of \<^verbatim>\<open>_add_tag_to_writeups\<close>: an exception of that call is caught
  here, after the changes made before it. \<^verbatim>\<open>writeup_titles\<close> is \<^verbatim>\<open>None\<close> or a list;
  \<^verbatim>\<open>if writeup_titles\<close> holds for a list that is not empty.
\<close>

definition create_tag ::
  "string \<Rightarrow> string \<Rightarrow> string list option \<Rightarrow> generator \<Rightarrow> outcome \<times> generator" where
  "create_tag tag_name description writeup_titles g =
     (let tag_file = tag_path tag_name in
      case exists_file g tag_file of
        None \<Rightarrow> (Raised, g)
      | Some found \<Rightarrow>
          if found then (Failed AlreadyExists, g)
          else
            (case write_file tag_file (generate_tag_html tag_name description) g of
               Inl e \<Rightarrow> (Failed IOFailure, g)
             | Inr g1 \<Rightarrow>
                 (let g2 = g1\<lparr>existing_tags := insert tag_name (existing_tags g1)\<rparr> in
                  case writeup_titles of
                    None \<Rightarrow> (Done, g2)
                  | Some titles \<Rightarrow>
                      if titles \<noteq> [] then
                        (let r = add_tag_to_writeups tag_name titles g2 in
                         if fst r = Raised then (Failed IOFailure, snd r) else (Done, snd r))
                      else (Done, g2))))"

text \<open>
  \<^verbatim>\<open>_remove_tag_from_writeups\<close>, lines 420-448, with \<open>remove_tag_from_writeup\<close> one round of
  its loop; \<^verbatim>\<open>list.remove\<close> drops the first occurrence. The test of line 444 stands in no
  \<^verbatim>\<open>try\<close>.
\<close>

definition remove_tag_from_writeup ::
  "string \<Rightarrow> string \<Rightarrow> generator \<Rightarrow> outcome \<times> generator" where
  "remove_tag_from_writeup tag_name title g =
     (case index_where (\<lambda>w. lower (w_title w) = lower title) (existing_writeups g) of
        None \<Rightarrow> (Done, g)
      | Some i \<Rightarrow>
          (let writeup_to_update = existing_writeups g ! i in
           if tag_name \<notin> set (w_tags writeup_to_update) then (Done, g)
           else
             let updated = writeup_to_update\<lparr>w_tags := remove1 tag_name (w_tags writeup_to_update)\<rparr>;
                 g1 = g\<lparr>existing_writeups := (existing_writeups g)[i := updated]\<rparr>;
                 writeup_file = (WriteupsDir, w_filename updated)
             in case exists_file g1 writeup_file of
                  None \<Rightarrow> (Raised, g1)
                | Some found \<Rightarrow>
                    if found then (Done, update_writeup_tags writeup_file (w_tags updated) g1)
                    else (Done, g1)))"

fun remove_tag_from_writeups ::
  "string \<Rightarrow> string list \<Rightarrow> generator \<Rightarrow> outcome \<times> generator" where
  "remove_tag_from_writeups tag_name [] g = (Done, g)"
| "remove_tag_from_writeups tag_name (title # writeup_titles) g =
     and_then (remove_tag_from_writeup tag_name title g)
       (\<lambda>g1. remove_tag_from_writeups tag_name writeup_titles g1)"

text \<open>
  \<^verbatim>\<open>remove_tag\<close>, lines 385-418. Neither the test of line 389 nor the calls of
  \<^verbatim>\<open>_remove_tag_from_writeups\<close> stand in a \<^verbatim>\<open>try\<close>; the \<^verbatim>\<open>try\<close> of lines 408-413 holds the
  \<^verbatim>\<open>unlink\<close> and the \<^verbatim>\<open>discard\<close>.
\<close>

definition remove_tag ::
  "string \<Rightarrow> string list option \<Rightarrow> generator \<Rightarrow> outcome \<times> generator" where
  "remove_tag tag_name from_writeups g =
     (let tag_file = tag_path tag_name in
      case exists_file g tag_file of
        None \<Rightarrow> (Raised, g)
      | Some found \<Rightarrow>
          if \<not> found then (Failed NotFound, g)
          else
            let detach_all =
                  (let writeups_with_tag =
                         filter (\<lambda>w. tag_name \<in> set (w_tags w)) (existing_writeups g)
                   in if writeups_with_tag \<noteq> []
                      then remove_tag_from_writeups tag_name (map w_title writeups_with_tag) g
                      else (Done, g));
                detached = (case from_writeups of
                              None \<Rightarrow> detach_all
                            | Some titles \<Rightarrow>
                                if titles \<noteq> [] then remove_tag_from_writeups tag_name titles g
                                else detach_all)
            in and_then detached (\<lambda>g1.
                 let remaining_writeups_with_tag =
                       filter (\<lambda>w. tag_name \<in> set (w_tags w)) (existing_writeups g1)
                 in if remaining_writeups_with_tag = []
                    then (case unlink tag_file g1 of
                            Inl e \<Rightarrow> (Failed IOFailure, g1)
                          | Inr g2 \<Rightarrow>
                              (Done, g2\<lparr>existing_tags := existing_tags g2 - {tag_name}\<rparr>))
                    else (Done, g1)))"

section \<open>Writeups\<close>

text \<open>\<^verbatim>\<open>s.replace(old, new)\<close> for a pattern \<open>old\<close> of one character.\<close>

definition replace_char :: "char \<Rightarrow> string \<Rightarrow> string \<Rightarrow> string" where
  "replace_char old new s = concat (map (\<lambda>c. if c = old then new else [c]) s)"

text \<open>Lines 241 and 293: the file name derived from a title.\<close>

definition writeup_filename :: "string \<Rightarrow> string" where
  "writeup_filename title =
     ''writeup-''
     @ replace_char (CHR ''.'') [] (replace_char (CHR '':'') [] (replace_char (CHR '' '') ''-'' (lower title)))
     @ ''.html''"

text \<open>
  Lines 257-261 of \<^verbatim>\<open>create_writeup\<close>: every tag not yet known is created. The result of
  \<^verbatim>\<open>create_tag\<close> is not looked at; the loop stands in no \<^verbatim>\<open>try\<close>, so an exception that
  leaves \<^verbatim>\<open>create_tag\<close> leaves \<^verbatim>\<open>create_writeup\<close> as well.
\<close>

fun create_missing_tags :: "string list \<Rightarrow> generator \<Rightarrow> outcome \<times> generator" where
  "create_missing_tags [] g = (Done, g)"
| "create_missing_tags (tag # tags) g =
     (if tag \<notin> existing_tags g
      then and_then (create_tag tag [] None g) (\<lambda>g1. create_missing_tags tags g1)
      else create_missing_tags tags g)"

text \<open>
  \<^verbatim>\<open>create_writeup\<close>, lines 236-288. \<open>today\<close> is the date \<^verbatim>\<open>datetime.now()\<close> formats; a date
  argument is \<^verbatim>\<open>None\<close> or a string, and \<^verbatim>\<open>if not created_date\<close> holds for \<^verbatim>\<open>None\<close> and for the
  empty string. The test of line 245 stands before every \<^verbatim>\<open>try\<close>; the \<^verbatim>\<open>try\<close> of lines
  266-288 holds the write and the new entry of the list.
\<close>

definition create_writeup ::
  "string \<Rightarrow> string list \<Rightarrow> string \<Rightarrow> string option \<Rightarrow> string option \<Rightarrow> string \<Rightarrow> string \<Rightarrow> string
     \<Rightarrow> string \<Rightarrow> generator \<Rightarrow> outcome \<times> generator" where
  "create_writeup title tags machine_photo created_date updated_date difficulty os_type ip_address
       today g =
     (let filename = writeup_filename title;
          writeup_path = (WriteupsDir, filename)
      in case exists_file g writeup_path of
           None \<Rightarrow> (Raised, g)
         | Some found \<Rightarrow>
             if found then (Failed AlreadyExists, g)
             else
               let created = (case created_date of
                                None \<Rightarrow> today
                              | Some d \<Rightarrow> if d = [] then today else d);
                   updated = (case updated_date of
                                None \<Rightarrow> created
                              | Some d \<Rightarrow> if d = [] then created else d);
                   writeup_content =
                     generate_writeup_html title tags machine_photo created updated
                       difficulty os_type ip_address
               in and_then (create_missing_tags tags g) (\<lambda>g1.
                    case write_file writeup_path writeup_content g1 of
                      Inl e \<Rightarrow> (Failed IOFailure, g1)
                    | Inr g2 \<Rightarrow>
                        (Done,
                         g2\<lparr>existing_writeups :=
                              existing_writeups g2 @
                              [\<lparr>w_title = title, w_filename = filename,
                                w_created_date = created, w_updated_date = updated,
                                w_machine_photo = machine_photo, w_tags = tags,
                                w_difficulty = difficulty, w_os_type = os_type,
                                w_ip_address = ip_address\<rparr>]\<rparr>)))"

subsection \<open>Removing the cards of a deleted writeup from the tag pages\<close>

text \<open>
  Line 354 builds the pattern
  \<^verbatim>\<open><div class="col-lg-6 col-xl-4 mb-4 writeup-card"[^>]*>.*?FILENAME.*?</div>\s*</div>\s*</div>\<close>
  and line 355 deletes every match of it, with \<^verbatim>\<open>re.DOTALL\<close>. A match at a position is
  found as the backtracking matcher finds it: the opening text, the longest run without
  \<open>></\<close> and the \<open>></\<close> after it, the first occurrence of the file name from there, and the
  first place after it where the three closing tags stand with white space between them.
\<close>

definition card_open :: string where
  \<open>card_open = ''<div class="col-lg-6 col-xl-4 mb-4 writeup-card"''\<close>

text \<open>The characters \<^verbatim>\<open>\s\<close> matches among the code points below 256.\<close>

definition is_space :: "char \<Rightarrow> bool" where
  "is_space c = ((of_char c :: nat) \<in> {9, 10, 11, 12, 13, 28, 29, 30, 31, 32, 133, 160})"

text \<open>\<^verbatim>\<open></div>\s*</div>\s*</div>\<close> at the start of \<open>s\<close>: the length matched.\<close>

definition match_closing :: "string \<Rightarrow> nat option" where
  "match_closing s =
     (if prefix ''</div>'' s then
        (let s1 = dropWhile is_space (drop 6 s) in
         if prefix ''</div>'' s1 then
           (let s2 = dropWhile is_space (drop 6 s1) in
            if prefix ''</div>'' s2 then Some (length s - length s2 + 6) else None)
         else None)
      else None)"

text \<open>\<^verbatim>\<open>.*?\<close> and the closing tags: where the first closing ends.\<close>

fun find_closing :: "string \<Rightarrow> nat option" where
  "find_closing [] = None"
| "find_closing (c # cs) =
     (case match_closing (c # cs) of
        Some n \<Rightarrow> Some n
      | None \<Rightarrow> map_option Suc (find_closing cs))"

text \<open>The whole pattern at the start of \<open>s\<close>: the length matched.\<close>

definition match_card :: "string \<Rightarrow> string \<Rightarrow> nat option" where
  "match_card filename s =
     (if prefix card_open s then
        (case dropWhile (\<lambda>c. c \<noteq> CHR ''>'') (drop (length card_open) s) of
           [] \<Rightarrow> None
         | gt # body \<Rightarrow>
             (case find_first filename body of
                None \<Rightarrow> None
              | Some j \<Rightarrow>
                  (let rest = drop (j + length filename) body in
                   case find_closing rest of
                     None \<Rightarrow> None
                   | Some k \<Rightarrow> Some (length s - length rest + k))))
      else None)"

text \<open>
  \<^verbatim>\<open>re.sub(pattern, '', content)\<close>: the matches are taken from left to right and do not
  overlap; \<open>skip\<close> counts the characters of the current match still to drop.
\<close>

fun remove_cards_from :: "string \<Rightarrow> nat \<Rightarrow> string \<Rightarrow> string" where
  "remove_cards_from filename skip [] = []"
| "remove_cards_from filename skip (c # cs) =
     (if 0 < skip then remove_cards_from filename (skip - 1) cs
      else
        (case match_card filename (c # cs) of
           None \<Rightarrow> c # remove_cards_from filename 0 cs
         | Some n \<Rightarrow> remove_cards_from filename (n - 1) cs))"

definition remove_cards :: "string \<Rightarrow> string \<Rightarrow> string" where
  "remove_cards filename content = remove_cards_from filename 0 content"

text \<open>\<^verbatim>\<open>glob("tag-*.html")\<close> on a file name.\<close>

definition is_tag_file :: "string \<Rightarrow> bool" where
  "is_tag_file name = (prefix ''tag-'' name \<and> suffix ''.html'' name \<and> 9 \<le> length name)"

text \<open>
  The body of the loop of \<^verbatim>\<open>_remove_broken_links_from_tags\<close>, lines 348-364, for one tag
  page: read it, delete the cards, and write it back when the text changed; an exception
  is printed and the page left as it was.
\<close>

definition remove_broken_links_from_page :: "string \<Rightarrow> path \<Rightarrow> generator \<Rightarrow> generator" where
  "remove_broken_links_from_page filename tag_file g =
     (case read_file g tag_file of
        Inl e \<Rightarrow> g
      | Inr content \<Rightarrow>
          (let new_content = remove_cards filename content in
           if new_content \<noteq> content then
             (case write_file tag_file new_content g of Inl e \<Rightarrow> g | Inr g' \<Rightarrow> g')
           else g))"

text \<open>The directory \<^verbatim>\<open>tags_dir\<close> itself, for the faults of listing it.\<close>

definition tags_dir :: path where
  "tags_dir = (TagsDir, [])"

text \<open>
  \<^verbatim>\<open>_remove_broken_links_from_tags\<close>, lines 339-364. The listing of line 345 stands before
  the loop and in no \<^verbatim>\<open>try\<close>: it raises, or it lists nothing (\<^verbatim>\<open>glob\<close> of CPython 3.11
  swallows a \<^verbatim>\<open>PermissionError\<close> of \<^verbatim>\<open>scandir\<close>), or it lists the tag pages.
  The loop runs over the tag pages in the order \<^verbatim>\<open>glob\<close> lists them, which the program
  does not fix. Each round is one \<^verbatim>\<open>try\<close> and touches its own page only, so the result is
  given page by page: every tag page becomes what the body of the loop makes of it.
  (\<open>remove_broken_links_loop\<close> below shows that a loop over any listing of the tag pages
  gives this result.)
\<close>

definition remove_broken_links_from_tags :: "string \<Rightarrow> generator \<Rightarrow> outcome \<times> generator" where
  "remove_broken_links_from_tags filename g =
     (if faults g Stat tags_dir then (Raised, g)
      else if faults g Scan tags_dir then (Done, g)
      else (Done,
            g\<lparr>files :=
                (\<lambda>p. if fst p = TagsDir \<and> is_tag_file (snd p)
                     then files (remove_broken_links_from_page filename p g) p
                     else files g p)\<rparr>))"

text \<open>
  \<^verbatim>\<open>_cleanup_unused_tags\<close>, lines 366-383, with \<open>unlink_tag_file\<close> one round of its loop: the
  test of line 378 stands before the \<^verbatim>\<open>try\<close> of lines 379-383, which holds the \<^verbatim>\<open>unlink\<close>.
  The set \<^verbatim>\<open>existing_tags\<close> is not touched.
\<close>

definition unlink_tag_file :: "string \<Rightarrow> generator \<Rightarrow> outcome \<times> generator" where
  "unlink_tag_file tag g =
     (let tag_file = tag_path tag in
      case exists_file g tag_file of
        None \<Rightarrow> (Raised, g)
      | Some found \<Rightarrow>
          if found then (Done, case unlink tag_file g of Inl e \<Rightarrow> g | Inr g' \<Rightarrow> g')
          else (Done, g))"

fun unlink_tag_files :: "string list \<Rightarrow> generator \<Rightarrow> outcome \<times> generator" where
  "unlink_tag_files [] g = (Done, g)"
| "unlink_tag_files (tag # unused_tags) g =
     and_then (unlink_tag_file tag g) (\<lambda>g1. unlink_tag_files unused_tags g1)"

definition cleanup_unused_tags :: "string list \<Rightarrow> generator \<Rightarrow> outcome \<times> generator" where
  "cleanup_unused_tags tags_to_check g =
     (let all_used_tags = set (concat (map w_tags (existing_writeups g)));
          unused_tags = filter (\<lambda>tag. tag \<notin> all_used_tags) tags_to_check
      in unlink_tag_files unused_tags g)"

text \<open>
  \<^verbatim>\<open>remove_writeup\<close>, lines 290-337. The \<^verbatim>\<open>try\<close> of lines 311-319 holds the test of line 312
  and the \<^verbatim>\<open>unlink\<close>: an exception of either is reported and ends the call with \<^verbatim>\<open>False\<close>.
  The three calls that follow stand in no \<^verbatim>\<open>try\<close>.
\<close>

definition remove_writeup :: "string \<Rightarrow> generator \<Rightarrow> outcome \<times> generator" where
  "remove_writeup title g =
     (let filename = writeup_filename title;
          writeup_path = (WriteupsDir, filename)
      in case find (\<lambda>w. w_filename w = filename) (existing_writeups g) of
           None \<Rightarrow> (Failed NotFound, g)
         | Some writeup_to_remove \<Rightarrow>
             (let tags_to_check = w_tags writeup_to_remove in
              case (case exists_file g writeup_path of
                      None \<Rightarrow> Inl IOFailure
                    | Some found \<Rightarrow> if found then unlink writeup_path g else Inr g) of
                Inl e \<Rightarrow> (Failed IOFailure, g)
              | Inr g1 \<Rightarrow>
                  (let g2 = g1\<lparr>existing_writeups :=
                                 remove1 writeup_to_remove (existing_writeups g1)\<rparr>
                   in and_then (remove_broken_links_from_tags filename g2) (\<lambda>g3.
                      and_then (cleanup_unused_tags tags_to_check g3) (\<lambda>g4.
                      update_main_pages g4)))))"

section \<open>Reading the tags of a writeup page\<close>

text \<open>
  Lines 86-88 of \<^verbatim>\<open>_extract_writeup_metadata\<close>:
  \<^verbatim>\<open>tag_matches = re.findall(r'tag-([^"]+)\.html', content); tags = list(set(tag_matches))\<close>.

  A match at a position: the text \<open>tag-\<close>, then the run of characters up to the next
  double quote, given back from its end until \<open>.html\<close> follows at least one character
  of it. The group is what stands before that \<open>.html\<close>.
\<close>

definition match_tag_name :: "string \<Rightarrow> (string \<times> nat) option" where
  "match_tag_name s =
     (if prefix ''tag-'' s then
        (let run = takeWhile (\<lambda>c. c \<noteq> CHR 0x22) (drop 4 s) in
         case filter (\<lambda>k. prefix ''.html'' (drop k run)) (rev [1..<length run]) of
           [] \<Rightarrow> None
         | k # _ \<Rightarrow> Some (take k run, 4 + k + 5))
      else None)"

text \<open>\<^verbatim>\<open>re.findall\<close>: the groups of the matches, from left to right, without overlap.\<close>

fun findall_tag_names_from :: "nat \<Rightarrow> string \<Rightarrow> string list" where
  "findall_tag_names_from skip [] = []"
| "findall_tag_names_from skip (c # cs) =
     (if 0 < skip then findall_tag_names_from (skip - 1) cs
      else
        (case match_tag_name (c # cs) of
           None \<Rightarrow> findall_tag_names_from 0 cs
         | Some (name, n) \<Rightarrow> name # findall_tag_names_from (n - 1) cs))"

definition findall_tag_names :: "string \<Rightarrow> string list" where
  "findall_tag_names content = findall_tag_names_from 0 content"

text \<open>
  \<^verbatim>\<open>list(set(tag_matches))\<close>: the elements of the set, each once, in the order in which
  Python iterates over the set. That order follows the hashes of the strings, which
  change from one run to the next, so the program fixes no order: \<open>extracted_tags\<close> holds
  of every list the expression may give.
\<close>

definition extracted_tags :: "string \<Rightarrow> string list \<Rightarrow> bool" where
  "extracted_tags content tags =
     (distinct tags \<and> set tags = set (findall_tag_names content))"

section \<open>Occurrences of a marker\<close>

text \<open>
  \<open>first_occurrence s sub from i\<close>: \<open>i\<close> is the lowest index, not below \<open>from\<close>, at which
  \<open>sub\<close> occurs in \<open>s\<close>. \<open>absent_from s sub from\<close>: \<open>sub\<close> occurs at no index from \<open>from\<close> on.
\<close>

definition occurs_at :: "string \<Rightarrow> string \<Rightarrow> nat \<Rightarrow> bool" where
  "occurs_at s sub i = (i + length sub \<le> length s \<and> take (length sub) (drop i s) = sub)"

definition first_occurrence :: "string \<Rightarrow> string \<Rightarrow> nat \<Rightarrow> nat \<Rightarrow> bool" where
  "first_occurrence s sub from i =
     (from \<le> i \<and> occurs_at s sub i \<and> (\<forall>j. from \<le> j \<and> j < i \<longrightarrow> \<not> occurs_at s sub j))"

definition absent_from :: "string \<Rightarrow> string \<Rightarrow> nat \<Rightarrow> bool" where
  "absent_from s sub from = (\<forall>j. from \<le> j \<longrightarrow> \<not> occurs_at s sub j)"

text \<open>
  The splice as the specification words it: without the start marker the result is
  RegionNotFound; the end marker is looked for from the end of the first match of the
  start marker, and without it there the result is RegionNotFound; otherwise the text up
  to the end of the start marker, the new \<open>filling\<close> and the text from the matched end
  marker on.
\<close>

definition spec_splice :: "string \<Rightarrow> string \<Rightarrow> string \<Rightarrow> string \<Rightarrow> error + string \<Rightarrow> bool" where
  "spec_splice content start_marker end_marker filling result =
     ((absent_from content start_marker 0 \<longrightarrow> result = Inl RegionNotFound) \<and>
      (\<forall>sp. first_occurrence content start_marker 0 sp \<longrightarrow>
         (absent_from content end_marker (sp + length start_marker) \<longrightarrow>
            result = Inl RegionNotFound) \<and>
         (\<forall>ep. first_occurrence content end_marker (sp + length start_marker) ep \<longrightarrow>
            result =
              Inr (take (sp + length start_marker) content @ filling @ drop ep content))))"

text \<open>
  What a splice must leave alone: with the start marker matched at \<open>sp\<close> and the end marker
  at \<open>ep\<close>, the text up to the end of the start marker is a prefix of the new document,
  and the text from \<open>ep\<close> on is its suffix.
\<close>

definition outside_region_unchanged :: "string \<Rightarrow> string \<Rightarrow> string \<Rightarrow> string \<Rightarrow> bool" where
  "outside_region_unchanged content start_marker end_marker new_content =
     (\<exists>sp ep.
        first_occurrence content start_marker 0 sp \<and>
        first_occurrence content end_marker (sp + length start_marker) ep \<and>
        take (sp + length start_marker) new_content = take (sp + length start_marker) content \<and>
        length content - ep \<le> length new_content \<and>
        drop (length new_content - (length content - ep)) new_content = drop ep content)"

text \<open>
  Reading a region back, in the words of the specification: the text strictly between
  the start marker and the matched end marker, both located as the splice locates them
  (\<^verbatim>\<open>content[start_pos + len(start_marker):end_pos]\<close>).
\<close>

definition read_region :: "string \<Rightarrow> string \<Rightarrow> string \<Rightarrow> error + string" where
  "read_region content start_marker end_marker =
     (case py_find content start_marker 0 of
        None \<Rightarrow> Inl RegionNotFound
      | Some start_pos \<Rightarrow>
          (case py_find content end_marker (start_pos + length start_marker) of
             None \<Rightarrow> Inl RegionNotFound
           | Some end_pos \<Rightarrow>
               Inr (take (end_pos - (start_pos + length start_marker))
                      (drop (start_pos + length start_marker) content))))"

definition example_writeup_page :: string where
  \<open>example_writeup_page = ''<h1>Box</h1><div class="tag-container mb-4">old</div><p>end</p>''\<close>

definition example_listing_page :: string where
  \<open>example_listing_page =
     ''<main><div class="row" id="writeupsContainer">old</div>\<newline>\<newline>                </main>''\<close>

definition example_generator :: generator where
  "example_generator =
     \<lparr>files = [(WriteupsDir, ''writeup-box.html'') \<mapsto> ''<h1>Box</h1>'',
               (TagsDir, ''tag-web.html'') \<mapsto> ''<h2>Tag: web</h2>'',
               (BaseDir, ''writeups.html'') \<mapsto> ''<h2>Writeups</h2>''],
      faults = (\<lambda>operation p. False),
      existing_tags = {''web''},
      existing_writeups = [],
      existing_projects = []\<rparr>"

definition end_marker_fresh :: "string \<Rightarrow> string \<Rightarrow> bool" where
  "end_marker_fresh filling end_marker =
     first_occurrence (filling @ end_marker) end_marker 0 (length filling)"

definition example_writeup_page_linux :: string where
  \<open>example_writeup_page_linux =
     ''<h1>Box</h1><div class="tag-container mb-4">\<newline>''
     @ ''                        <a href="../tags/tag-linux.html" class="tag-badge me-1">linux</a>\<newline>''
     @ ''                    </div><p>end</p>''\<close>

definition example_listing_page_card :: string where
  \<open>example_listing_page_card =
     ''<main><div class="row" id="writeupsContainer">\<newline>''
     @ ''CARD\<newline>''
     @ ''</div>\<newline>\<newline>                </main>''\<close>

definition example_closing_tag_page :: string where
  \<open>example_closing_tag_page = ''<div class="tag-container mb-4"></div>''\<close>

definition example_closing_tag_page_once :: string where
  \<open>example_closing_tag_page_once =
     ''<div class="tag-container mb-4">\<newline>''
     @ ''                        <a href="../tags/tag-</div>.html" class="tag-badge me-1"></div></a>\<newline>''
     @ ''                    </div>''\<close>

definition example_closing_tag_page_twice :: string where
  \<open>example_closing_tag_page_twice =
     ''<div class="tag-container mb-4">\<newline>''
     @ ''                        <a href="../tags/tag-</div>.html" class="tag-badge me-1"></div></a>\<newline>''
     @ ''                    </div>.html" class="tag-badge me-1"></div></a>\<newline>''
     @ ''                    </div>''\<close>

definition example_tags_page :: string where
  \<open>example_tags_page =
     ''<main><div class="row" id="tagsContainer">old</div>\<newline>\<newline>                </main>''\<close>

definition example_box :: writeup where
  "example_box =
     \<lparr>w_title = ''Box'', w_filename = ''writeup-box.html'', w_created_date = ''January 01, 2025'',
      w_updated_date = ''January 01, 2025'', w_machine_photo = [], w_tags = [''web''],
      w_difficulty = [], w_os_type = [], w_ip_address = []\<rparr>"

definition example_portfolio :: generator where
  "example_portfolio =
     \<lparr>files = [(WriteupsDir, ''writeup-box.html'') \<mapsto> example_writeup_page,
               (TagsDir, ''tag-web.html'') \<mapsto> ''<h2>Tag: web</h2>'',
               (BaseDir, ''tags.html'') \<mapsto> example_tags_page],
      faults = (\<lambda>operation p. False),
      existing_tags = {''web''},
      existing_writeups = [example_box],
      existing_projects = []\<rparr>"

definition empty_portfolio :: generator where
  "empty_portfolio =
     \<lparr>files = (\<lambda>p. None), faults = (\<lambda>operation p. False), existing_tags = {},
      existing_writeups = [], existing_projects = []\<rparr>"

definition readonly_writeups_portfolio :: generator where
  "readonly_writeups_portfolio =
     empty_portfolio\<lparr>faults := (\<lambda>operation p. operation = Write \<and> fst p = WriteupsDir)\<rparr>"




definition example_tag_links :: string where
  "example_tag_links = writeup_tag_links [''web'', ''linux'', ''web'']"

definition stale_step_1 :: generator where
  "stale_step_1 =
     snd (create_writeup ''A'' [''t''] [] None None [] [] [] ''January 01, 2025'' empty_portfolio)"

definition stale_step_2 :: generator where
  "stale_step_2 = snd (remove_writeup ''A'' stale_step_1)"

definition stale_step_3 :: generator where
  "stale_step_3 =
     snd (create_writeup ''B'' [''t''] [] None None [] [] [] ''January 02, 2025'' stale_step_2)"

text \<open>
  A tag of 300 letters, and an empty portfolio on a file system whose file names hold
  at most 255 bytes: every operation on a longer name raises.
\<close>

definition long_tag :: string where
  "long_tag = replicate 300 (CHR ''t'')"

definition short_names_portfolio :: generator where
  "short_names_portfolio =
     empty_portfolio\<lparr>faults := (\<lambda>operation p. 255 < length (snd p))\<rparr>"

section \<open>Facts about searching\<close>

lemma occurs_at_prefix: "occurs_at s sub i = (i \<le> length s \<and> prefix sub (drop i s))"
proof
  assume h: "occurs_at s sub i"
  then have "take (length sub) (drop i s) = sub" and "i \<le> length s"
    by (simp_all add: occurs_at_def)
  then show "i \<le> length s \<and> prefix sub (drop i s)"
    by (metis take_is_prefix)
next
  assume h: "i \<le> length s \<and> prefix sub (drop i s)"
  then obtain r where r: "drop i s = sub @ r"
    by (auto simp: prefix_def)
  then have "length (drop i s) = length sub + length r"
    by simp
  then have "length s - i = length sub + length r"
    by simp
  with h have "i + length sub \<le> length s"
    by linarith
  with r show "occurs_at s sub i"
    by (simp add: occurs_at_def)
qed

lemma find_first_Some:
  "find_first sub s = Some i \<Longrightarrow>
     i \<le> length s \<and> prefix sub (drop i s) \<and> (\<forall>j<i. \<not> prefix sub (drop j s))"
proof (induction s arbitrary: i)
  case Nil
  then show ?case by (simp split: if_splits)
next
  case (Cons c cs)
  show ?case
  proof (cases "prefix sub (c # cs)")
    case True
    with Cons.prems show ?thesis by simp
  next
    case False
    with Cons.prems obtain k where k: "find_first sub cs = Some k" and i: "i = Suc k"
      by auto
    from Cons.IH [OF k] have ih: "k \<le> length cs" "prefix sub (drop k cs)"
      "\<forall>j<k. \<not> prefix sub (drop j cs)"
      by simp_all
    have "\<not> prefix sub (drop j (c # cs))" if "j < i" for j
    proof (cases j)
      case 0
      with False show ?thesis by simp
    next
      case (Suc j')
      with that i ih(3) show ?thesis by simp
    qed
    with ih i show ?thesis by simp
  qed
qed

lemma find_first_None: "find_first sub s = None \<Longrightarrow> \<not> prefix sub (drop j s)"
proof (induction s arbitrary: j)
  case Nil
  then show ?case by (simp split: if_splits)
next
  case (Cons c cs)
  then have a: "\<not> prefix sub (c # cs)" and b: "find_first sub cs = None"
    by (simp_all split: if_splits)
  show ?case
  proof (cases j)
    case 0
    with a show ?thesis by simp
  next
    case (Suc j')
    with Cons.IH [OF b] show ?thesis by simp
  qed
qed

lemma py_find_Some: "py_find s sub from = Some i \<Longrightarrow> first_occurrence s sub from i"
proof -
  assume h: "py_find s sub from = Some i"
  then have le: "from \<le> length s"
    by (simp add: py_find_def split: if_splits)
  from h obtain k where k: "find_first sub (drop from s) = Some k" and i: "i = from + k"
    by (auto simp: py_find_def split: if_splits)
  from find_first_Some [OF k]
  have f: "k \<le> length (drop from s)" "prefix sub (drop k (drop from s))"
    "\<forall>j<k. \<not> prefix sub (drop j (drop from s))"
    by simp_all
  have 1: "occurs_at s sub i"
    using f(1,2) le i by (simp add: occurs_at_prefix add.commute)
  have 2: "\<not> occurs_at s sub j" if "from \<le> j" "j < i" for j
  proof -
    from that i have "j - from < k" by simp
    with f(3) have "\<not> prefix sub (drop (j - from) (drop from s))" by blast
    with that show ?thesis by (simp add: occurs_at_prefix)
  qed
  from 1 2 i show ?thesis
    by (simp add: first_occurrence_def)
qed

lemma py_find_None: "py_find s sub from = None \<Longrightarrow> absent_from s sub from"
proof -
  assume h: "py_find s sub from = None"
  show ?thesis
    unfolding absent_from_def
  proof (intro allI impI)
    fix j assume j: "from \<le> j"
    show "\<not> occurs_at s sub j"
    proof (cases "length s < from")
      case True
      with j show ?thesis by (simp add: occurs_at_def)
    next
      case False
      with h have "find_first sub (drop from s) = None"
        by (simp add: py_find_def)
      then have "\<not> prefix sub (drop (j - from) (drop from s))"
        by (rule find_first_None)
      with j show ?thesis by (simp add: occurs_at_prefix)
    qed
  qed
qed

lemma first_occurrence_unique:
  "first_occurrence s sub from i \<Longrightarrow> first_occurrence s sub from j \<Longrightarrow> i = j"
  unfolding first_occurrence_def by (meson not_less_iff_gr_or_eq)

lemma first_occurrence_not_absent:
  "first_occurrence s sub from i \<Longrightarrow> \<not> absent_from s sub from"
  unfolding first_occurrence_def absent_from_def by blast

lemma py_find_eq_Some: "first_occurrence s sub from i \<Longrightarrow> py_find s sub from = Some i"
proof -
  assume h: "first_occurrence s sub from i"
  show ?thesis
  proof (cases "py_find s sub from")
    case None
    then show ?thesis
      using h first_occurrence_not_absent py_find_None by blast
  next
    case (Some j)
    then show ?thesis
      using h first_occurrence_unique py_find_Some by blast
  qed
qed

lemma py_find_eq_None: "absent_from s sub from \<Longrightarrow> py_find s sub from = None"
  using first_occurrence_not_absent py_find_Some by (cases "py_find s sub from") blast+

lemma replace_region_Inr:
  "replace_region content sm em skip b x a = Inr new \<longleftrightarrow>
     (\<exists>sp ep. first_occurrence content sm 0 sp \<and> first_occurrence content em (sp + skip) ep \<and>
        new = take (sp + length sm) content @ b @ x @ a @ drop ep content)"
  unfolding replace_region_def
  by (auto split: option.splits dest: py_find_Some simp: py_find_eq_Some)

lemma replace_region_Inl:
  "replace_region content sm em skip b x a = Inl e \<longleftrightarrow>
     e = RegionNotFound \<and>
     (absent_from content sm 0 \<or>
      (\<exists>sp. first_occurrence content sm 0 sp \<and> absent_from content em (sp + skip)))"
  unfolding replace_region_def
  by (auto split: option.splits dest: py_find_Some py_find_None first_occurrence_not_absent simp: py_find_eq_Some py_find_eq_None)

lemma replace_region_spec:
  "spec_splice content sm em (b @ x @ a) (replace_region content sm em (length sm) b x a)"
  unfolding spec_splice_def replace_region_def
  by (auto simp: py_find_eq_Some py_find_eq_None)

lemma occurs_at_drop: "occurs_at s sub i \<Longrightarrow> drop i s = sub @ drop (i + length sub) s"
  unfolding occurs_at_def
  by (metis append_take_drop_id drop_drop add.commute)

lemma find_first_past_container_start:
  "find_first main_end_marker (writeups_container_start_marker @ rest) =
     map_option (\<lambda>i. length writeups_container_start_marker + i) (find_first main_end_marker rest)"
  by (simp add: main_end_marker_def writeups_container_start_marker_def option.map_comp comp_def)

lemma py_find_past_container_start:
  assumes "occurs_at content writeups_container_start_marker sp"
  shows "py_find content main_end_marker sp =
         py_find content main_end_marker (sp + length writeups_container_start_marker)"
proof -
  let ?n = "length writeups_container_start_marker"
  from assms have le: "sp + ?n \<le> length content"
    by (simp add: occurs_at_def)
  from occurs_at_drop [OF assms]
  have d: "drop sp content = writeups_container_start_marker @ drop (sp + ?n) content" .
  show ?thesis
    using le
    by (cases "find_first main_end_marker (drop (sp + ?n) content)")
       (simp_all add: py_find_def d find_first_past_container_start)
qed

lemma replace_region_container_skip:
  "replace_region content writeups_container_start_marker main_end_marker 0 b x a =
   replace_region content writeups_container_start_marker main_end_marker
     (length writeups_container_start_marker) b x a"
proof (cases "py_find content writeups_container_start_marker 0")
  case None
  then show ?thesis by (simp add: replace_region_def)
next
  case (Some sp)
  then have "occurs_at content writeups_container_start_marker sp"
    using py_find_Some first_occurrence_def by blast
  from py_find_past_container_start [OF this] Some show ?thesis
    by (simp add: replace_region_def)
qed

lemma py_find_0: "py_find s sub 0 = find_first sub s"
  by (cases "find_first sub s") (simp_all add: py_find_def)

lemma prefix_append_long:
  assumes "length sub \<le> length u"
  shows "prefix sub (u @ r) = prefix sub u"
proof
  assume "prefix sub (u @ r)"
  then have "sub = take (length sub) (u @ r)"
    by (metis append_eq_conv_conj prefix_def)
  with assms have "sub = take (length sub) u" by simp
  then show "prefix sub u" by (metis take_is_prefix)
next
  assume "prefix sub u"
  then show "prefix sub (u @ r)" by (rule prefix_prefix)
qed

lemma find_first_self: "find_first sub (sub @ r) = Some 0"
proof (cases "sub @ r")
  case Nil
  then show ?thesis by simp
next
  case (Cons c cs)
  have "prefix sub (sub @ r)" by simp
  with Cons show ?thesis by simp
qed

lemma find_first_append_marker:
  "find_first sub (a @ sub @ r) = find_first sub (a @ sub)"
proof (induction a)
  case Nil
  show ?case using find_first_self [of sub r] find_first_self [of sub "[]"] by simp
next
  case (Cons c a)
  have "prefix sub ((c # a @ sub) @ r) = prefix sub (c # a @ sub)"
    by (rule prefix_append_long) simp
  with Cons show ?case by simp
qed

lemma find_first_before_marker:
  "\<exists>q. find_first sub (a @ sub) = Some q \<and> q \<le> length a"
proof (cases "find_first sub (a @ sub)")
  case None
  from find_first_None [OF this, of "length a"] show ?thesis by simp
next
  case (Some q)
  from find_first_Some [OF this] have "\<forall>j<q. \<not> prefix sub (drop j (a @ sub))" by simp
  then have "\<not> length a < q" by auto
  with Some show ?thesis by simp
qed

lemma find_first_keep_prefix:
  "find_first sub s = Some i \<Longrightarrow> find_first sub (take (i + length sub) s @ r) = Some i"
proof (induction s arbitrary: i)
  case Nil
  then show ?case using find_first_self [of "[]" r] by (simp split: if_splits)
next
  case (Cons c cs)
  show ?case
  proof (cases "prefix sub (c # cs)")
    case True
    with Cons.prems have i: "i = 0" by simp
    from True have "take (length sub) (c # cs) = sub"
      by (metis append_eq_conv_conj prefix_def)
    with i show ?thesis using find_first_self [of sub r] by simp
  next
    case False
    with Cons.prems obtain k where k: "find_first sub cs = Some k" and i: "i = Suc k"
      by auto
    from find_first_Some [OF k] have "k \<le> length cs" "prefix sub (drop k cs)" by simp_all
    then have len: "k + length sub \<le> length cs"
      using occurs_at_prefix [of cs sub k] by (simp add: occurs_at_def)
    have "prefix sub ((c # take (k + length sub) cs) @ r) = prefix sub (c # take (k + length sub) cs)"
      by (rule prefix_append_long) (use len in simp)
    moreover have "\<not> prefix sub (c # take (k + length sub) cs)"
      using False by (metis Cons_prefix_Cons prefix_order.trans take_is_prefix prefix_code(1) list.exhaust)
    ultimately have "\<not> prefix sub (c # take (k + length sub) cs @ r)" by simp
    then show ?thesis using Cons.IH [OF k] i by simp
  qed
qed

text \<open>What a second look at a spliced document finds.\<close>

lemma replace_region_relocate:
  assumes "replace_region content sm em (length sm) b x a = Inr new"
  obtains sp ep q where
    "first_occurrence content sm 0 sp"
    "first_occurrence content em (sp + length sm) ep"
    "new = take (sp + length sm) content @ (b @ x @ a) @ drop ep content"
    "length (take (sp + length sm) content) = sp + length sm"
    "py_find new sm 0 = Some sp"
    "find_first em ((b @ x @ a) @ em) = Some q" "q \<le> length (b @ x @ a)"
    "py_find new em (sp + length sm) = Some (sp + length sm + q)"
proof -
  let ?Y = "b @ x @ a"
  from assms obtain sp ep where
    sp: "first_occurrence content sm 0 sp" and
    ep: "first_occurrence content em (sp + length sm) ep" and
    new: "new = take (sp + length sm) content @ ?Y @ drop ep content"
    by (auto simp: replace_region_Inr)
  from sp have len: "sp + length sm \<le> length content"
    by (simp add: first_occurrence_def occurs_at_def)
  then have lp: "length (take (sp + length sm) content) = sp + length sm" by simp
  from sp have "find_first sm content = Some sp"
    using py_find_eq_Some py_find_0 by metis
  from find_first_keep_prefix [OF this] new have 1: "py_find new sm 0 = Some sp"
    by (simp add: py_find_0)
  from ep have "occurs_at content em ep" by (simp add: first_occurrence_def)
  from occurs_at_drop [OF this] obtain S' where S: "drop ep content = em @ S'" by blast
  obtain q where q: "find_first em (?Y @ em) = Some q" "q \<le> length ?Y"
    using find_first_before_marker by blast
  have d: "drop (sp + length sm) new = ?Y @ em @ S'"
    using new lp S by (metis append_eq_conv_conj)
  have "find_first em (drop (sp + length sm) new) = Some q"
    using q(1) find_first_append_marker [of em ?Y S'] by (simp only: d)
  moreover have "sp + length sm \<le> length new" using new lp by simp
  ultimately have 2: "py_find new em (sp + length sm) = Some (sp + length sm + q)"
    by (simp add: py_find_def)
  from sp ep new lp 1 q 2 show ?thesis using that by blast
qed

lemma first_occurrence_0: "first_occurrence s sub 0 i = (find_first sub s = Some i)"
  using py_find_eq_Some py_find_Some py_find_0 by metis

lemma replace_region_read_back:
  assumes "replace_region content sm em (length sm) b x a = Inr new"
  shows "read_region new sm em = Inr (b @ x @ a) \<longleftrightarrow>
         first_occurrence ((b @ x @ a) @ em) em 0 (length (b @ x @ a))"
proof -
  let ?Y = "b @ x @ a"
  from assms obtain sp ep q where
    new: "new = take (sp + length sm) content @ ?Y @ drop ep content" and
    lp: "length (take (sp + length sm) content) = sp + length sm" and
    1: "py_find new sm 0 = Some sp" and
    q: "find_first em (?Y @ em) = Some q" "q \<le> length ?Y" and
    2: "py_find new em (sp + length sm) = Some (sp + length sm + q)"
    by (rule replace_region_relocate)
  have d: "drop (sp + length sm) new = ?Y @ drop ep content"
    using new lp by (metis append_eq_conv_conj)
  have "read_region new sm em = Inr (take q ?Y)"
    using 1 2 q(2) by (simp add: read_region_def d)
  moreover have "take q ?Y = ?Y \<longleftrightarrow> q = length ?Y"
    using q(2) by (metis length_take min.absorb2 take_all order_refl)
  ultimately show ?thesis using q(1) by (simp add: first_occurrence_0)
qed

lemma replace_region_twice:
  assumes "replace_region content sm em (length sm) b x a = Inr new"
  shows "replace_region new sm em (length sm) b x a = Inr new \<longleftrightarrow>
         first_occurrence ((b @ x @ a) @ em) em 0 (length (b @ x @ a))"
proof -
  let ?Y = "b @ x @ a"
  let ?P = "take (sp + length sm) content"
  from assms obtain sp ep q where
    new: "new = take (sp + length sm) content @ ?Y @ drop ep content" and
    lp: "length (take (sp + length sm) content) = sp + length sm" and
    1: "py_find new sm 0 = Some sp" and
    q: "find_first em (?Y @ em) = Some q" "q \<le> length ?Y" and
    2: "py_find new em (sp + length sm) = Some (sp + length sm + q)"
    by (rule replace_region_relocate)
  have t: "take (sp + length sm) new = take (sp + length sm) content"
    using new lp by (metis append_eq_conv_conj)
  have d: "drop (sp + length sm + q) new = drop q (?Y @ drop ep content)"
    using new lp by (metis append_eq_conv_conj drop_drop add.commute)
  have r: "replace_region new sm em (length sm) b x a =
        Inr (take (sp + length sm) content @ ?Y @ drop q (?Y @ drop ep content))"
    using 1 2 by (simp add: replace_region_def t d)
  have "drop q (?Y @ drop ep content) = drop ep content \<longleftrightarrow> q = length ?Y"
  proof
    assume "drop q (?Y @ drop ep content) = drop ep content"
    then have "length (drop q (?Y @ drop ep content)) = length (drop ep content)" by simp
    with q(2) show "q = length ?Y" by simp
  next
    assume "q = length ?Y"
    then show "drop q (?Y @ drop ep content) = drop ep content" by simp
  qed
  then show ?thesis using q(1) new r by (simp add: first_occurrence_0)
qed

lemma replace_region_frame:
  assumes "replace_region content sm em (length sm) b x a = Inr new"
  shows "outside_region_unchanged content sm em new"
proof -
  from assms obtain sp ep where
    sp: "first_occurrence content sm 0 sp" and
    ep: "first_occurrence content em (sp + length sm) ep" and
    new: "new = take (sp + length sm) content @ (b @ x @ a) @ drop ep content"
    by (auto simp: replace_region_Inr)
  from sp have lp: "length (take (sp + length sm) content) = sp + length sm"
    by (simp add: first_occurrence_def occurs_at_def)
  have t: "take (sp + length sm) new = take (sp + length sm) content"
    using new lp by (metis append_eq_conv_conj)
  have l: "length new = sp + length sm + length (b @ x @ a) + (length content - ep)"
    using new lp by simp
  then have "length new - (length content - ep) = length (take (sp + length sm) content @ (b @ x @ a))"
    using lp by simp
  then have "drop (length new - (length content - ep)) new = drop ep content"
    using new by (metis append.assoc append_eq_conv_conj)
  with sp ep t l show ?thesis
    unfolding outside_region_unchanged_def by (intro exI [of _ sp] exI [of _ ep]) simp
qed

lemma replace_region_Inl_any:
  "replace_region content sm em skip b x a = Inl e \<Longrightarrow>
   replace_region content sm em skip b' x' a' = Inl e"
  by (auto simp: replace_region_def split: option.splits)

lemma rewrite_file_Inl:
  "files g p = Some stored \<Longrightarrow> f (universal_newlines stored) = Inl e \<Longrightarrow>
   rewrite_file p f g = g"
  by (simp add: rewrite_file_def read_file_def)

lemma and_then_simps [simp]:
  "fst (and_then r k) = (if fst r = Raised then Raised else fst (k (snd r)))"
  "snd (and_then r k) = (if fst r = Raised then snd r else snd (k (snd r)))"
  by (simp_all add: and_then_def)

lemma and_then_Done [simp]: "and_then (Done, g) k = k g"
  by (simp add: and_then_def)

lemma and_then_Failed [simp]: "and_then (Failed e, g) k = k g"
  by (simp add: and_then_def)

lemma and_then_Raised [simp]: "and_then (Raised, g) k = (Raised, g)"
  by (simp add: and_then_def)

lemma exists_file_eq [simp]:
  "(exists_file g p = None) = faults g Stat p"
  "(exists_file g p = Some b) = (\<not> faults g Stat p \<and> b = (files g p \<noteq> None))"
  by (auto simp: exists_file_def)

text \<open>
  Claim C1. The tag-region rewrite, the per-tag-page rewrite and the writeups-listing
  rewrite locate their region as the specification says: without the start marker the
  result is RegionNotFound; the end marker is looked for from the end of the first match
  of the start marker, and without it there the result is RegionNotFound; otherwise the
  region is replaced. On RegionNotFound the file is left as it was. (The text searched
  is the text read from the file.)
\<close>

theorem splice_locates_region:
  "spec_splice content writeup_tags_start_marker writeup_tags_end_marker
     (writeup_tags_before @ writeup_tag_links tags @ writeup_tags_after)
     (update_writeup_tags_content content tags) \<and>
   spec_splice content writeups_container_start_marker main_end_marker
     (''\<newline>'' @ writeup_cards_html @ ''\<newline>'')
     (update_single_tag_page_content content writeup_cards_html) \<and>
   spec_splice content writeups_container_start_marker main_end_marker
     (''\<newline>'' @ writeups_content @ ''\<newline>'')
     (update_writeups_page_content content writeups_content) \<and>
   (files g p = Some stored \<and>
    update_writeup_tags_content (universal_newlines stored) tags = Inl RegionNotFound
      \<longrightarrow> update_writeup_tags p tags g = g) \<and>
   (files g (tag_path tag_name) = Some stored \<and>
    update_single_tag_page_content (universal_newlines stored) writeup_cards_html
      = Inl RegionNotFound
      \<longrightarrow> snd (update_single_tag_page tag_name g) = g) \<and>
   (files g (BaseDir, ''writeups.html'') = Some stored \<and>
    update_writeups_page_content (universal_newlines stored) writeups_content
      = Inl RegionNotFound
      \<longrightarrow> snd (update_writeups_page g) = g)"
proof -
  have 1: "spec_splice content writeup_tags_start_marker writeup_tags_end_marker
     (writeup_tags_before @ writeup_tag_links tags @ writeup_tags_after)
     (update_writeup_tags_content content tags)"
    unfolding update_writeup_tags_content_def by (rule replace_region_spec)
  have 2: "spec_splice content writeups_container_start_marker main_end_marker
     (''\<newline>'' @ x @ ''\<newline>'') (update_single_tag_page_content content x)" for x
    unfolding update_single_tag_page_content_def replace_region_container_skip
    by (rule replace_region_spec)
  have 3: "spec_splice content writeups_container_start_marker main_end_marker
     (''\<newline>'' @ x @ ''\<newline>'') (update_writeups_page_content content x)" for x
    unfolding update_writeups_page_content_def replace_region_container_skip
    by (rule replace_region_spec)
  have 4: "update_writeup_tags p tags g = g"
    if "files g p = Some stored"
      "update_writeup_tags_content (universal_newlines stored) tags = Inl RegionNotFound"
    using that by (simp add: update_writeup_tags_def rewrite_file_Inl)
  have 5: "snd (update_single_tag_page tag_name g) = g"
    if f: "files g (tag_path tag_name) = Some stored"
      and r: "update_single_tag_page_content (universal_newlines stored) writeup_cards_html
                = Inl RegionNotFound"
  proof -
    have "update_single_tag_page_content (universal_newlines stored) y = Inl RegionNotFound" for y
      using r unfolding update_single_tag_page_content_def by (rule replace_region_Inl_any)
    with f show ?thesis
      by (simp add: update_single_tag_page_def Let_def rewrite_file_Inl split: option.splits)
  qed
  have 6: "snd (update_writeups_page g) = g"
    if f: "files g (BaseDir, ''writeups.html'') = Some stored"
      and r: "update_writeups_page_content (universal_newlines stored) writeups_content
                = Inl RegionNotFound"
  proof -
    have "update_writeups_page_content (universal_newlines stored) y = Inl RegionNotFound" for y
      using r unfolding update_writeups_page_content_def by (rule replace_region_Inl_any)
    with f show ?thesis
      by (simp add: update_writeups_page_def Let_def rewrite_file_Inl split: option.splits)
  qed
  from 1 2 3 4 5 6 show ?thesis by blast
qed

theorem splice_locates_region_witness:
  \<open>update_writeup_tags_content example_writeup_page [''linux''] =
     Inr (''<h1>Box</h1><div class="tag-container mb-4">\<newline>''
          @ ''                        <a href="../tags/tag-linux.html" class="tag-badge me-1">linux</a>\<newline>''
          @ ''                    </div><p>end</p>'') \<and>
   update_writeup_tags_content ''<h1>Box</h1>'' [''linux''] = Inl RegionNotFound \<and>
   update_writeup_tags_content ''<div class="tag-container mb-4">old'' [''linux''] = Inl RegionNotFound \<and>
   update_single_tag_page_content example_listing_page ''CARD'' =
     Inr (''<main><div class="row" id="writeupsContainer">\<newline>''
          @ ''CARD\<newline>''
          @ ''</div>\<newline>\<newline>                </main>'') \<and>
   update_writeups_page_content example_listing_page ''GRID'' =
     Inr (''<main><div class="row" id="writeupsContainer">\<newline>''
          @ ''GRID\<newline>''
          @ ''</div>\<newline>\<newline>                </main>'') \<and>
   update_writeup_tags (WriteupsDir, ''writeup-box.html'') [''linux''] example_generator
     = example_generator \<and>
   snd (update_single_tag_page ''web'' example_generator) = example_generator \<and>
   snd (update_writeups_page example_generator) = example_generator\<close>
proof -
  note loc = splice_locates_region
  have s1: "first_occurrence example_writeup_page writeup_tags_start_marker 0 12"
    by (rule py_find_Some)
       (simp add: py_find_def example_writeup_page_def writeup_tags_start_marker_def)
  have e1: "first_occurrence example_writeup_page writeup_tags_end_marker
              (12 + length writeup_tags_start_marker) 47"
    by (rule py_find_Some)
       (simp add: py_find_def example_writeup_page_def writeup_tags_start_marker_def
          writeup_tags_end_marker_def)
  have a: "update_writeup_tags_content example_writeup_page [''linux''] =
     Inr (take (12 + length writeup_tags_start_marker) example_writeup_page
          @ (writeup_tags_before @ writeup_tag_links [''linux''] @ writeup_tags_after)
          @ drop 47 example_writeup_page)"
    using loc [of example_writeup_page "[''linux'']"] s1 e1
    unfolding spec_splice_def by blast
  have s2: "absent_from ''<h1>Box</h1>'' writeup_tags_start_marker 0"
    by (rule py_find_None) (simp add: py_find_def writeup_tags_start_marker_def)
  have b: "update_writeup_tags_content ''<h1>Box</h1>'' [''linux''] = Inl RegionNotFound"
    using loc [of "''<h1>Box</h1>''" "[''linux'']"] s2
    unfolding spec_splice_def by blast
  have s3: \<open>first_occurrence ''<div class="tag-container mb-4">old'' writeup_tags_start_marker 0 0\<close>
    by (rule py_find_Some) (simp add: py_find_def writeup_tags_start_marker_def)
  have e3: \<open>absent_from ''<div class="tag-container mb-4">old'' writeup_tags_end_marker
              (0 + length writeup_tags_start_marker)\<close>
    by (rule py_find_None)
       (simp add: py_find_def writeup_tags_start_marker_def writeup_tags_end_marker_def)
  have c: \<open>update_writeup_tags_content ''<div class="tag-container mb-4">old'' [''linux'']
             = Inl RegionNotFound\<close>
    using loc [of \<open>''<div class="tag-container mb-4">old''\<close> "[''linux'']"] s3 e3
    unfolding spec_splice_def by blast
  have s4: "first_occurrence example_listing_page writeups_container_start_marker 0 6"
    by (rule py_find_Some)
       (simp add: py_find_def example_listing_page_def writeups_container_start_marker_def)
  have e4: "first_occurrence example_listing_page main_end_marker
              (6 + length writeups_container_start_marker) 49"
    by (rule py_find_Some)
       (simp add: py_find_def example_listing_page_def writeups_container_start_marker_def
          main_end_marker_def)
  have d: "update_single_tag_page_content example_listing_page ''CARD'' =
     Inr (take (6 + length writeups_container_start_marker) example_listing_page
          @ (''\<newline>'' @ ''CARD'' @ ''\<newline>'') @ drop 49 example_listing_page)"
    using loc [of example_listing_page _ "''CARD''"] s4 e4
    unfolding spec_splice_def by blast
  have e: "update_writeups_page_content example_listing_page ''GRID'' =
     Inr (take (6 + length writeups_container_start_marker) example_listing_page
          @ (''\<newline>'' @ ''GRID'' @ ''\<newline>'') @ drop 49 example_listing_page)"
    using loc [of example_listing_page _ _ "''GRID''"] s4 e4
    unfolding spec_splice_def by blast
  have f1: "files example_generator (WriteupsDir, ''writeup-box.html'') = Some ''<h1>Box</h1>''"
    by (simp add: example_generator_def)
  have f: "update_writeup_tags (WriteupsDir, ''writeup-box.html'') [''linux''] example_generator
             = example_generator"
    using loc [where stored = "''<h1>Box</h1>''" and tags = "[''linux'']"
                 and g = example_generator and p = "(WriteupsDir, ''writeup-box.html'')"] f1 b
    by simp
  have s7: "absent_from ''<h2>Tag: web</h2>'' writeups_container_start_marker 0"
    by (rule py_find_None) (simp add: py_find_def writeups_container_start_marker_def)
  have g1: "update_single_tag_page_content ''<h2>Tag: web</h2>'' [] = Inl RegionNotFound"
    using loc [of "''<h2>Tag: web</h2>''" _ "[]"] s7
    unfolding spec_splice_def by blast
  have f2: "files example_generator (tag_path ''web'') = Some ''<h2>Tag: web</h2>''"
    by (simp add: example_generator_def tag_path_def)
  have g: "snd (update_single_tag_page ''web'' example_generator) = example_generator"
    using loc [where stored = "''<h2>Tag: web</h2>''" and writeup_cards_html = "[]"
                 and g = example_generator and tag_name = "''web''"] f2 g1
    by simp
  have s8: "absent_from ''<h2>Writeups</h2>'' writeups_container_start_marker 0"
    by (rule py_find_None) (simp add: py_find_def writeups_container_start_marker_def)
  have h1: "update_writeups_page_content ''<h2>Writeups</h2>'' [] = Inl RegionNotFound"
    using loc [of "''<h2>Writeups</h2>''" _ _ "[]"] s8
    unfolding spec_splice_def by blast
  have f3: "files example_generator (BaseDir, ''writeups.html'') = Some ''<h2>Writeups</h2>''"
    by (simp add: example_generator_def)
  have h: "snd (update_writeups_page example_generator) = example_generator"
    using loc [where stored = "''<h2>Writeups</h2>''" and writeups_content = "[]"
                 and g = example_generator] f3 h1
    by simp
  show ?thesis
    apply (intro conjI)
    subgoal using a by (simp add: example_writeup_page_def writeup_tags_start_marker_def
        writeup_tags_before_def writeup_tags_after_def writeup_tag_links_def)
    subgoal by (rule b)
    subgoal by (rule c)
    subgoal using d by (simp add: example_listing_page_def writeups_container_start_marker_def)
    subgoal using e by (simp add: example_listing_page_def writeups_container_start_marker_def)
    subgoal by (rule f)
    subgoal by (rule g)
    subgoal by (rule h)
    done
qed

lemma example_writeup_page_update:
  "update_writeup_tags_content example_writeup_page [''linux''] = Inr example_writeup_page_linux"
  by (simp add: update_writeup_tags_content_def replace_region_def py_find_def
      example_writeup_page_def example_writeup_page_linux_def writeup_tags_start_marker_def
      writeup_tags_end_marker_def writeup_tags_before_def writeup_tags_after_def
      writeup_tag_links_def)

lemma example_listing_page_update:
  "replace_region example_listing_page writeups_container_start_marker main_end_marker 0
     ''\<newline>'' ''CARD'' ''\<newline>'' = Inr example_listing_page_card"
  by (simp add: replace_region_def py_find_def
      example_listing_page_def example_listing_page_card_def writeups_container_start_marker_def
      main_end_marker_def)

lemma example_writeup_page_start:
  "first_occurrence example_writeup_page writeup_tags_start_marker 0 12"
  by (rule py_find_Some)
     (simp add: py_find_def example_writeup_page_def writeup_tags_start_marker_def)

lemma example_writeup_page_end:
  "first_occurrence example_writeup_page writeup_tags_end_marker 44 47"
  by (rule py_find_Some)
     (simp add: py_find_def example_writeup_page_def writeup_tags_end_marker_def)

lemma example_listing_page_start:
  "first_occurrence example_listing_page writeups_container_start_marker 0 6"
  by (rule py_find_Some)
     (simp add: py_find_def example_listing_page_def writeups_container_start_marker_def)

lemma example_listing_page_end:
  "first_occurrence example_listing_page main_end_marker 46 49"
  by (rule py_find_Some)
     (simp add: py_find_def example_listing_page_def main_end_marker_def)

lemma example_linux_fresh:
  "end_marker_fresh (writeup_tags_before @ writeup_tag_links [''linux''] @ writeup_tags_after)
     writeup_tags_end_marker"
  unfolding end_marker_fresh_def
  by (rule py_find_Some)
     (simp add: py_find_def writeup_tags_before_def writeup_tag_links_def writeup_tags_after_def
        writeup_tags_end_marker_def)

lemma example_card_fresh:
  "end_marker_fresh (''\<newline>'' @ ''CARD'' @ ''\<newline>'') main_end_marker"
  unfolding end_marker_fresh_def
  by (rule py_find_Some) (simp add: py_find_def main_end_marker_def)

text \<open>
  Claim C2. Where a splice succeeds, the document up to and including the start marker
  and the document from the matched end marker on are unchanged in the output.
\<close>

theorem splice_preserves_outside:
  "(update_writeup_tags_content content tags = Inr new_content \<longrightarrow>
      outside_region_unchanged content writeup_tags_start_marker writeup_tags_end_marker
        new_content) \<and>
   (update_single_tag_page_content content writeup_cards_html = Inr new_content \<longrightarrow>
      outside_region_unchanged content writeups_container_start_marker main_end_marker
        new_content) \<and>
   (update_writeups_page_content content writeups_content = Inr new_content \<longrightarrow>
      outside_region_unchanged content writeups_container_start_marker main_end_marker
        new_content)"
  unfolding update_writeup_tags_content_def update_single_tag_page_content_def
    update_writeups_page_content_def replace_region_container_skip
  by (blast intro: replace_region_frame)

theorem splice_preserves_outside_witness:
  "outside_region_unchanged example_writeup_page writeup_tags_start_marker
     writeup_tags_end_marker example_writeup_page_linux \<and>
   take 44 example_writeup_page_linux = take 44 example_writeup_page \<and>
   drop 155 example_writeup_page_linux = drop 47 example_writeup_page \<and>
   outside_region_unchanged example_listing_page writeups_container_start_marker
     main_end_marker example_listing_page_card \<and>
   take 46 example_listing_page_card = take 46 example_listing_page \<and>
   drop 52 example_listing_page_card = drop 49 example_listing_page"
proof -
  have a: "outside_region_unchanged example_writeup_page writeup_tags_start_marker
     writeup_tags_end_marker example_writeup_page_linux"
    using splice_preserves_outside [of example_writeup_page "[''linux'']" example_writeup_page_linux]
      example_writeup_page_update by blast
  have b: "outside_region_unchanged example_listing_page writeups_container_start_marker
     main_end_marker example_listing_page_card"
    using splice_preserves_outside [where content = example_listing_page
        and writeup_cards_html = "''CARD''" and new_content = example_listing_page_card]
      example_listing_page_update by (simp add: update_single_tag_page_content_def)
  have c: "take 44 example_writeup_page_linux = take 44 example_writeup_page"
    by (simp add: example_writeup_page_linux_def example_writeup_page_def)
  have d: "drop 155 example_writeup_page_linux = drop 47 example_writeup_page"
    by (simp add: example_writeup_page_linux_def example_writeup_page_def)
  have e: "take 46 example_listing_page_card = take 46 example_listing_page"
    by (simp add: example_listing_page_card_def example_listing_page_def)
  have f: "drop 52 example_listing_page_card = drop 49 example_listing_page"
    by (simp add: example_listing_page_card_def example_listing_page_def)
  from a b c d e f show ?thesis by blast
qed

lemma replace_region_read_back_value:
  assumes "replace_region content sm em (length sm) b x a = Inr new"
  obtains q where "find_first em ((b @ x @ a) @ em) = Some q" "q \<le> length (b @ x @ a)"
    "read_region new sm em = Inr (take q (b @ x @ a))"
proof -
  let ?Y = "b @ x @ a"
  from assms obtain sp ep q where
    new: "new = take (sp + length sm) content @ ?Y @ drop ep content" and
    lp: "length (take (sp + length sm) content) = sp + length sm" and
    1: "py_find new sm 0 = Some sp" and
    q: "find_first em (?Y @ em) = Some q" "q \<le> length ?Y" and
    2: "py_find new em (sp + length sm) = Some (sp + length sm + q)"
    by (rule replace_region_relocate)
  have d: "drop (sp + length sm) new = ?Y @ drop ep content"
    using new lp by (metis append_eq_conv_conj)
  have "read_region new sm em = Inr (take q ?Y)"
    using 1 2 q(2) by (simp add: read_region_def d)
  with q show ?thesis using that by blast
qed

lemma writeup_tag_links_head:
  "tags \<noteq> [] \<Longrightarrow> \<exists>r. writeup_tag_links tags = CHR ''<'' # r"
proof (cases tags)
  case Nil
  assume "tags \<noteq> []"
  with Nil show ?thesis by simp
next
  case (Cons t ts)
  then show ?thesis by (cases ts) (simp_all add: writeup_tag_links_def)
qed

lemma read_back_never_links:
  assumes "find_first writeup_tags_end_marker
             ((writeup_tags_before @ writeup_tag_links tags @ writeup_tags_after)
              @ writeup_tags_end_marker) = Some q"
  shows "take q (writeup_tags_before @ writeup_tag_links tags @ writeup_tags_after)
           \<noteq> writeup_tag_links tags"
proof (cases q)
  case 0
  from find_first_Some [OF assms] 0
  have "prefix writeup_tags_end_marker
          ((writeup_tags_before @ writeup_tag_links tags @ writeup_tags_after)
           @ writeup_tags_end_marker)"
    by simp
  then have False
    by (simp add: writeup_tags_end_marker_def writeup_tags_before_def)
  then show ?thesis ..
next
  case (Suc k)
  show ?thesis
  proof (cases "tags = []")
    case True
    then show ?thesis using Suc by (simp add: writeup_tag_links_def writeup_tags_before_def)
  next
    case False
    then obtain r where "writeup_tag_links tags = CHR ''<'' # r"
      using writeup_tag_links_head by blast
    then show ?thesis using Suc by (simp add: writeup_tags_before_def)
  qed
qed

text \<open>
  Claim C3, as stated, fails: the text read back from between the markers is the
  replacement between the two separators the splice writes around it, never the
  replacement alone.
\<close>

theorem read_back_counterexample:
  \<open>update_writeup_tags_content example_writeup_page [''linux''] = Inr example_writeup_page_linux \<and>
   writeup_tag_links [''linux''] = ''<a href="../tags/tag-linux.html" class="tag-badge me-1">linux</a>'' \<and>
   read_region example_writeup_page_linux writeup_tags_start_marker writeup_tags_end_marker =
     Inr (''\<newline>''
          @ ''                        <a href="../tags/tag-linux.html" class="tag-badge me-1">linux</a>\<newline>''
          @ ''                    '') \<and>
   read_region example_writeup_page_linux writeup_tags_start_marker writeup_tags_end_marker \<noteq>
     Inr (writeup_tag_links [''linux''])\<close>
proof -
  have r: \<open>read_region example_writeup_page_linux writeup_tags_start_marker writeup_tags_end_marker =
     Inr (''\<newline>''
          @ ''                        <a href="../tags/tag-linux.html" class="tag-badge me-1">linux</a>\<newline>''
          @ ''                    '')\<close>
    by (simp add: read_region_def py_find_def example_writeup_page_linux_def
        writeup_tags_start_marker_def writeup_tags_end_marker_def)
  have l: \<open>writeup_tag_links [''linux''] =
       ''<a href="../tags/tag-linux.html" class="tag-badge me-1">linux</a>''\<close>
    by (simp add: writeup_tag_links_def)
  show ?thesis
    using example_writeup_page_update r l by simp
qed

text \<open>
  Claim C3, amended. After the tag region of a writeup page is rewritten, the text
  between the start marker and the matched end marker is the replacement between the
  two separators, exactly when the end marker does not occur in that text followed by
  the end marker before its end; it is never the replacement alone.
\<close>

theorem read_back_yields_filling:
  "update_writeup_tags_content content tags = Inr new_content \<longrightarrow>
     ((read_region new_content writeup_tags_start_marker writeup_tags_end_marker =
        Inr (writeup_tags_before @ writeup_tag_links tags @ writeup_tags_after))
      = end_marker_fresh (writeup_tags_before @ writeup_tag_links tags @ writeup_tags_after)
          writeup_tags_end_marker) \<and>
     read_region new_content writeup_tags_start_marker writeup_tags_end_marker \<noteq>
       Inr (writeup_tag_links tags)"
proof
  assume a: "update_writeup_tags_content content tags = Inr new_content"
  then have r: "replace_region content writeup_tags_start_marker writeup_tags_end_marker
       (length writeup_tags_start_marker)
       writeup_tags_before (writeup_tag_links tags) writeup_tags_after = Inr new_content"
    by (simp add: update_writeup_tags_content_def)
  have 1: "(read_region new_content writeup_tags_start_marker writeup_tags_end_marker =
        Inr (writeup_tags_before @ writeup_tag_links tags @ writeup_tags_after))
      = end_marker_fresh (writeup_tags_before @ writeup_tag_links tags @ writeup_tags_after)
          writeup_tags_end_marker"
    unfolding end_marker_fresh_def by (rule replace_region_read_back [OF r])
  from r obtain q where
    q: "find_first writeup_tags_end_marker
          ((writeup_tags_before @ writeup_tag_links tags @ writeup_tags_after)
           @ writeup_tags_end_marker) = Some q"
    and v: "read_region new_content writeup_tags_start_marker writeup_tags_end_marker =
          Inr (take q (writeup_tags_before @ writeup_tag_links tags @ writeup_tags_after))"
    by (rule replace_region_read_back_value)
  from read_back_never_links [OF q] v
  have 2: "read_region new_content writeup_tags_start_marker writeup_tags_end_marker \<noteq>
       Inr (writeup_tag_links tags)"
    by simp
  from 1 2 show "((read_region new_content writeup_tags_start_marker writeup_tags_end_marker =
        Inr (writeup_tags_before @ writeup_tag_links tags @ writeup_tags_after))
      = end_marker_fresh (writeup_tags_before @ writeup_tag_links tags @ writeup_tags_after)
          writeup_tags_end_marker) \<and>
     read_region new_content writeup_tags_start_marker writeup_tags_end_marker \<noteq>
       Inr (writeup_tag_links tags)"
    by blast
qed

theorem read_back_yields_filling_witness:
  "update_writeup_tags_content example_writeup_page [''linux''] = Inr example_writeup_page_linux \<and>
   end_marker_fresh (writeup_tags_before @ writeup_tag_links [''linux''] @ writeup_tags_after)
     writeup_tags_end_marker \<and>
   read_region example_writeup_page_linux writeup_tags_start_marker writeup_tags_end_marker =
     Inr (writeup_tags_before @ writeup_tag_links [''linux''] @ writeup_tags_after)"
  using read_back_yields_filling [of example_writeup_page "[''linux'']" example_writeup_page_linux]
    example_writeup_page_update example_linux_fresh
  by blast

text \<open>
  Claim C4, as stated, fails: with a tag whose name holds the end marker, the second
  rewrite of the tag region finds the end marker inside the links the first one wrote,
  and gives a longer document.
\<close>

theorem splice_twice_counterexample:
  \<open>update_writeup_tags_content example_closing_tag_page [''</div>''] =
     Inr example_closing_tag_page_once \<and>
   update_writeup_tags_content example_closing_tag_page_once [''</div>''] =
     Inr example_closing_tag_page_twice \<and>
   example_closing_tag_page_twice \<noteq> example_closing_tag_page_once\<close>
proof -
  have a: \<open>update_writeup_tags_content example_closing_tag_page [''</div>''] =
     Inr example_closing_tag_page_once\<close>
    by (simp add: update_writeup_tags_content_def replace_region_def py_find_def
      example_closing_tag_page_def example_closing_tag_page_once_def writeup_tags_start_marker_def
      writeup_tags_end_marker_def writeup_tags_before_def writeup_tags_after_def
      writeup_tag_links_def)
  have b: \<open>update_writeup_tags_content example_closing_tag_page_once [''</div>''] =
     Inr example_closing_tag_page_twice\<close>
    by (simp add: update_writeup_tags_content_def replace_region_def py_find_def
      example_closing_tag_page_once_def example_closing_tag_page_twice_def
      writeup_tags_start_marker_def
      writeup_tags_end_marker_def writeup_tags_before_def writeup_tags_after_def
      writeup_tag_links_def)
  have c: "example_closing_tag_page_twice \<noteq> example_closing_tag_page_once"
    by (simp add: example_closing_tag_page_once_def example_closing_tag_page_twice_def)
  from a b c show ?thesis by blast
qed

text \<open>
  Claim C4, amended. Rewriting a region a second time with the same replacement gives
  the same document exactly when the end marker does not occur in the replacement
  between its separators, followed by the end marker, before that text ends.
\<close>

theorem splice_twice_same:
  "(update_writeup_tags_content content tags = Inr new_content \<longrightarrow>
      (update_writeup_tags_content new_content tags = Inr new_content)
      = end_marker_fresh (writeup_tags_before @ writeup_tag_links tags @ writeup_tags_after)
          writeup_tags_end_marker) \<and>
   (update_single_tag_page_content content writeup_cards_html = Inr new_content \<longrightarrow>
      (update_single_tag_page_content new_content writeup_cards_html = Inr new_content)
      = end_marker_fresh (''\<newline>'' @ writeup_cards_html @ ''\<newline>'') main_end_marker) \<and>
   (update_writeups_page_content content writeups_content = Inr new_content \<longrightarrow>
      (update_writeups_page_content new_content writeups_content = Inr new_content)
      = end_marker_fresh (''\<newline>'' @ writeups_content @ ''\<newline>'') main_end_marker)"
  unfolding update_writeup_tags_content_def update_single_tag_page_content_def
    update_writeups_page_content_def replace_region_container_skip end_marker_fresh_def
  by (intro conjI impI replace_region_twice)

theorem splice_twice_same_witness:
  "update_writeup_tags_content example_writeup_page [''linux''] = Inr example_writeup_page_linux \<and>
   update_writeup_tags_content example_writeup_page_linux [''linux''] =
     Inr example_writeup_page_linux \<and>
   update_single_tag_page_content example_listing_page ''CARD'' = Inr example_listing_page_card \<and>
   update_single_tag_page_content example_listing_page_card ''CARD'' =
     Inr example_listing_page_card \<and>
   update_writeups_page_content example_listing_page ''CARD'' = Inr example_listing_page_card \<and>
   update_writeups_page_content example_listing_page_card ''CARD'' =
     Inr example_listing_page_card"
proof -
  have t: "update_single_tag_page_content example_listing_page ''CARD'' =
      Inr example_listing_page_card"
    using example_listing_page_update by (simp add: update_single_tag_page_content_def)
  have w: "update_writeups_page_content example_listing_page ''CARD'' =
      Inr example_listing_page_card"
    using example_listing_page_update by (simp add: update_writeups_page_content_def)
  note s = splice_twice_same [where new_content = example_writeup_page_linux
      and content = example_writeup_page and tags = "[''linux'']"]
  note p = splice_twice_same [where new_content = example_listing_page_card
      and content = example_listing_page and writeup_cards_html = "''CARD''"
      and writeups_content = "''CARD''"]
  have 1: "update_writeup_tags_content example_writeup_page_linux [''linux''] =
     Inr example_writeup_page_linux"
    using s example_writeup_page_update example_linux_fresh by blast
  have 2: "update_single_tag_page_content example_listing_page_card ''CARD'' =
     Inr example_listing_page_card"
    using p t example_card_fresh by blast
  have 3: "update_writeups_page_content example_listing_page_card ''CARD'' =
     Inr example_listing_page_card"
    using p w example_card_fresh by blast
  from example_writeup_page_update 1 t 2 w 3 show ?thesis by blast
qed

section \<open>What the page rewriters leave alone\<close>

lemma universal_newlines_idem [simp]:
  "CHR 0x0D \<notin> set s \<Longrightarrow> universal_newlines s = s"
  by (induction s rule: universal_newlines.induct) auto

lemma rewrite_file_model [simp]:
  "existing_tags (rewrite_file p f g) = existing_tags g"
  "existing_writeups (rewrite_file p f g) = existing_writeups g"
  "existing_projects (rewrite_file p f g) = existing_projects g"
  "faults (rewrite_file p f g) = faults g"
  by (auto simp: rewrite_file_def read_file_def write_file_def split: option.splits sum.splits)

lemma rewrite_file_other [simp]: "q \<noteq> p \<Longrightarrow> files (rewrite_file p f g) q = files g q"
  by (auto simp: rewrite_file_def read_file_def write_file_def split: option.splits sum.splits)

lemma rewrite_file_exists [simp]:
  "(files (rewrite_file p f g) q = None) = (files g q = None)"
  by (auto simp: rewrite_file_def read_file_def write_file_def split: option.splits sum.splits if_splits)

lemma rewrite_file_written:
  "files g p = Some stored \<Longrightarrow> \<not> faults g Read p \<Longrightarrow> \<not> faults g Write p \<Longrightarrow>
   f (universal_newlines stored) = Inr new_content \<Longrightarrow>
   files (rewrite_file p f g) p = Some new_content"
  by (simp add: rewrite_file_def read_file_def write_file_def)

lemma update_writeup_tags_model [simp]:
  "existing_tags (update_writeup_tags p tags g) = existing_tags g"
  "existing_writeups (update_writeup_tags p tags g) = existing_writeups g"
  "existing_projects (update_writeup_tags p tags g) = existing_projects g"
  "faults (update_writeup_tags p tags g) = faults g"
  "(files (update_writeup_tags p tags g) q = None) = (files g q = None)"
  by (simp_all add: update_writeup_tags_def)

lemma update_writeup_tags_other [simp]:
  "q \<noteq> p \<Longrightarrow> files (update_writeup_tags p tags g) q = files g q"
  by (simp add: update_writeup_tags_def)

lemma update_single_tag_page_model [simp]:
  "existing_tags (snd (update_single_tag_page t g)) = existing_tags g"
  "existing_writeups (snd (update_single_tag_page t g)) = existing_writeups g"
  "existing_projects (snd (update_single_tag_page t g)) = existing_projects g"
  "faults (snd (update_single_tag_page t g)) = faults g"
  "(files (snd (update_single_tag_page t g)) q = None) = (files g q = None)"
  by (simp_all add: update_single_tag_page_def Let_def split: option.splits)

lemma update_single_tag_page_other [simp]:
  "fst q \<noteq> TagsDir \<Longrightarrow> files (snd (update_single_tag_page t g)) q = files g q"
  by (cases q) (auto simp: update_single_tag_page_def Let_def tag_path_def split: option.splits)

lemma update_single_tag_page_outcome [simp]:
  "fst (update_single_tag_page t g) = (if faults g Stat (tag_path t) then Raised else Done)"
  by (simp add: update_single_tag_page_def Let_def split: option.splits)

lemma update_tag_pages_model [simp]:
  "existing_tags (snd (update_tag_pages ts g)) = existing_tags g"
  "existing_writeups (snd (update_tag_pages ts g)) = existing_writeups g"
  "existing_projects (snd (update_tag_pages ts g)) = existing_projects g"
  "faults (snd (update_tag_pages ts g)) = faults g"
  "(files (snd (update_tag_pages ts g)) q = None) = (files g q = None)"
  by (induction ts arbitrary: g; simp; fail)+

lemma update_tag_pages_other [simp]:
  "fst q \<noteq> TagsDir \<Longrightarrow> files (snd (update_tag_pages ts g)) q = files g q"
  by (induction ts arbitrary: g) simp_all

lemma update_tag_pages_outcome [simp]:
  "fst (update_tag_pages ts g) =
     (if \<exists>t \<in> set ts. faults g Stat (tag_path t) then Raised else Done)"
  by (induction ts arbitrary: g) auto

lemma update_all_tag_pages_model [simp]:
  "existing_tags (snd (update_all_tag_pages g)) = existing_tags g"
  "existing_writeups (snd (update_all_tag_pages g)) = existing_writeups g"
  "existing_projects (snd (update_all_tag_pages g)) = existing_projects g"
  "faults (snd (update_all_tag_pages g)) = faults g"
  "(files (snd (update_all_tag_pages g)) q = None) = (files g q = None)"
  by (simp_all add: update_all_tag_pages_def Let_def)

lemma update_all_tag_pages_other [simp]:
  "fst q \<noteq> TagsDir \<Longrightarrow> files (snd (update_all_tag_pages g)) q = files g q"
  by (simp add: update_all_tag_pages_def Let_def)

lemma update_all_tag_pages_outcome:
  assumes "\<forall>p. \<not> faults g Stat p"
  shows "fst (update_all_tag_pages g) = Done"
proof -
  from assms have "\<not> faults g Stat p" for p by blast
  then show ?thesis by (simp add: update_all_tag_pages_def Let_def)
qed

lemma update_writeups_page_model [simp]:
  "existing_tags (snd (update_writeups_page g)) = existing_tags g"
  "existing_writeups (snd (update_writeups_page g)) = existing_writeups g"
  "existing_projects (snd (update_writeups_page g)) = existing_projects g"
  "faults (snd (update_writeups_page g)) = faults g"
  "(files (snd (update_writeups_page g)) q = None) = (files g q = None)"
  by (simp_all add: update_writeups_page_def Let_def split: option.splits)

lemma update_writeups_page_other [simp]:
  "q \<noteq> (BaseDir, ''writeups.html'') \<Longrightarrow> files (snd (update_writeups_page g)) q = files g q"
  by (simp add: update_writeups_page_def Let_def split: option.splits)

lemma update_writeups_page_outcome [simp]:
  "fst (update_writeups_page g) =
     (if faults g Stat (BaseDir, ''writeups.html'') then Raised else Done)"
  by (simp add: update_writeups_page_def Let_def split: option.splits)

lemma update_tags_page_model [simp]:
  "existing_tags (snd (update_tags_page g)) = existing_tags g"
  "existing_writeups (snd (update_tags_page g)) = existing_writeups g"
  "existing_projects (snd (update_tags_page g)) = existing_projects g"
  "faults (snd (update_tags_page g)) = faults g"
  "(files (snd (update_tags_page g)) q = None) = (files g q = None)"
  by (simp_all add: update_tags_page_def Let_def split: option.splits)

lemma update_tags_page_other [simp]:
  "q \<noteq> (BaseDir, ''tags.html'') \<Longrightarrow> files (snd (update_tags_page g)) q = files g q"
  by (simp add: update_tags_page_def Let_def split: option.splits)

lemma update_tags_page_outcome [simp]:
  "fst (update_tags_page g) = (if faults g Stat (BaseDir, ''tags.html'') then Raised else Done)"
  by (simp add: update_tags_page_def Let_def split: option.splits)

lemma update_projects_page_model [simp]:
  "existing_tags (snd (update_projects_page g)) = existing_tags g"
  "existing_writeups (snd (update_projects_page g)) = existing_writeups g"
  "existing_projects (snd (update_projects_page g)) = existing_projects g"
  "faults (snd (update_projects_page g)) = faults g"
  "(files (snd (update_projects_page g)) q = None) = (files g q = None)"
  by (simp_all add: update_projects_page_def Let_def split: option.splits)

lemma update_projects_page_other [simp]:
  "q \<noteq> (BaseDir, ''projects.html'') \<Longrightarrow> files (snd (update_projects_page g)) q = files g q"
  by (simp add: update_projects_page_def Let_def split: option.splits)

lemma update_projects_page_outcome [simp]:
  "fst (update_projects_page g) =
     (if faults g Stat (BaseDir, ''projects.html'') then Raised else Done)"
  by (simp add: update_projects_page_def Let_def split: option.splits)

lemma update_home_page_model [simp]:
  "existing_tags (snd (update_home_page g)) = existing_tags g"
  "existing_writeups (snd (update_home_page g)) = existing_writeups g"
  "existing_projects (snd (update_home_page g)) = existing_projects g"
  "faults (snd (update_home_page g)) = faults g"
  "(files (snd (update_home_page g)) q = None) = (files g q = None)"
  by (simp_all add: update_home_page_def Let_def split: option.splits)

lemma update_home_page_other [simp]:
  "q \<noteq> (BaseDir, ''index.html'') \<Longrightarrow> files (snd (update_home_page g)) q = files g q"
  by (simp add: update_home_page_def Let_def split: option.splits)

lemma update_home_page_outcome [simp]:
  "fst (update_home_page g) = (if faults g Stat (BaseDir, ''index.html'') then Raised else Done)"
  by (simp add: update_home_page_def Let_def split: option.splits)

lemma update_main_pages_model [simp]:
  "existing_tags (snd (update_main_pages g)) = existing_tags g"
  "existing_writeups (snd (update_main_pages g)) = existing_writeups g"
  "existing_projects (snd (update_main_pages g)) = existing_projects g"
  "faults (snd (update_main_pages g)) = faults g"
  "(files (snd (update_main_pages g)) q = None) = (files g q = None)"
  by (simp_all add: update_main_pages_def)

lemma update_main_pages_writeup_files [simp]:
  "fst q = WriteupsDir \<Longrightarrow> files (snd (update_main_pages g)) q = files g q"
  by (cases q) (simp add: update_main_pages_def)

lemma update_main_pages_outcome:
  assumes "\<forall>p. \<not> faults g Stat p"
  shows "fst (update_main_pages g) = Done"
proof -
  from assms have "\<not> faults g Stat p" for p by blast
  then show ?thesis by (simp add: update_main_pages_def update_all_tag_pages_outcome)
qed

lemma update_main_pages_when_tests_return:
  assumes "\<forall>p. \<not> faults g Stat p"
  shows "snd (update_main_pages g) =
     snd (update_all_tag_pages
       (snd (update_home_page
          (snd (update_projects_page (snd (update_tags_page (snd (update_writeups_page g)))))))))"
proof -
  from assms have "\<not> faults g Stat p" for p by blast
  then show ?thesis by (simp add: update_main_pages_def)
qed

section \<open>What removing a writeup's cards and orphaned tags leaves alone\<close>

lemma remove_broken_links_model [simp]:
  "existing_tags (snd (remove_broken_links_from_tags fn g)) = existing_tags g"
  "existing_writeups (snd (remove_broken_links_from_tags fn g)) = existing_writeups g"
  "existing_projects (snd (remove_broken_links_from_tags fn g)) = existing_projects g"
  "faults (snd (remove_broken_links_from_tags fn g)) = faults g"
  by (simp_all add: remove_broken_links_from_tags_def)

lemma remove_broken_links_exists [simp]:
  "(files (snd (remove_broken_links_from_tags fn g)) q = None) = (files g q = None)"
  by (auto simp: remove_broken_links_from_tags_def remove_broken_links_from_page_def
      read_file_def write_file_def Let_def
      split: option.splits sum.splits if_splits)

lemma remove_broken_links_other [simp]:
  "fst q \<noteq> TagsDir \<Longrightarrow> files (snd (remove_broken_links_from_tags fn g)) q = files g q"
  by (simp add: remove_broken_links_from_tags_def)

lemma remove_broken_links_outcome [simp]:
  "fst (remove_broken_links_from_tags fn g) = (if faults g Stat tags_dir then Raised else Done)"
  by (simp add: remove_broken_links_from_tags_def)

lemma unlink_tag_file_model [simp]:
  "existing_tags (snd (unlink_tag_file t g)) = existing_tags g"
  "existing_writeups (snd (unlink_tag_file t g)) = existing_writeups g"
  "existing_projects (snd (unlink_tag_file t g)) = existing_projects g"
  "faults (snd (unlink_tag_file t g)) = faults g"
  by (simp_all add: unlink_tag_file_def Let_def unlink_def split: option.splits)

lemma unlink_tag_file_other [simp]:
  "q \<noteq> tag_path t \<Longrightarrow> files (snd (unlink_tag_file t g)) q = files g q"
  by (simp add: unlink_tag_file_def Let_def unlink_def split: option.splits)

lemma unlink_tag_file_None [simp]:
  "files g q = None \<Longrightarrow> files (snd (unlink_tag_file t g)) q = None"
  by (simp add: unlink_tag_file_def Let_def unlink_def split: option.splits)

lemma unlink_tag_file_outcome [simp]:
  "fst (unlink_tag_file t g) = (if faults g Stat (tag_path t) then Raised else Done)"
  by (simp add: unlink_tag_file_def Let_def split: option.splits)

lemma unlink_tag_file_removed:
  "\<not> faults g Stat (tag_path t) \<Longrightarrow> \<not> faults g Unlink (tag_path t) \<Longrightarrow>
   files (snd (unlink_tag_file t g)) (tag_path t) = None"
  by (simp add: unlink_tag_file_def Let_def unlink_def split: option.splits)

lemma unlink_tag_files_model [simp]:
  "existing_tags (snd (unlink_tag_files ts g)) = existing_tags g"
  "existing_writeups (snd (unlink_tag_files ts g)) = existing_writeups g"
  "existing_projects (snd (unlink_tag_files ts g)) = existing_projects g"
  "faults (snd (unlink_tag_files ts g)) = faults g"
  by (induction ts arbitrary: g; simp; fail)+

lemma unlink_tag_files_other [simp]:
  "fst q \<noteq> TagsDir \<Longrightarrow> files (snd (unlink_tag_files ts g)) q = files g q"
proof (induction ts arbitrary: g)
  case Nil
  show ?case by simp
next
  case (Cons t ts)
  then have "q \<noteq> tag_path t" by (auto simp: tag_path_def)
  with Cons show ?case by simp
qed

lemma unlink_tag_files_None [simp]:
  "files g q = None \<Longrightarrow> files (snd (unlink_tag_files ts g)) q = None"
  by (induction ts arbitrary: g) simp_all

lemma unlink_tag_files_outcome [simp]:
  "fst (unlink_tag_files ts g) =
     (if \<exists>t \<in> set ts. faults g Stat (tag_path t) then Raised else Done)"
  by (induction ts arbitrary: g) auto

lemma unlink_tag_files_removed:
  "t \<in> set ts \<Longrightarrow> \<not> faults g Unlink (tag_path t) \<Longrightarrow>
   \<forall>u \<in> set ts. \<not> faults g Stat (tag_path u) \<Longrightarrow>
   files (snd (unlink_tag_files ts g)) (tag_path t) = None"
proof (induction ts arbitrary: g)
  case Nil
  then show ?case by simp
next
  case (Cons u us)
  let ?g1 = "snd (unlink_tag_file u g)"
  from Cons.prems have nr: "fst (unlink_tag_file u g) \<noteq> Raised" by simp
  show ?case
  proof (cases "t = u")
    case True
    with Cons.prems have "files ?g1 (tag_path t) = None"
      by (simp add: unlink_tag_file_removed)
    with nr show ?thesis by simp
  next
    case False
    with Cons.prems have "t \<in> set us" by simp
    from Cons.IH [OF this, of ?g1] Cons.prems nr show ?thesis by simp
  qed
qed

lemma cleanup_unused_tags_model [simp]:
  "existing_tags (snd (cleanup_unused_tags ts g)) = existing_tags g"
  "existing_writeups (snd (cleanup_unused_tags ts g)) = existing_writeups g"
  "existing_projects (snd (cleanup_unused_tags ts g)) = existing_projects g"
  "faults (snd (cleanup_unused_tags ts g)) = faults g"
  by (simp_all add: cleanup_unused_tags_def Let_def)

lemma cleanup_unused_tags_other [simp]:
  "fst q \<noteq> TagsDir \<Longrightarrow> files (snd (cleanup_unused_tags ts g)) q = files g q"
  by (simp add: cleanup_unused_tags_def Let_def)

lemma cleanup_unused_tags_None [simp]:
  "files g q = None \<Longrightarrow> files (snd (cleanup_unused_tags ts g)) q = None"
  by (simp add: cleanup_unused_tags_def Let_def)

lemma cleanup_unused_tags_outcome:
  assumes "\<forall>p. \<not> faults g Stat p"
  shows "fst (cleanup_unused_tags ts g) = Done"
proof -
  from assms have "\<not> faults g Stat p" for p by blast
  then show ?thesis by (simp add: cleanup_unused_tags_def Let_def)
qed

section \<open>The known tags under each operation\<close>

lemma add_tag_to_writeup_model [simp]:
  "existing_tags (snd (add_tag_to_writeup t title g)) = existing_tags g"
  "faults (snd (add_tag_to_writeup t title g)) = faults g"
  "existing_projects (snd (add_tag_to_writeup t title g)) = existing_projects g"
  by (simp_all add: add_tag_to_writeup_def Let_def split: option.splits)

lemma add_tag_to_writeups_model [simp]:
  "existing_tags (snd (add_tag_to_writeups t titles g)) = existing_tags g"
  "faults (snd (add_tag_to_writeups t titles g)) = faults g"
  "existing_projects (snd (add_tag_to_writeups t titles g)) = existing_projects g"
  by (induction titles arbitrary: g; simp; fail)+

lemma remove_tag_from_writeup_model [simp]:
  "existing_tags (snd (remove_tag_from_writeup t title g)) = existing_tags g"
  "faults (snd (remove_tag_from_writeup t title g)) = faults g"
  "existing_projects (snd (remove_tag_from_writeup t title g)) = existing_projects g"
  by (simp_all add: remove_tag_from_writeup_def Let_def split: option.splits)

lemma remove_tag_from_writeups_model [simp]:
  "existing_tags (snd (remove_tag_from_writeups t titles g)) = existing_tags g"
  "faults (snd (remove_tag_from_writeups t titles g)) = faults g"
  "existing_projects (snd (remove_tag_from_writeups t titles g)) = existing_projects g"
  by (induction titles arbitrary: g; simp; fail)+

lemma create_tag_tags:
  "existing_tags (snd (create_tag t d titles g)) = existing_tags g \<or>
   existing_tags (snd (create_tag t d titles g)) = insert t (existing_tags g)"
  by (simp add: create_tag_def Let_def write_file_def split: option.splits)

lemma create_tag_tags_mono: "existing_tags g \<subseteq> existing_tags (snd (create_tag t d titles g))"
  using create_tag_tags [of t d titles g] by auto

lemma create_tag_faults [simp]: "faults (snd (create_tag t d titles g)) = faults g"
  by (simp add: create_tag_def Let_def write_file_def split: option.splits)

lemma create_missing_tags_mono:
  "existing_tags g \<subseteq> existing_tags (snd (create_missing_tags ts g))"
proof (induction ts arbitrary: g)
  case Nil
  show ?case by simp
next
  case (Cons t ts)
  show ?case
  proof (cases "t \<in> existing_tags g")
    case True
    with Cons show ?thesis by simp
  next
    case False
    let ?g1 = "snd (create_tag t [] None g)"
    have "existing_tags g \<subseteq> existing_tags ?g1"
      by (rule create_tag_tags_mono)
    also have "\<dots> \<subseteq> existing_tags (snd (create_missing_tags ts ?g1))"
      by (rule Cons)
    finally show ?thesis using False create_tag_tags_mono [of g t "[]" None] by auto
  qed
qed

lemma create_missing_tags_faults [simp]:
  "faults (snd (create_missing_tags ts g)) = faults g"
  by (induction ts arbitrary: g) simp_all

lemma create_writeup_tags_mono:
  "existing_tags g \<subseteq> existing_tags (snd (create_writeup title tags photo cd ud d os ip today g))"
  using create_missing_tags_mono [of g tags]
  by (simp add: create_writeup_def Let_def write_file_def split: option.splits)

lemma remove_tag_shape:
  obtains
    (raised) g1 where "remove_tag t from_writeups g = (Raised, g1)"
      "existing_tags g1 = existing_tags g"
  | (missing) "remove_tag t from_writeups g = (Failed NotFound, g)"
  | (kept) g1 where "remove_tag t from_writeups g = (Done, g1)"
      "existing_tags g1 = existing_tags g" "\<exists>w \<in> set (existing_writeups g1). t \<in> set (w_tags w)"
  | (unlink_failed) g1 where "remove_tag t from_writeups g = (Failed IOFailure, g1)"
      "existing_tags g1 = existing_tags g"
  | (removed) g1 where "remove_tag t from_writeups g = (Done, g1)"
      "existing_tags g1 = existing_tags g - {t}"
proof -
  define detach_all where "detach_all =
    (let writeups_with_tag = filter (\<lambda>w. t \<in> set (w_tags w)) (existing_writeups g)
     in if writeups_with_tag \<noteq> []
        then remove_tag_from_writeups t (map w_title writeups_with_tag) g
        else (Done, g))"
  define detached where "detached =
    (case from_writeups of
       None \<Rightarrow> detach_all
     | Some titles \<Rightarrow> if titles \<noteq> [] then remove_tag_from_writeups t titles g else detach_all)"
  define finish where "finish = (\<lambda>g1.
    let remaining_writeups_with_tag = filter (\<lambda>w. t \<in> set (w_tags w)) (existing_writeups g1)
    in if remaining_writeups_with_tag = []
       then (case unlink (tag_path t) g1 of
               Inl e \<Rightarrow> (Failed IOFailure, g1)
             | Inr g2 \<Rightarrow> (Done, g2\<lparr>existing_tags := existing_tags g2 - {t}\<rparr>))
       else (Done, g1))"
  have r: "remove_tag t from_writeups g =
     (case exists_file g (tag_path t) of
        None \<Rightarrow> (Raised, g)
      | Some found \<Rightarrow> if \<not> found then (Failed NotFound, g) else and_then detached finish)"
    unfolding remove_tag_def detach_all_def detached_def finish_def Let_def ..
  have d: "existing_tags (snd detached) = existing_tags g"
    by (simp add: detached_def detach_all_def Let_def split: option.splits)
  show thesis
  proof (cases "exists_file g (tag_path t)")
    case None
    with r have "remove_tag t from_writeups g = (Raised, g)" by (simp add: exists_file_def)
    then show thesis by (rule raised) simp
  next
    case (Some found)
    show thesis
    proof (cases found)
      case False
      with Some r have "remove_tag t from_writeups g = (Failed NotFound, g)"
        by (simp add: exists_file_def)
      then show thesis by (rule missing)
    next
      case True
      with Some r have r': "remove_tag t from_writeups g = and_then detached finish"
        by (simp add: exists_file_def)
      show thesis
      proof (cases "fst detached = Raised")
        case True
        with r' have "remove_tag t from_writeups g = (Raised, snd detached)"
          by (simp add: and_then_def prod_eq_iff)
        then show thesis using d by (rule raised)
      next
        case False
        with r' have r'': "remove_tag t from_writeups g = finish (snd detached)"
          by (simp add: and_then_def)
        let ?g1 = "snd detached"
        show thesis
        proof (cases "filter (\<lambda>w. t \<in> set (w_tags w)) (existing_writeups ?g1) = []")
          case False
          with r'' have "remove_tag t from_writeups g = (Done, ?g1)"
            by (simp add: finish_def Let_def)
          moreover from False have "\<exists>w \<in> set (existing_writeups ?g1). t \<in> set (w_tags w)"
            by (auto simp: filter_empty_conv)
          ultimately show thesis using d by (blast intro: kept)
        next
          case True
          show thesis
          proof (cases "files ?g1 (tag_path t) = None \<or> faults ?g1 Unlink (tag_path t)")
            case True
            with \<open>filter (\<lambda>w. t \<in> set (w_tags w)) (existing_writeups ?g1) = []\<close> r''
            have "remove_tag t from_writeups g = (Failed IOFailure, ?g1)"
              by (auto simp: finish_def Let_def unlink_def)
            then show thesis using d by (rule unlink_failed)
          next
            case False
            with \<open>filter (\<lambda>w. t \<in> set (w_tags w)) (existing_writeups ?g1) = []\<close> r''
            have e: "remove_tag t from_writeups g =
                (Done, ?g1\<lparr>files := (files ?g1)(tag_path t := None),
                           existing_tags := existing_tags ?g1 - {t}\<rparr>)"
              by (auto simp: finish_def Let_def unlink_def)
            have "existing_tags (?g1\<lparr>files := (files ?g1)(tag_path t := None),
                           existing_tags := existing_tags ?g1 - {t}\<rparr>) = existing_tags g - {t}"
              using d by simp
            with e show thesis by (rule removed)
          qed
        qed
      qed
    qed
  qed
qed

lemma remove_tag_tags:
  "existing_tags (snd (remove_tag t from_writeups g)) = existing_tags g \<or>
   existing_tags (snd (remove_tag t from_writeups g)) = existing_tags g - {t}"
  by (cases rule: remove_tag_shape [of t from_writeups g]) simp_all

lemma remove_tag_discards:
  assumes "fst (remove_tag t from_writeups g) = Done"
    and "\<forall>w \<in> set (existing_writeups (snd (remove_tag t from_writeups g))). t \<notin> set (w_tags w)"
  shows "t \<notin> existing_tags (snd (remove_tag t from_writeups g))"
  using assms by (cases rule: remove_tag_shape [of t from_writeups g]) auto

section \<open>Removing a writeup\<close>

lemma remove_writeup_not_found:
  "find (\<lambda>w. w_filename w = writeup_filename title) (existing_writeups g) = None \<Longrightarrow>
   remove_writeup title g = (Failed NotFound, g)"
  by (simp add: remove_writeup_def Let_def)

lemma remove_writeup_fault:
  "find (\<lambda>w. w_filename w = writeup_filename title) (existing_writeups g) = Some wr \<Longrightarrow>
   faults g Stat (WriteupsDir, writeup_filename title) \<or>
   files g (WriteupsDir, writeup_filename title) \<noteq> None \<and>
   faults g Unlink (WriteupsDir, writeup_filename title) \<Longrightarrow>
   remove_writeup title g = (Failed IOFailure, g)"
  by (auto simp: remove_writeup_def Let_def exists_file_def unlink_def)

lemma remove_writeup_cascade:
  assumes "find (\<lambda>w. w_filename w = writeup_filename title) (existing_writeups g) = Some wr"
    and "\<not> faults g Stat (WriteupsDir, writeup_filename title)"
    and "files g (WriteupsDir, writeup_filename title) = None \<or>
         \<not> faults g Unlink (WriteupsDir, writeup_filename title)"
  shows "remove_writeup title g =
     and_then
       (remove_broken_links_from_tags (writeup_filename title)
          (g\<lparr>files := (files g)((WriteupsDir, writeup_filename title) := None),
             existing_writeups := remove1 wr (existing_writeups g)\<rparr>))
       (\<lambda>g3. and_then (cleanup_unused_tags (w_tags wr) g3) (\<lambda>g4. update_main_pages g4))"
proof (cases "files g (WriteupsDir, writeup_filename title) = None")
  case True
  then have "(files g)((WriteupsDir, writeup_filename title) := None) = files g"
    by (simp add: fun_upd_idem)
  with True assms(1,2) show ?thesis
    by (simp add: remove_writeup_def Let_def exists_file_def)
next
  case False
  with assms show ?thesis
    by (auto simp: remove_writeup_def Let_def exists_file_def unlink_def)
qed

lemma remove_writeup_when_tests_return:
  assumes "find (\<lambda>w. w_filename w = writeup_filename title) (existing_writeups g) = Some wr"
    and "\<forall>p. \<not> faults g Stat p"
    and "files g (WriteupsDir, writeup_filename title) = None \<or>
         \<not> faults g Unlink (WriteupsDir, writeup_filename title)"
  shows "remove_writeup title g =
     (Done,
      snd (update_main_pages
        (snd (cleanup_unused_tags (w_tags wr)
           (snd (remove_broken_links_from_tags (writeup_filename title)
              (g\<lparr>files := (files g)((WriteupsDir, writeup_filename title) := None),
                 existing_writeups := remove1 wr (existing_writeups g)\<rparr>)))))))"
proof -
  from assms(2) have s: "\<not> faults g Stat p" for p by blast
  note c = remove_writeup_cascade [OF assms(1) s assms(3)]
  show ?thesis
    by (simp add: c prod_eq_iff s cleanup_unused_tags_outcome update_main_pages_outcome)
qed

lemma remove_writeup_tags [simp]:
  "existing_tags (snd (remove_writeup title g)) = existing_tags g"
proof (cases "find (\<lambda>w. w_filename w = writeup_filename title) (existing_writeups g)")
  case None
  then show ?thesis by (simp add: remove_writeup_not_found)
next
  case (Some wr)
  show ?thesis
  proof (cases "\<not> faults g Stat (WriteupsDir, writeup_filename title) \<and>
         (files g (WriteupsDir, writeup_filename title) = None \<or>
          \<not> faults g Unlink (WriteupsDir, writeup_filename title))")
    case True
    then have "remove_writeup title g =
     and_then
       (remove_broken_links_from_tags (writeup_filename title)
          (g\<lparr>files := (files g)((WriteupsDir, writeup_filename title) := None),
             existing_writeups := remove1 wr (existing_writeups g)\<rparr>))
       (\<lambda>g3. and_then (cleanup_unused_tags (w_tags wr) g3) (\<lambda>g4. update_main_pages g4))"
      by (intro remove_writeup_cascade [OF Some]) simp_all
    then show ?thesis by simp
  next
    case False
    then have "remove_writeup title g = (Failed IOFailure, g)"
      by (intro remove_writeup_fault [OF Some]) auto
    then show ?thesis by simp
  qed
qed

section \<open>The tags listing\<close>

lemma sublist_join: "x \<in> set xs \<Longrightarrow> sublist x (join sep xs)"
proof (induction sep xs rule: join.induct)
  case (1 sep)
  then show ?case by simp
next
  case (2 sep y)
  then show ?case by simp
next
  case (3 sep y z zs)
  show ?case
  proof (cases "x = y")
    case True
    then show ?thesis by (simp add: sublist_append_rightI)
  next
    case False
    with 3 have "sublist x (join sep (z # zs))" by simp
    then obtain ps ss where "join sep (z # zs) = ps @ x @ ss"
      by (auto simp: sublist_def)
    then have "join sep (y # z # zs) = (y @ sep @ ps) @ x @ ss" by simp
    then show ?thesis unfolding sublist_def by blast
  qed
qed

lemma tags_grid_card_link:
  \<open>sublist (''<a href="tags/tag-'' @ t @ ''.html" class="tag-badge">'' @ t @ ''</a>'')
     (tags_grid_card t)\<close>
proof -
  have \<open>tags_grid_card t =
      ''    <div class="col-auto mb-2 tag-card" data-category="">\<newline>        ''
      @ (''<a href="tags/tag-'' @ t @ ''.html" class="tag-badge">'' @ t @ ''</a>'')
      @ ''\<newline>    </div>''\<close>
    by (simp add: tags_grid_card_def)
  then show ?thesis
    unfolding sublist_def by blast
qed

lemma replace_region_sublist:
  "replace_region content sm em skip b x a = Inr new \<Longrightarrow> sublist x new"
proof -
  assume "replace_region content sm em skip b x a = Inr new"
  then obtain sp ep where "new = take (sp + length sm) content @ b @ x @ a @ drop ep content"
    by (auto simp: replace_region_Inr)
  then have "new = (take (sp + length sm) content @ b) @ x @ (a @ drop ep content)" by simp
  then show ?thesis unfolding sublist_def by blast
qed

lemma replace_region_Inr_any:
  "replace_region content sm em skip b x a = Inr new \<Longrightarrow>
   \<exists>new'. replace_region content sm em skip b' x' a' = Inr new'"
  by (auto simp: replace_region_def split: option.splits)

lemma update_tags_page_written:
  assumes "files g (BaseDir, ''tags.html'') = Some stored"
    and "\<not> faults g Stat (BaseDir, ''tags.html'')"
    and "\<not> faults g Read (BaseDir, ''tags.html'')" "\<not> faults g Write (BaseDir, ''tags.html'')"
    and "update_tags_page_content (universal_newlines stored) (generate_tags_grid g) = Inr spliced"
  shows "files (snd (update_tags_page g)) (BaseDir, ''tags.html'') = Some spliced"
  using assms by (simp add: update_tags_page_def Let_def exists_file_def rewrite_file_written)

lemma update_tags_page_lists_known_tag:
  assumes "files g (BaseDir, ''tags.html'') = Some stored"
    and "\<not> faults g Stat (BaseDir, ''tags.html'')"
    and "\<not> faults g Read (BaseDir, ''tags.html'')" "\<not> faults g Write (BaseDir, ''tags.html'')"
    and "update_tags_page_content (universal_newlines stored) anything = Inr spliced"
    and "t \<in> existing_tags g" "finite (existing_tags g)"
  shows \<open>\<exists>listing. files (snd (update_tags_page g)) (BaseDir, ''tags.html'') = Some listing \<and>
     sublist (''<a href="tags/tag-'' @ t @ ''.html" class="tag-badge">'' @ t @ ''</a>'') listing\<close>
proof -
  from assms(5) obtain listing where
    l: "update_tags_page_content (universal_newlines stored) (generate_tags_grid g) = Inr listing"
    unfolding update_tags_page_content_def using replace_region_Inr_any by blast
  then have "sublist (generate_tags_grid g) listing"
    unfolding update_tags_page_content_def by (rule replace_region_sublist)
  moreover have "sublist (tags_grid_card t) (generate_tags_grid g)"
    unfolding generate_tags_grid_def using assms(6,7) by (intro sublist_join) simp
  ultimately have \<open>sublist (''<a href="tags/tag-'' @ t @ ''.html" class="tag-badge">'' @ t @ ''</a>'') listing\<close>
    using tags_grid_card_link sublist_order.order_trans by blast
  moreover have "files (snd (update_tags_page g)) (BaseDir, ''tags.html'') = Some listing"
    using assms(1-4) l by (rule update_tags_page_written)
  ultimately show ?thesis by blast
qed

lemma cleanup_unused_tags_removed:
  assumes "t \<in> set tags_to_check"
    and "\<forall>w \<in> set (existing_writeups g). t \<notin> set (w_tags w)"
    and "\<not> faults g Unlink (tag_path t)"
    and "\<forall>p. \<not> faults g Stat p"
  shows "files (snd (cleanup_unused_tags tags_to_check g)) (tag_path t) = None"
proof -
  from assms(4) have "\<not> faults g Stat p" for p by blast
  with assms(1-3) show ?thesis
    unfolding cleanup_unused_tags_def Let_def
    by (intro unlink_tag_files_removed) auto
qed

lemma update_main_pages_tags_listing_of:
  assumes "\<forall>p. \<not> faults g Stat p"
  shows "files (snd (update_main_pages g)) (BaseDir, ''tags.html'') =
         files (snd (update_tags_page (snd (update_writeups_page g)))) (BaseDir, ''tags.html'')"
  by (simp add: update_main_pages_when_tests_return [OF assms])

lemma remove_writeup_stale_listing:
  assumes found: "find (\<lambda>w. w_filename w = writeup_filename title) (existing_writeups g) = Some wr"
    and tests: "\<forall>p. \<not> faults g Stat p"
    and nofault: "\<not> faults g Unlink (WriteupsDir, writeup_filename title)"
    and t: "t \<in> set (w_tags wr)"
    and orphan: "\<forall>w \<in> set (remove1 wr (existing_writeups g)). t \<notin> set (w_tags w)"
    and known: "t \<in> existing_tags g" "finite (existing_tags g)"
    and tagfault: "\<not> faults g Unlink (tag_path t)"
    and page: "files g (BaseDir, ''tags.html'') = Some stored"
      "\<not> faults g Read (BaseDir, ''tags.html'')" "\<not> faults g Write (BaseDir, ''tags.html'')"
      "update_tags_page_content (universal_newlines stored) anything = Inr spliced"
  shows \<open>fst (remove_writeup title g) = Done \<and>
     files (snd (remove_writeup title g)) (tag_path t) = None \<and>
     t \<in> existing_tags (snd (remove_writeup title g)) \<and>
     (\<exists>listing. files (snd (remove_writeup title g)) (BaseDir, ''tags.html'') = Some listing \<and>
        sublist (''<a href="tags/tag-'' @ t @ ''.html" class="tag-badge">'' @ t @ ''</a>'') listing)\<close>
proof -
  let ?fn = "writeup_filename title"
  let ?g0 = "g\<lparr>files := (files g)((WriteupsDir, ?fn) := None),
               existing_writeups := remove1 wr (existing_writeups g)\<rparr>"
  let ?g3 = "snd (remove_broken_links_from_tags ?fn ?g0)"
  let ?g4 = "snd (cleanup_unused_tags (w_tags wr) ?g3)"
  let ?h = "snd (update_writeups_page ?g4)"
  from tests have s: "\<not> faults g Stat p" for p by blast
  have r: "remove_writeup title g = (Done, snd (update_main_pages ?g4))"
    using found tests nofault by (intro remove_writeup_when_tests_return) simp_all
  have gone: "files ?g4 (tag_path t) = None"
    using t orphan tagfault s by (intro cleanup_unused_tags_removed) simp_all
  have h1: "files ?h (BaseDir, ''tags.html'') = Some stored"
    using page(1) by simp
  have h2: "\<not> faults ?h Stat (BaseDir, ''tags.html'')"
    "\<not> faults ?h Read (BaseDir, ''tags.html'')" "\<not> faults ?h Write (BaseDir, ''tags.html'')"
    using page(2,3) s by simp_all
  have h3: "t \<in> existing_tags ?h" "finite (existing_tags ?h)"
    using known by simp_all
  from update_tags_page_lists_known_tag [OF h1 h2 page(4) h3]
  obtain listing where
    l: "files (snd (update_tags_page ?h)) (BaseDir, ''tags.html'') = Some listing" and
    sl: \<open>sublist (''<a href="tags/tag-'' @ t @ ''.html" class="tag-badge">'' @ t @ ''</a>'') listing\<close>
    by blast
  have "\<forall>p. \<not> faults ?g4 Stat p" using s by simp
  from update_main_pages_tags_listing_of [OF this] l
  have "files (snd (update_main_pages ?g4)) (BaseDir, ''tags.html'') = Some listing"
    by simp
  with r gone known(1) sl show ?thesis by simp
qed

text \<open>
  Claim C10. The cleanup of orphaned tags in RemoveWriteup unlinks the tag's file and
  leaves its name in the set of known tags; the listing refresh that ends the same
  RemoveWriteup therefore writes a card linking to the deleted tag page into the tags
  listing (stated where no existence test and no listing of a directory raises, so that
  the call reaches its end). No operation but RemoveTag takes a name out of the set of
  known tags, however the operation ends; a RemoveTag that succeeds and leaves no writeup
  with the tag does take it out.
\<close>

theorem cleanup_keeps_tag_name:
  \<open>existing_tags (snd (cleanup_unused_tags tags_to_check g)) = existing_tags g \<and>
   existing_tags (snd (remove_writeup title g)) = existing_tags g \<and>
   existing_tags (snd (update_main_pages g)) = existing_tags g \<and>
   existing_tags g \<subseteq> existing_tags (snd (create_tag tag_name description writeup_titles g)) \<and>
   existing_tags g \<subseteq>
     existing_tags
       (snd (create_writeup title tags machine_photo created_date updated_date difficulty os_type
               ip_address today g)) \<and>
   (existing_tags (snd (remove_tag tag_name from_writeups g)) = existing_tags g \<or>
    existing_tags (snd (remove_tag tag_name from_writeups g)) = existing_tags g - {tag_name}) \<and>
   (fst (remove_tag tag_name from_writeups g) = Done \<and>
    (\<forall>w \<in> set (existing_writeups (snd (remove_tag tag_name from_writeups g))).
       tag_name \<notin> set (w_tags w))
    \<longrightarrow> tag_name \<notin> existing_tags (snd (remove_tag tag_name from_writeups g))) \<and>
   (find (\<lambda>w. w_filename w = writeup_filename title) (existing_writeups g) = Some wr \<and>
    (\<forall>p. \<not> faults g Stat p) \<and>
    \<not> faults g Unlink (WriteupsDir, writeup_filename title) \<and>
    t \<in> set (w_tags wr) \<and>
    (\<forall>w \<in> set (remove1 wr (existing_writeups g)). t \<notin> set (w_tags w)) \<and>
    t \<in> existing_tags g \<and> finite (existing_tags g) \<and>
    files g (tag_path t) \<noteq> None \<and> \<not> faults g Unlink (tag_path t) \<and>
    files g (BaseDir, ''tags.html'') = Some stored \<and>
    \<not> faults g Read (BaseDir, ''tags.html'') \<and> \<not> faults g Write (BaseDir, ''tags.html'') \<and>
    update_tags_page_content (universal_newlines stored) anything = Inr spliced
    \<longrightarrow>
      fst (remove_writeup title g) = Done \<and>
      files (snd (remove_writeup title g)) (tag_path t) = None \<and>
      t \<in> existing_tags (snd (remove_writeup title g)) \<and>
      (\<exists>listing. files (snd (remove_writeup title g)) (BaseDir, ''tags.html'') = Some listing \<and>
         sublist (''<a href="tags/tag-'' @ t @ ''.html" class="tag-badge">'' @ t @ ''</a>'')
           listing))\<close>
proof -
  have 7: "tag_name \<notin> existing_tags (snd (remove_tag tag_name from_writeups g))"
    if "fst (remove_tag tag_name from_writeups g) = Done \<and>
        (\<forall>w \<in> set (existing_writeups (snd (remove_tag tag_name from_writeups g))).
           tag_name \<notin> set (w_tags w))"
    using that remove_tag_discards [of tag_name from_writeups g] by blast
  have 8: \<open>fst (remove_writeup title g) = Done \<and>
      files (snd (remove_writeup title g)) (tag_path t) = None \<and>
      t \<in> existing_tags (snd (remove_writeup title g)) \<and>
      (\<exists>listing. files (snd (remove_writeup title g)) (BaseDir, ''tags.html'') = Some listing \<and>
         sublist (''<a href="tags/tag-'' @ t @ ''.html" class="tag-badge">'' @ t @ ''</a>'')
           listing)\<close>
    if "find (\<lambda>w. w_filename w = writeup_filename title) (existing_writeups g) = Some wr \<and>
    (\<forall>p. \<not> faults g Stat p) \<and>
    \<not> faults g Unlink (WriteupsDir, writeup_filename title) \<and>
    t \<in> set (w_tags wr) \<and>
    (\<forall>w \<in> set (remove1 wr (existing_writeups g)). t \<notin> set (w_tags w)) \<and>
    t \<in> existing_tags g \<and> finite (existing_tags g) \<and>
    files g (tag_path t) \<noteq> None \<and> \<not> faults g Unlink (tag_path t) \<and>
    files g (BaseDir, ''tags.html'') = Some stored \<and>
    \<not> faults g Read (BaseDir, ''tags.html'') \<and> \<not> faults g Write (BaseDir, ''tags.html'') \<and>
    update_tags_page_content (universal_newlines stored) anything = Inr spliced"
    using that remove_writeup_stale_listing [of title g wr t stored anything spliced]
    by blast
  have 4: "existing_tags g \<subseteq> existing_tags (snd (create_tag tag_name description writeup_titles g))"
    by (rule create_tag_tags_mono)
  have 5: "existing_tags g \<subseteq>
     existing_tags
       (snd (create_writeup title tags machine_photo created_date updated_date difficulty os_type
               ip_address today g))"
    by (rule create_writeup_tags_mono)
  note 6 = remove_tag_tags [of tag_name from_writeups g]
  show ?thesis
    apply (intro conjI impI)
    subgoal by simp
    subgoal by simp
    subgoal by simp
    subgoal by (rule 4)
    subgoal by (rule 5)
    subgoal by (rule 6)
    subgoal using 7 by blast
    subgoal using 8 by blast
    subgoal using 8 by blast
    subgoal using 8 by blast
    subgoal using 8 by blast
    done
qed

lemma lower_Box: "lower ''Box'' = ''box''"
  by code_simp

lemma writeup_filename_Box: "writeup_filename ''Box'' = ''writeup-box.html''"
  by (simp add: writeup_filename_def lower_Box replace_char_def)

theorem cleanup_keeps_tag_name_witness:
  \<open>fst (remove_writeup ''Box'' example_portfolio) = Done \<and>
   files example_portfolio (tag_path ''web'') \<noteq> None \<and>
   files (snd (remove_writeup ''Box'' example_portfolio)) (tag_path ''web'') = None \<and>
   ''web'' \<in> existing_tags (snd (remove_writeup ''Box'' example_portfolio)) \<and>
   (\<exists>listing.
      files (snd (remove_writeup ''Box'' example_portfolio)) (BaseDir, ''tags.html'') = Some listing \<and>
      sublist ''<a href="tags/tag-web.html" class="tag-badge">web</a>'' listing) \<and>
   fst (remove_tag ''web'' None example_generator) = Done \<and>
   ''web'' \<in> existing_tags example_generator \<and>
   ''web'' \<notin> existing_tags (snd (remove_tag ''web'' None example_generator))\<close>
proof -
  have 1: "find (\<lambda>w. w_filename w = writeup_filename ''Box'') (existing_writeups example_portfolio)
             = Some example_box"
    by (simp add: writeup_filename_Box example_portfolio_def example_box_def)
  have 2: "\<not> faults example_portfolio Unlink (WriteupsDir, writeup_filename ''Box'')"
    "\<not> faults example_portfolio Unlink (tag_path ''web'')"
    "\<not> faults example_portfolio Read (BaseDir, ''tags.html'')"
    "\<not> faults example_portfolio Write (BaseDir, ''tags.html'')"
    "\<forall>p. \<not> faults example_portfolio Stat p"
    by (simp_all add: example_portfolio_def)
  have 3: "''web'' \<in> set (w_tags example_box)"
    "\<forall>w \<in> set (remove1 example_box (existing_writeups example_portfolio)). ''web'' \<notin> set (w_tags w)"
    "''web'' \<in> existing_tags example_portfolio" "finite (existing_tags example_portfolio)"
    by (simp_all add: example_portfolio_def example_box_def)
  have 4: "files example_portfolio (tag_path ''web'') \<noteq> None"
    "files example_portfolio (BaseDir, ''tags.html'') = Some example_tags_page"
    by (simp_all add: example_portfolio_def tag_path_def)
  have 5: \<open>update_tags_page_content (universal_newlines example_tags_page) [] =
      Inr (''<main><div class="row" id="tagsContainer">\<newline>\<newline>''
           @ ''</div>\<newline>\<newline>                </main>'')\<close>
    by (simp add: update_tags_page_content_def replace_region_def py_find_def example_tags_page_def
        tags_container_start_marker_def main_end_marker_def)
  have 6: "fst (remove_tag ''web'' None example_generator) = Done"
    "existing_writeups (snd (remove_tag ''web'' None example_generator)) = []"
    "''web'' \<in> existing_tags example_generator"
    by (simp_all add: remove_tag_def Let_def exists_file_def unlink_def example_generator_def
        tag_path_def)
  note c = cleanup_keeps_tag_name [where title = "''Box''" and g = example_portfolio
      and wr = example_box and t = "''web''" and stored = example_tags_page
      and anything = "[]"]
  note d = cleanup_keeps_tag_name [where g = example_generator and tag_name = "''web''"
      and from_writeups = None]
  have a: \<open>fst (remove_writeup ''Box'' example_portfolio) = Done \<and>
   files (snd (remove_writeup ''Box'' example_portfolio)) (tag_path ''web'') = None \<and>
   ''web'' \<in> existing_tags (snd (remove_writeup ''Box'' example_portfolio)) \<and>
   (\<exists>listing.
      files (snd (remove_writeup ''Box'' example_portfolio)) (BaseDir, ''tags.html'') = Some listing \<and>
      sublist ''<a href="tags/tag-web.html" class="tag-badge">web</a>'' listing)\<close>
    using c 1 2 3 4 5 by simp
  have b: "''web'' \<notin> existing_tags (snd (remove_tag ''web'' None example_generator))"
    using d 6 by simp
  from a b 4(1) 6 show ?thesis by blast
qed

section \<open>Creating a writeup\<close>

lemma replace_char_strip: "replace_char old [] s = filter (\<lambda>c. c \<noteq> old) s"
  by (induction s) (simp_all add: replace_char_def)

lemma replace_char_single: "replace_char old [new] s = map (\<lambda>c. if c = old then new else c) s"
  by (induction s) (simp_all add: replace_char_def)

lemma tag_path_inject [simp]: "(tag_path t = tag_path u) = (t = u)"
  by (simp add: tag_path_def)

lemma tag_path_dir [simp]: "fst (tag_path t) = TagsDir"
  by (simp add: tag_path_def)

lemma create_tag_None:
  "create_tag t d None g =
     (if faults g Stat (tag_path t) then (Raised, g)
      else if files g (tag_path t) \<noteq> None then (Failed AlreadyExists, g)
      else if faults g Write (tag_path t) then (Failed IOFailure, g)
      else (Done, g\<lparr>files := (files g)(tag_path t \<mapsto> generate_tag_html t d),
                    existing_tags := insert t (existing_tags g)\<rparr>))"
  by (simp add: create_tag_def Let_def exists_file_def write_file_def)

lemma create_missing_tags_model [simp]:
  "existing_writeups (snd (create_missing_tags ts g)) = existing_writeups g"
  "existing_projects (snd (create_missing_tags ts g)) = existing_projects g"
  by (induction ts arbitrary: g; simp add: create_tag_None; fail)+

lemma create_missing_tags_other [simp]:
  "fst q \<noteq> TagsDir \<Longrightarrow> files (snd (create_missing_tags ts g)) q = files g q"
  by (induction ts arbitrary: g) (auto simp: create_tag_None)

lemma create_missing_tags_keeps:
  "files g q \<noteq> None \<Longrightarrow> files (snd (create_missing_tags ts g)) q = files g q"
  by (induction ts arbitrary: g) (auto simp: create_tag_None)

lemma create_missing_tags_known:
  "t \<in> existing_tags g \<Longrightarrow> t \<in> existing_tags (snd (create_missing_tags ts g))"
  using create_missing_tags_mono by blast

lemma create_missing_tags_outcome:
  "fst (create_missing_tags ts g) = Done \<or> fst (create_missing_tags ts g) = Raised"
  by (induction ts arbitrary: g) simp_all

lemma create_missing_tags_returns:
  "\<forall>t \<in> set ts. \<not> faults g Stat (tag_path t) \<Longrightarrow> fst (create_missing_tags ts g) = Done"
  by (induction ts arbitrary: g) (simp_all add: create_tag_None)

lemma create_missing_tags_creates:
  assumes "t \<in> set ts" "t \<notin> existing_tags g" "files g (tag_path t) = None"
    "\<not> faults g Write (tag_path t)" "\<forall>u \<in> set ts. \<not> faults g Stat (tag_path u)"
  shows "files (snd (create_missing_tags ts g)) (tag_path t) = Some (generate_tag_html t []) \<and>
         t \<in> existing_tags (snd (create_missing_tags ts g))"
  using assms
proof (induction ts arbitrary: g)
  case Nil
  then show ?case by simp
next
  case (Cons u us)
  show ?case
  proof (cases "u \<in> existing_tags g")
    case True
    with Cons.prems have "t \<in> set us" by auto
    from Cons.IH [OF this Cons.prems(2,3,4)] Cons.prems(5) True show ?thesis by simp
  next
    case False
    let ?g1 = "snd (create_tag u [] None g)"
    from Cons.prems(5) have nr: "fst (create_tag u [] None g) \<noteq> Raised"
      by (simp add: create_tag_None)
    show ?thesis
    proof (cases "u = t")
      case True
      with Cons.prems have f: "files ?g1 (tag_path t) = Some (generate_tag_html t [])"
        and k: "t \<in> existing_tags ?g1"
        by (simp_all add: create_tag_None)
      from f have "files (snd (create_missing_tags us ?g1)) (tag_path t)
                     = Some (generate_tag_html t [])"
        by (simp add: create_missing_tags_keeps)
      moreover from k have "t \<in> existing_tags (snd (create_missing_tags us ?g1))"
        by (rule create_missing_tags_known)
      ultimately show ?thesis using False nr by simp
    next
      case neq: False
      with Cons.prems have "t \<in> set us" "t \<notin> existing_tags ?g1"
        "files ?g1 (tag_path t) = None" "\<not> faults ?g1 Write (tag_path t)"
        "\<forall>u \<in> set us. \<not> faults ?g1 Stat (tag_path u)"
        by (auto simp: create_tag_None)
      from Cons.IH [OF this] False nr show ?thesis by simp
    qed
  qed
qed

lemma create_missing_tags_all:
  "t \<in> set ts \<Longrightarrow> \<forall>u \<in> set ts. \<not> faults g Stat (tag_path u) \<Longrightarrow>
   t \<in> existing_tags (snd (create_missing_tags ts g)) \<or> files g (tag_path t) \<noteq> None \<or>
   faults g Write (tag_path t)"
  using create_missing_tags_creates [of t ts g] create_missing_tags_known [of t g ts] by blast

lemma create_writeup_raised:
  "faults g Stat (WriteupsDir, writeup_filename title) \<Longrightarrow>
   create_writeup title tags photo cd ud d os ip today g = (Raised, g)"
  by (simp add: create_writeup_def Let_def exists_file_def)

lemma create_writeup_exists:
  "\<not> faults g Stat (WriteupsDir, writeup_filename title) \<Longrightarrow>
   files g (WriteupsDir, writeup_filename title) \<noteq> None \<Longrightarrow>
   create_writeup title tags photo cd ud d os ip today g = (Failed AlreadyExists, g)"
  by (auto simp: create_writeup_def Let_def exists_file_def)

lemma create_writeup_fresh:
  assumes "files g (WriteupsDir, writeup_filename title) = None"
    and "\<not> faults g Stat (WriteupsDir, writeup_filename title)"
  shows "create_writeup title tags photo cd ud d os ip today g =
     (let created = (case cd of None \<Rightarrow> today | Some x \<Rightarrow> if x = [] then today else x);
          updated = (case ud of None \<Rightarrow> created | Some x \<Rightarrow> if x = [] then created else x);
          r = create_missing_tags tags g;
          g1 = snd r
      in if fst r = Raised then (Raised, g1)
         else if faults g Write (WriteupsDir, writeup_filename title) then (Failed IOFailure, g1)
         else (Done,
               g1\<lparr>files := (files g1)((WriteupsDir, writeup_filename title) \<mapsto>
                      generate_writeup_html title tags photo created updated d os ip),
                  existing_writeups := existing_writeups g @
                    [\<lparr>w_title = title, w_filename = writeup_filename title,
                      w_created_date = created, w_updated_date = updated,
                      w_machine_photo = photo, w_tags = tags, w_difficulty = d,
                      w_os_type = os, w_ip_address = ip\<rparr>]\<rparr>))"
  using assms
  by (simp add: create_writeup_def Let_def exists_file_def write_file_def and_then_def
      prod_eq_iff)

text \<open>
  Claim C6. The file name of a writeup is its title in lower case, spaces replaced by
  hyphens, colons and periods removed, between \<open>writeup-\<close> and \<open>.html\<close>. When a writeup
  document of that name exists, CreateWriteup fails with AlreadyExists and changes
  nothing; a second CreateWriteup with the same title after a successful one fails so,
  and the model holds one more writeup of that file name than before the first call.
\<close>

theorem create_writeup_already_exists:
  "writeup_filename title =
     ''writeup-''
     @ filter (\<lambda>c. c \<noteq> CHR '':'' \<and> c \<noteq> CHR ''.'')
         (map (\<lambda>c. if c = CHR '' '' then CHR ''-'' else c) (lower title))
     @ ''.html'' \<and>
   (exists_file g (WriteupsDir, writeup_filename title) = Some True \<longrightarrow>
      create_writeup title tags machine_photo created_date updated_date difficulty os_type
        ip_address today g = (Failed AlreadyExists, g)) \<and>
   (create_writeup title tags machine_photo created_date updated_date difficulty os_type
      ip_address today g = (Done, g_created) \<longrightarrow>
      create_writeup title tags_again machine_photo_again created_date_again updated_date_again difficulty_again os_type_again
        ip_address_again today_again g_created = (Failed AlreadyExists, g_created) \<and>
      length (filter (\<lambda>w. w_filename w = writeup_filename title) (existing_writeups g_created)) =
        Suc (length (filter (\<lambda>w. w_filename w = writeup_filename title) (existing_writeups g))))"
proof (intro conjI impI)
  show "writeup_filename title =
     ''writeup-''
     @ filter (\<lambda>c. c \<noteq> CHR '':'' \<and> c \<noteq> CHR ''.'')
         (map (\<lambda>c. if c = CHR '' '' then CHR ''-'' else c) (lower title))
     @ ''.html''"
    by (simp add: writeup_filename_def replace_char_strip replace_char_single conj_commute)
next
  assume "exists_file g (WriteupsDir, writeup_filename title) = Some True"
  then show "create_writeup title tags machine_photo created_date updated_date difficulty os_type
        ip_address today g = (Failed AlreadyExists, g)"
    by (simp add: create_writeup_exists)
next
  assume a: "create_writeup title tags machine_photo created_date updated_date difficulty os_type
      ip_address today g = (Done, g_created)"
  have test: "\<not> faults g Stat (WriteupsDir, writeup_filename title)"
  proof
    assume "faults g Stat (WriteupsDir, writeup_filename title)"
    from create_writeup_raised [OF this] a show False by simp
  qed
  have fresh: "files g (WriteupsDir, writeup_filename title) = None"
  proof (rule ccontr)
    assume "files g (WriteupsDir, writeup_filename title) \<noteq> None"
    from create_writeup_exists [OF test this] a show False by simp
  qed
  from a create_writeup_fresh [OF fresh test, of tags machine_photo created_date updated_date
      difficulty os_type ip_address today]
  have e: "files g_created (WriteupsDir, writeup_filename title) \<noteq> None"
    and s: "faults g_created = faults g"
    and w: "\<exists>w. existing_writeups g_created = existing_writeups g @ [w] \<and>
              w_filename w = writeup_filename title"
    by (auto simp: Let_def split: if_splits)
  from test s have "\<not> faults g_created Stat (WriteupsDir, writeup_filename title)" by simp
  from create_writeup_exists [OF this e]
  show "create_writeup title tags_again machine_photo_again created_date_again updated_date_again difficulty_again
        os_type_again ip_address_again today_again g_created = (Failed AlreadyExists, g_created)" .
  from w show "length (filter (\<lambda>w. w_filename w = writeup_filename title) (existing_writeups g_created)) =
        Suc (length (filter (\<lambda>w. w_filename w = writeup_filename title) (existing_writeups g)))"
    by auto
qed

lemma empty_portfolio_simps:
  "files empty_portfolio = (\<lambda>p. None)"
  "faults empty_portfolio = (\<lambda>operation p. False)"
  "existing_tags empty_portfolio = {}"
  "existing_writeups empty_portfolio = []"
  by (simp_all add: empty_portfolio_def)

lemma create_Box_first:
  "fst (create_writeup ''Box'' [''web''] [] None None [] [] [] ''January 01, 2025''
          empty_portfolio) = Done"
proof -
  have "fst (create_missing_tags [''web''] empty_portfolio) = Done"
    by (rule create_missing_tags_returns) (simp add: empty_portfolio_simps)
  then show ?thesis
    by (simp add: create_writeup_fresh empty_portfolio_simps Let_def
        del: create_missing_tags.simps)
qed

theorem create_writeup_already_exists_witness:
  "writeup_filename ''Box'' = ''writeup-box.html'' \<and>
   fst (create_writeup ''Box'' [''web''] [] None None [] [] [] ''January 01, 2025''
          empty_portfolio) = Done \<and>
   create_writeup ''Box'' [''web''] [] None None [] [] [] ''January 02, 2025''
     (snd (create_writeup ''Box'' [''web''] [] None None [] [] [] ''January 01, 2025''
             empty_portfolio))
   = (Failed AlreadyExists,
      snd (create_writeup ''Box'' [''web''] [] None None [] [] [] ''January 01, 2025''
             empty_portfolio)) \<and>
   length (filter (\<lambda>w. w_filename w = writeup_filename ''Box'')
             (existing_writeups
                (snd (create_writeup ''Box'' [''web''] [] None None [] [] []
                        ''January 01, 2025'' empty_portfolio)))) = 1 \<and>
   exists_file example_portfolio (WriteupsDir, writeup_filename ''Box'') = Some True \<and>
   create_writeup ''Box'' [''web''] [] None None [] [] [] ''January 02, 2025'' example_portfolio
     = (Failed AlreadyExists, example_portfolio)"
proof -
  let ?g1 = "snd (create_writeup ''Box'' [''web''] [] None None [] [] [] ''January 01, 2025''
                    empty_portfolio)"
  have c: "create_writeup ''Box'' [''web''] [] None None [] [] [] ''January 01, 2025''
             empty_portfolio = (Done, ?g1)"
    using create_Box_first by (metis prod.collapse)
  have n: "filter (\<lambda>w. w_filename w = writeup_filename ''Box'') (existing_writeups empty_portfolio)
             = []"
    by (simp add: empty_portfolio_def)
  have x: "exists_file example_portfolio (WriteupsDir, writeup_filename ''Box'') = Some True"
    by (simp add: exists_file_def example_portfolio_def writeup_filename_Box)
  from create_writeup_already_exists [where title = "''Box''" and g = empty_portfolio
      and g_created = ?g1 and tags = "[''web'']" and machine_photo = "[]" and created_date = None
      and updated_date = None and difficulty = "[]" and os_type = "[]" and ip_address = "[]"
      and today = "''January 01, 2025''"
      and tags_again = "[''web'']" and machine_photo_again = "[]" and created_date_again = None
      and updated_date_again = None and difficulty_again = "[]" and os_type_again = "[]" and ip_address_again = "[]"
      and today_again = "''January 02, 2025''"] c n create_Box_first writeup_filename_Box
  have 1: "writeup_filename ''Box'' = ''writeup-box.html''"
    "create_writeup ''Box'' [''web''] [] None None [] [] [] ''January 02, 2025'' ?g1
       = (Failed AlreadyExists, ?g1)"
    "length (filter (\<lambda>w. w_filename w = writeup_filename ''Box'') (existing_writeups ?g1)) = 1"
    by simp_all
  from create_writeup_already_exists [where title = "''Box''" and g = example_portfolio
      and tags = "[''web'']" and machine_photo = "[]" and created_date = None
      and updated_date = None and difficulty = "[]" and os_type = "[]" and ip_address = "[]"
      and today = "''January 02, 2025''"] x
  have 2: "create_writeup ''Box'' [''web''] [] None None [] [] [] ''January 02, 2025''
             example_portfolio = (Failed AlreadyExists, example_portfolio)"
    by blast
  from 1 2 x create_Box_first show ?thesis by blast
qed

text \<open>
  Where no existence test raises, CreateWriteup does what claim C7 says: before it writes
  the writeup, it creates the page of every tag of the list that is not known, with an
  empty description and without attaching it to any writeup, and whether it succeeds
  depends on the write of the writeup document alone.
\<close>

lemma create_writeup_creates_unknown_tags_when_tests_return:
  fixes machine_photo difficulty os_type ip_address today :: string
    and created_date updated_date :: "string option"
  assumes fresh: "exists_file g (WriteupsDir, writeup_filename title) = Some False"
    and tests: "\<forall>t \<in> set tags. \<not> faults g Stat (tag_path t)"
  defines "r \<equiv> create_writeup title tags machine_photo created_date updated_date difficulty
                os_type ip_address today g"
  shows "(fst r = Done) = (\<not> faults g Write (WriteupsDir, writeup_filename title))"
    and "fst r = Done \<or> fst r = Failed IOFailure"
    and "\<forall>t \<in> set tags.
            t \<notin> existing_tags g \<and> files g (tag_path t) = None \<and> \<not> faults g Write (tag_path t)
            \<longrightarrow> files (snd r) (tag_path t) = Some (generate_tag_html t []) \<and>
                t \<in> existing_tags (snd r)"
    and "\<forall>t \<in> set tags.
            t \<in> existing_tags (snd r) \<or> files g (tag_path t) \<noteq> None \<or>
            faults g Write (tag_path t)"
    and "take (length (existing_writeups g)) (existing_writeups (snd r)) = existing_writeups g"
    and "\<forall>p. fst p = WriteupsDir \<and> p \<noteq> (WriteupsDir, writeup_filename title)
            \<longrightarrow> files (snd r) p = files g p"
proof -
  from fresh have f: "files g (WriteupsDir, writeup_filename title) = None"
    and s: "\<not> faults g Stat (WriteupsDir, writeup_filename title)"
    by simp_all
  have d: "fst (create_missing_tags tags g) = Done"
    using tests by (rule create_missing_tags_returns)
  note c = create_writeup_fresh [OF f s, of tags machine_photo created_date updated_date
      difficulty os_type ip_address today]
  show "(fst r = Done) = (\<not> faults g Write (WriteupsDir, writeup_filename title))"
    by (simp add: r_def c d Let_def)
  show "fst r = Done \<or> fst r = Failed IOFailure"
    by (simp add: r_def c d Let_def)
  have fl: "files (snd r) (tag_path t) = files (snd (create_missing_tags tags g)) (tag_path t)" for t
    by (simp add: r_def c d Let_def tag_path_def)
  have k: "existing_tags (snd r) = existing_tags (snd (create_missing_tags tags g))"
    by (simp add: r_def c d Let_def)
  show "\<forall>t \<in> set tags.
            t \<notin> existing_tags g \<and> files g (tag_path t) = None \<and> \<not> faults g Write (tag_path t)
            \<longrightarrow> files (snd r) (tag_path t) = Some (generate_tag_html t []) \<and>
                t \<in> existing_tags (snd r)"
    using create_missing_tags_creates [where ts = tags and g = g] tests
    by (simp only: fl k) blast
  show "\<forall>t \<in> set tags.
            t \<in> existing_tags (snd r) \<or> files g (tag_path t) \<noteq> None \<or>
            faults g Write (tag_path t)"
    using create_missing_tags_all [where ts = tags and g = g] tests
    by (simp only: k) blast
  show "take (length (existing_writeups g)) (existing_writeups (snd r)) = existing_writeups g"
    by (simp add: r_def c d Let_def)
  show "\<forall>p. fst p = WriteupsDir \<and> p \<noteq> (WriteupsDir, writeup_filename title)
            \<longrightarrow> files (snd r) p = files g p"
    by (simp add: r_def c d Let_def)
qed

lemma short_names_portfolio_simps:
  "files short_names_portfolio = (\<lambda>p. None)"
  "faults short_names_portfolio = (\<lambda>operation p. 255 < length (snd p))"
  "existing_tags short_names_portfolio = {}"
  "existing_writeups short_names_portfolio = []"
  by (simp_all add: short_names_portfolio_def empty_portfolio_def)

text \<open>
  Claim C7 on \<^verbatim>\<open>create_writeup('Box', ['t' * 300])\<close>, in an empty portfolio on a file system
  whose file names hold at most 255 bytes, where \<^verbatim>\<open>stat\<close>, \<^verbatim>\<open>open\<close> and \<^verbatim>\<open>unlink\<close> of a longer
  name raise: the tag is not known, the writeup document does not exist and could be
  written, and the existence test of \<^verbatim>\<open>create_tag\<close> (line 151, before its \<^verbatim>\<open>try\<close>) raises, so
  that the exception leaves \<^verbatim>\<open>create_tag\<close> and \<^verbatim>\<open>create_writeup\<close> and no writeup is created.
  With a tag of one letter the same call succeeds.
\<close>

theorem long_tag_name_aborts_create_writeup:
  "long_tag \<notin> existing_tags short_names_portfolio \<and>
   exists_file short_names_portfolio (WriteupsDir, writeup_filename ''Box'') = Some False \<and>
   \<not> faults short_names_portfolio Write (WriteupsDir, writeup_filename ''Box'') \<and>
   exists_file short_names_portfolio (tag_path long_tag) = None \<and>
   create_tag long_tag [] None short_names_portfolio = (Raised, short_names_portfolio) \<and>
   create_writeup ''Box'' [long_tag] [] None None [] [] [] ''January 01, 2025''
     short_names_portfolio = (Raised, short_names_portfolio) \<and>
   existing_writeups short_names_portfolio = [] \<and>
   files short_names_portfolio (WriteupsDir, writeup_filename ''Box'') = None \<and>
   fst (create_writeup ''Box'' [''t''] [] None None [] [] [] ''January 01, 2025''
          short_names_portfolio) = Done"
proof -
  have l: "length (snd (tag_path long_tag)) = 309"
    by (simp add: tag_path_def long_tag_def)
  have w: "length (snd (WriteupsDir, writeup_filename ''Box'')) = 16"
    by (simp add: writeup_filename_Box)
  have t: "length (snd (tag_path ''t'')) = 10"
    by (simp add: tag_path_def)
  have 1: "long_tag \<notin> existing_tags short_names_portfolio"
    by (simp add: short_names_portfolio_simps)
  have 2: "exists_file short_names_portfolio (WriteupsDir, writeup_filename ''Box'') = Some False"
    using w by (simp add: exists_file_def short_names_portfolio_simps)
  have 3: "\<not> faults short_names_portfolio Write (WriteupsDir, writeup_filename ''Box'')"
    using w by (simp add: short_names_portfolio_simps)
  have 4: "exists_file short_names_portfolio (tag_path long_tag) = None"
    using l by (simp add: exists_file_def short_names_portfolio_simps)
  have 5: "create_tag long_tag [] None short_names_portfolio = (Raised, short_names_portfolio)"
    using l by (simp add: create_tag_None short_names_portfolio_simps)
  have 6: "create_writeup ''Box'' [long_tag] [] None None [] [] [] ''January 01, 2025''
     short_names_portfolio = (Raised, short_names_portfolio)"
    using 1 2 5
    by (simp add: create_writeup_def Let_def exists_file_def del: exists_file_eq)
  have 7: "existing_writeups short_names_portfolio = []"
    "files short_names_portfolio (WriteupsDir, writeup_filename ''Box'') = None"
    by (simp_all add: short_names_portfolio_simps)
  have "fst (create_missing_tags [''t''] short_names_portfolio) = Done"
    by (rule create_missing_tags_returns) (use t in \<open>simp add: short_names_portfolio_simps\<close>)
  with 2 3 have 8: "fst (create_writeup ''Box'' [''t''] [] None None [] [] [] ''January 01, 2025''
          short_names_portfolio) = Done"
    by (simp add: create_writeup_fresh Let_def del: create_missing_tags.simps)
  from 1 2 3 4 5 6 7 8 show ?thesis by blast
qed

section \<open>The cascade of RemoveWriteup\<close>



lemma remove_writeup_model:
  assumes found: "find (\<lambda>w. w_filename w = writeup_filename title) (existing_writeups g) = Some wr"
    and test: "\<not> faults g Stat (WriteupsDir, writeup_filename title)"
    and ok: "files g (WriteupsDir, writeup_filename title) = None \<or>
             \<not> faults g Unlink (WriteupsDir, writeup_filename title)"
  shows "existing_writeups (snd (remove_writeup title g)) = remove1 wr (existing_writeups g)"
    "files (snd (remove_writeup title g)) (WriteupsDir, writeup_filename title) = None"
    "faults (snd (remove_writeup title g)) = faults g"
    "\<And>q. fst q = WriteupsDir \<Longrightarrow> q \<noteq> (WriteupsDir, writeup_filename title) \<Longrightarrow>
          files (snd (remove_writeup title g)) q = files g q"
  by (simp_all add: remove_writeup_cascade [OF found test ok])

lemma remove_writeup_returns:
  assumes found: "find (\<lambda>w. w_filename w = writeup_filename title) (existing_writeups g) = Some wr"
    and tests: "\<forall>p. \<not> faults g Stat p"
    and ok: "files g (WriteupsDir, writeup_filename title) = None \<or>
             \<not> faults g Unlink (WriteupsDir, writeup_filename title)"
  shows "fst (remove_writeup title g) = Done"
  by (simp add: remove_writeup_when_tests_return [OF found tests ok])


lemma remove_writeup_unlinks_orphans:
  assumes found: "find (\<lambda>w. w_filename w = writeup_filename title) (existing_writeups g) = Some wr"
    and tests: "\<forall>p. \<not> faults g Stat p"
    and ok: "files g (WriteupsDir, writeup_filename title) = None \<or>
             \<not> faults g Unlink (WriteupsDir, writeup_filename title)"
    and t: "t \<in> set (w_tags wr)"
    and orphan: "\<forall>w \<in> set (remove1 wr (existing_writeups g)). t \<notin> set (w_tags w)"
    and tagfault: "\<not> faults g Unlink (tag_path t)"
  shows "files (snd (remove_writeup title g)) (tag_path t) = None"
proof -
  let ?fn = "writeup_filename title"
  let ?g3 = "snd (remove_broken_links_from_tags ?fn
              (g\<lparr>files := (files g)((WriteupsDir, ?fn) := None),
                 existing_writeups := remove1 wr (existing_writeups g)\<rparr>))"
  from tests have s: "\<not> faults g Stat p" for p by blast
  have r: "remove_writeup title g =
             (Done, snd (update_main_pages (snd (cleanup_unused_tags (w_tags wr) ?g3))))"
    by (rule remove_writeup_when_tests_return [OF found tests ok])
  have "files (snd (cleanup_unused_tags (w_tags wr) ?g3)) (tag_path t) = None"
    using t orphan tagfault s by (intro cleanup_unused_tags_removed) simp_all
  with r show ?thesis by simp
qed




section \<open>The tags read from a writeup page\<close>

lemma findall_example_tag_links:
  "findall_tag_names example_tag_links = [''web'', ''linux'', ''web'']"
  unfolding example_tag_links_def by code_simp

lemma findall_greedy_example:
  \<open>findall_tag_names ''see tag-a.html and tag-b.html "x"'' = [''a.html and tag-b'']\<close>
  by code_simp

text \<open>
  Claim C9, as stated, fails: the page names the tags web, linux, web in this order, and
  the list linux, web is a result of \<^verbatim>\<open>list(set(tag_matches))\<close>: the order of first
  appearance (web, linux) is not kept.
\<close>

theorem extracted_tags_order_counterexample:
  "findall_tag_names example_tag_links = [''web'', ''linux'', ''web''] \<and>
   remdups (rev (findall_tag_names example_tag_links)) = [''linux'', ''web''] \<and>
   extracted_tags example_tag_links [''linux'', ''web'']"
  by (simp add: extracted_tags_def findall_example_tag_links insert_commute)

text \<open>
  Claim C9, amended. The list of tag names recovered from a writeup page holds every
  name matched by the tag-link pattern exactly once, and nothing else; its order is the
  iteration order of a Python set, not fixed by the program: the names in order of first
  appearance are one possible result, and so is every possible result reversed.
\<close>

theorem extracted_tags_deduplicated:
  "(extracted_tags content tags \<longrightarrow>
      distinct tags \<and> set tags = set (findall_tag_names content) \<and>
      length tags = card (set (findall_tag_names content))) \<and>
   extracted_tags content (remdups (findall_tag_names content)) \<and>
   (extracted_tags content tags \<longrightarrow> extracted_tags content (rev tags))"
proof -
  have 1: "distinct tags \<and> set tags = set (findall_tag_names content) \<and>
      length tags = card (set (findall_tag_names content))"
    if e: "extracted_tags content tags"
  proof -
    from e have d: "distinct tags" and s: "set tags = set (findall_tag_names content)"
      by (simp_all add: extracted_tags_def)
    from d have "card (set tags) = length tags" by (rule distinct_card)
    with d s show ?thesis by simp
  qed
  have 2: "extracted_tags content (remdups (findall_tag_names content))"
    by (simp add: extracted_tags_def)
  have 3: "extracted_tags content (rev tags)" if "extracted_tags content tags"
    using that by (simp add: extracted_tags_def)
  from 1 2 3 show ?thesis by blast
qed

theorem extracted_tags_deduplicated_witness:
  "extracted_tags example_tag_links [''linux'', ''web''] \<and>
   distinct [''linux'', ''web''] \<and>
   length [''linux'', ''web''] = card (set (findall_tag_names example_tag_links)) \<and>
   extracted_tags example_tag_links [''web'', ''linux'']"
proof -
  have e: "extracted_tags example_tag_links [''linux'', ''web'']"
    by (simp add: extracted_tags_def findall_example_tag_links insert_commute)
  from extracted_tags_deduplicated [of example_tag_links "[''linux'', ''web'']"] e
  show ?thesis by simp
qed

section \<open>A tag known but without a page\<close>

lemma tag_path_not_writeup [simp]:
  "tag_path t \<noteq> (WriteupsDir, n)" "(WriteupsDir, n) \<noteq> tag_path t"
  by (simp_all add: tag_path_def)

lemma lower_A: "lower ''A'' = ''a''"
  by code_simp

lemma lower_B: "lower ''B'' = ''b''"
  by code_simp

lemma writeup_filename_A: "writeup_filename ''A'' = ''writeup-a.html''"
  by (simp add: writeup_filename_def lower_A replace_char_def)

lemma writeup_filename_B: "writeup_filename ''B'' = ''writeup-b.html''"
  by (simp add: writeup_filename_def lower_B replace_char_def)

lemma stale_step_1_facts:
  "fst (create_writeup ''A'' [''t''] [] None None [] [] [] ''January 01, 2025'' empty_portfolio)
     = Done"
  "map w_filename (existing_writeups stale_step_1) = [''writeup-a.html'']"
  "map w_tags (existing_writeups stale_step_1) = [[''t'']]"
  "''t'' \<in> existing_tags stale_step_1"
  "files stale_step_1 (tag_path ''t'') = Some (generate_tag_html ''t'' [])"
  "files stale_step_1 (WriteupsDir, ''writeup-a.html'') \<noteq> None"
  "files stale_step_1 (WriteupsDir, ''writeup-b.html'') = None"
  "faults stale_step_1 = (\<lambda>operation p. False)"
proof -
  have fresh: "files empty_portfolio (WriteupsDir, writeup_filename ''A'') = None"
    and test: "\<not> faults empty_portfolio Stat (WriteupsDir, writeup_filename ''A'')"
    by (simp_all add: empty_portfolio_simps)
  have c: "files (snd (create_missing_tags [''t''] empty_portfolio)) (tag_path ''t'')
             = Some (generate_tag_html ''t'' []) \<and>
           ''t'' \<in> existing_tags (snd (create_missing_tags [''t''] empty_portfolio))"
    by (rule create_missing_tags_creates) (simp_all add: empty_portfolio_simps)
  have d: "fst (create_missing_tags [''t''] empty_portfolio) = Done"
    by (rule create_missing_tags_returns) (simp add: empty_portfolio_simps)
  note s = create_writeup_fresh [OF fresh test, of "[''t'']" "[]" None None "[]" "[]" "[]"
      "''January 01, 2025''"]
  show "fst (create_writeup ''A'' [''t''] [] None None [] [] [] ''January 01, 2025''
          empty_portfolio) = Done"
    by (simp add: s d empty_portfolio_simps Let_def del: create_missing_tags.simps)
  show "map w_filename (existing_writeups stale_step_1) = [''writeup-a.html'']"
    by (simp add: stale_step_1_def s d empty_portfolio_simps Let_def writeup_filename_A
          del: create_missing_tags.simps)
  show "map w_tags (existing_writeups stale_step_1) = [[''t'']]"
    by (simp add: stale_step_1_def s d empty_portfolio_simps Let_def
          del: create_missing_tags.simps)
  show "''t'' \<in> existing_tags stale_step_1"
    using c by (simp add: stale_step_1_def s d empty_portfolio_simps Let_def
          del: create_missing_tags.simps)
  show "files stale_step_1 (tag_path ''t'') = Some (generate_tag_html ''t'' [])"
    using c by (simp add: stale_step_1_def s d empty_portfolio_simps Let_def
          del: create_missing_tags.simps)
  show "files stale_step_1 (WriteupsDir, ''writeup-a.html'') \<noteq> None"
    by (simp add: stale_step_1_def s d empty_portfolio_simps Let_def writeup_filename_A
          del: create_missing_tags.simps)
  show "files stale_step_1 (WriteupsDir, ''writeup-b.html'') = None"
    by (simp add: stale_step_1_def s d empty_portfolio_simps Let_def writeup_filename_A
          del: create_missing_tags.simps)
  show "faults stale_step_1 = (\<lambda>operation p. False)"
    by (simp add: stale_step_1_def s d empty_portfolio_simps Let_def
          del: create_missing_tags.simps)
qed

lemma stale_step_2_facts:
  "fst (remove_writeup ''A'' stale_step_1) = Done"
  "existing_writeups stale_step_2 = []"
  "''t'' \<in> existing_tags stale_step_2"
  "files stale_step_2 (tag_path ''t'') = None"
  "files stale_step_2 (WriteupsDir, ''writeup-b.html'') = None"
  "faults stale_step_2 = (\<lambda>operation p. False)"
proof -
  obtain wr where w: "existing_writeups stale_step_1 = [wr]"
    and wf: "w_filename wr = ''writeup-a.html''" and wt: "w_tags wr = [''t'']"
    using stale_step_1_facts(2,3) by (cases "existing_writeups stale_step_1") auto
  have found: "find (\<lambda>w. w_filename w = writeup_filename ''A'') (existing_writeups stale_step_1)
                 = Some wr"
    by (simp add: w wf writeup_filename_A)
  have tests: "\<forall>p. \<not> faults stale_step_1 Stat p"
    by (simp add: stale_step_1_facts(8))
  then have test: "\<not> faults stale_step_1 Stat (WriteupsDir, writeup_filename ''A'')"
    by blast
  have ok: "files stale_step_1 (WriteupsDir, writeup_filename ''A'') = None \<or>
            \<not> faults stale_step_1 Unlink (WriteupsDir, writeup_filename ''A'')"
    by (simp add: stale_step_1_facts(8))
  note m = remove_writeup_model [OF found test ok]
  show "fst (remove_writeup ''A'' stale_step_1) = Done"
    by (rule remove_writeup_returns [OF found tests ok])
  show "existing_writeups stale_step_2 = []"
    unfolding stale_step_2_def by (simp add: m w)
  show "''t'' \<in> existing_tags stale_step_2"
    unfolding stale_step_2_def by (simp add: stale_step_1_facts(4))
  show "files stale_step_2 (tag_path ''t'') = None"
    unfolding stale_step_2_def
    by (rule remove_writeup_unlinks_orphans [OF found tests ok])
       (simp_all add: wt w stale_step_1_facts(8))
  show "files stale_step_2 (WriteupsDir, ''writeup-b.html'') = None"
    unfolding stale_step_2_def
    by (simp add: m(4) writeup_filename_A stale_step_1_facts(7))
  show "faults stale_step_2 = (\<lambda>operation p. False)"
    unfolding stale_step_2_def by (simp add: m stale_step_1_facts(8))
qed

text \<open>
  Claim C5 on the sequence CreateWriteup A with tag t, RemoveWriteup A, CreateWriteup B
  with tag t, from an empty portfolio without failures: every call succeeds, the page of
  t exists after the first call, and at the end the writeup B carries the tag t while the
  page of t does not exist.
\<close>

theorem stale_tag_breaks_invariant:
  "fst (create_writeup ''A'' [''t''] [] None None [] [] [] ''January 01, 2025'' empty_portfolio)
     = Done \<and>
   files stale_step_1 (tag_path ''t'') = Some (generate_tag_html ''t'' []) \<and>
   fst (remove_writeup ''A'' stale_step_1) = Done \<and>
   ''t'' \<in> existing_tags stale_step_2 \<and>
   files stale_step_2 (tag_path ''t'') = None \<and>
   fst (create_writeup ''B'' [''t''] [] None None [] [] [] ''January 02, 2025'' stale_step_2)
     = Done \<and>
   map w_title (existing_writeups stale_step_3) = [''B''] \<and>
   map w_tags (existing_writeups stale_step_3) = [[''t'']] \<and>
   files stale_step_3 (tag_path ''t'') = None"
proof -
  have fresh: "files stale_step_2 (WriteupsDir, writeup_filename ''B'') = None"
    and test: "\<not> faults stale_step_2 Stat (WriteupsDir, writeup_filename ''B'')"
    by (simp_all add: writeup_filename_B stale_step_2_facts(5,6))
  note s = create_writeup_fresh [OF fresh test, of "[''t'']" "[]" None None "[]" "[]" "[]"
      "''January 02, 2025''"]
  have k: "create_missing_tags [''t''] stale_step_2 = (Done, stale_step_2)"
    by (simp add: stale_step_2_facts(3))
  have 1: "fst (create_writeup ''B'' [''t''] [] None None [] [] [] ''January 02, 2025''
             stale_step_2) = Done"
    by (simp add: s k Let_def stale_step_2_facts(6) del: create_missing_tags.simps)
  have 2: "map w_title (existing_writeups stale_step_3) = [''B'']"
    "map w_tags (existing_writeups stale_step_3) = [[''t'']]"
    by (simp_all add: stale_step_3_def s k Let_def stale_step_2_facts(2,6)
          del: create_missing_tags.simps)
  have 3: "files stale_step_3 (tag_path ''t'') = None"
    by (simp add: stale_step_3_def s k Let_def stale_step_2_facts(4,6)
          del: create_missing_tags.simps)
  from stale_step_1_facts(1,5) stale_step_2_facts(1,3,4) 1 2 3 show ?thesis by blast
qed

section \<open>Loops whose order the program does not fix\<close>

lemma generator_eqI:
  fixes g h :: generator
  assumes "files g = files h" "faults g = faults h" "existing_tags g = existing_tags h"
    "existing_writeups g = existing_writeups h" "existing_projects g = existing_projects h"
  shows "g = h"
  using assms by (cases g, cases h) simp

lemma rewrite_file_own:
  "files (rewrite_file p f g) p =
     (case files g p of
        None \<Rightarrow> None
      | Some stored \<Rightarrow>
          if faults g Read p \<or> faults g Write p then Some stored
          else (case f (universal_newlines stored) of
                  Inl e \<Rightarrow> Some stored
                | Inr new_content \<Rightarrow> Some new_content))"
  by (auto simp: rewrite_file_def read_file_def write_file_def split: option.splits sum.splits)

lemma rewrite_file_commute:
  assumes "p \<noteq> q"
  shows "rewrite_file p f (rewrite_file q h g) = rewrite_file q h (rewrite_file p f g)"
proof (rule generator_eqI)
  show "files (rewrite_file p f (rewrite_file q h g)) = files (rewrite_file q h (rewrite_file p f g))"
  proof (rule ext)
    fix r
    show "files (rewrite_file p f (rewrite_file q h g)) r =
          files (rewrite_file q h (rewrite_file p f g)) r"
    proof (cases "r = p")
      case True
      with assms show ?thesis by (simp add: rewrite_file_own split: option.splits)
    next
      case False
      show ?thesis
      proof (cases "r = q")
        case True
        with assms show ?thesis by (simp add: rewrite_file_own split: option.splits)
      next
        case False
        with \<open>r \<noteq> p\<close> show ?thesis by simp
      qed
    qed
  qed
qed simp_all

text \<open>
  One round of \<^verbatim>\<open>_update_all_tag_pages\<close> whose existence test returns: the rewrite of the
  page of its tag (which leaves a missing page missing).
\<close>

lemma update_single_tag_page_as_rewrite:
  "\<not> faults g Stat (tag_path t) \<Longrightarrow>
   update_single_tag_page t g =
     (Done,
      rewrite_file (tag_path t)
        (\<lambda>content. update_single_tag_page_content content
           (generate_writeup_cards_for_tag
              (filter (\<lambda>w. t \<in> set (w_tags w)) (existing_writeups g)))) g)"
proof (cases "files g (tag_path t)")
  case None
  moreover assume "\<not> faults g Stat (tag_path t)"
  ultimately show ?thesis
    by (simp add: update_single_tag_page_def exists_file_def rewrite_file_def read_file_def)
next
  case (Some c)
  moreover assume "\<not> faults g Stat (tag_path t)"
  ultimately show ?thesis
    by (simp add: update_single_tag_page_def exists_file_def Let_def)
qed

text \<open>
  \<^verbatim>\<open>_update_all_tag_pages\<close> in any order, where no existence test raises: whatever order
  the iteration over the set of used tags takes, the result is the one of
  \<open>update_all_tag_pages\<close>.
\<close>

lemma update_all_tag_pages_any_order:
  assumes "distinct order" "set order = set (concat (map w_tags (existing_writeups g)))"
    and tests: "\<forall>p. \<not> faults g Stat p"
  shows "update_tag_pages order g = update_all_tag_pages g"
proof -
  let ?ts = "remdups (concat (map w_tags (existing_writeups g)))"
  define step where "step = (\<lambda>t h.
      rewrite_file (tag_path t)
        (\<lambda>content. update_single_tag_page_content content
           (generate_writeup_cards_for_tag
              (filter (\<lambda>w. t \<in> set (w_tags w)) (existing_writeups h)))) h)"
  have step_model: "faults (step t h) = faults h" "existing_writeups (step t h) = existing_writeups h"
    for t h by (simp_all add: step_def)
  have fold_model: "faults (fold step ts h) = faults h \<and>
      existing_writeups (fold step ts h) = existing_writeups h" for ts h
    by (induction ts arbitrary: h) (simp_all add: step_model)
  have loop: "update_tag_pages ts h = (Done, fold step ts h)"
    if "\<forall>p. \<not> faults h Stat p" for ts h
    using that
  proof (induction ts arbitrary: h)
    case Nil
    show ?case by simp
  next
    case (Cons t ts)
    from Cons.prems have "\<not> faults h Stat (tag_path t)" by blast
    then have "update_single_tag_page t h = (Done, step t h)"
      unfolding step_def by (rule update_single_tag_page_as_rewrite)
    moreover have "\<forall>p. \<not> faults (step t h) Stat p"
      unfolding step_model using Cons.prems .
    ultimately show ?case using Cons.IH by simp
  qed
  have commute: "step x \<circ> step y = step y \<circ> step x" for x y
  proof (cases "x = y")
    case True
    then show ?thesis by simp
  next
    case False
    then have "tag_path x \<noteq> tag_path y" by simp
    from rewrite_file_commute [OF this] show ?thesis
      by (auto simp: step_def fun_eq_iff)
  qed
  have "mset order = mset ?ts"
    using assms(1,2) by (simp add: set_eq_iff_mset_eq_distinct [symmetric])
  then have "fold step order = fold step ?ts"
    using commute by (intro fold_multiset_equiv) simp_all
  then show ?thesis
    by (simp add: update_all_tag_pages_def loop [OF tests])
qed

lemma remove_broken_links_from_page_model [simp]:
  "existing_tags (remove_broken_links_from_page fn p g) = existing_tags g"
  "existing_writeups (remove_broken_links_from_page fn p g) = existing_writeups g"
  "existing_projects (remove_broken_links_from_page fn p g) = existing_projects g"
  "faults (remove_broken_links_from_page fn p g) = faults g"
  by (auto simp: remove_broken_links_from_page_def read_file_def write_file_def Let_def
      split: option.splits sum.splits)

lemma remove_broken_links_from_page_other [simp]:
  "q \<noteq> p \<Longrightarrow> files (remove_broken_links_from_page fn p g) q = files g q"
  by (auto simp: remove_broken_links_from_page_def read_file_def write_file_def Let_def
      split: option.splits sum.splits)

lemma remove_broken_links_from_page_own:
  "files h p = files g p \<Longrightarrow> faults h = faults g \<Longrightarrow>
   files (remove_broken_links_from_page fn p h) p = files (remove_broken_links_from_page fn p g) p"
  by (auto simp: remove_broken_links_from_page_def read_file_def write_file_def Let_def
      split: option.splits sum.splits)

lemma remove_broken_links_from_page_missing:
  "files g p = None \<Longrightarrow> remove_broken_links_from_page fn p g = g"
  by (simp add: remove_broken_links_from_page_def read_file_def)

lemma fold_remove_broken_links:
  "distinct names \<Longrightarrow>
   files (fold (\<lambda>n. remove_broken_links_from_page fn (TagsDir, n)) names g) =
     (\<lambda>p. if fst p = TagsDir \<and> snd p \<in> set names
          then files (remove_broken_links_from_page fn p g) p else files g p) \<and>
   faults (fold (\<lambda>n. remove_broken_links_from_page fn (TagsDir, n)) names g) = faults g \<and>
   existing_tags (fold (\<lambda>n. remove_broken_links_from_page fn (TagsDir, n)) names g)
     = existing_tags g \<and>
   existing_writeups (fold (\<lambda>n. remove_broken_links_from_page fn (TagsDir, n)) names g)
     = existing_writeups g \<and>
   existing_projects (fold (\<lambda>n. remove_broken_links_from_page fn (TagsDir, n)) names g)
     = existing_projects g"
proof (induction names arbitrary: g)
  case Nil
  show ?case by simp
next
  case (Cons n ns)
  let ?g1 = "remove_broken_links_from_page fn (TagsDir, n) g"
  from Cons.prems have d: "distinct ns" and n: "n \<notin> set ns" by simp_all
  note ih = Cons.IH [OF d, of ?g1]
  have "files (fold (\<lambda>n. remove_broken_links_from_page fn (TagsDir, n)) ns ?g1) p =
        (if fst p = TagsDir \<and> snd p \<in> set (n # ns)
         then files (remove_broken_links_from_page fn p g) p else files g p)" for p
  proof (cases "fst p = TagsDir \<and> snd p \<in> set ns")
    case True
    with n have ne: "p \<noteq> (TagsDir, n)" by auto
    then have "files (remove_broken_links_from_page fn p ?g1) p =
               files (remove_broken_links_from_page fn p g) p"
      by (intro remove_broken_links_from_page_own) simp_all
    with True ih show ?thesis by simp
  next
    case False
    then show ?thesis using ih by (cases p) auto
  qed
  then have "files (fold (\<lambda>n. remove_broken_links_from_page fn (TagsDir, n)) (n # ns) g) =
     (\<lambda>p. if fst p = TagsDir \<and> snd p \<in> set (n # ns)
          then files (remove_broken_links_from_page fn p g) p else files g p)"
    by (simp only: fold_simps) (rule ext, simp)
  with ih show ?case by simp
qed

text \<open>
  \<^verbatim>\<open>_remove_broken_links_from_tags\<close> as the loop it is, where the listing of the directory
  succeeds: over any listing of the tag pages (each once, every existing one among them),
  the rounds of the loop give the result of \<open>remove_broken_links_from_tags\<close>.
\<close>

lemma remove_broken_links_loop:
  assumes "distinct names" "\<forall>n \<in> set names. is_tag_file n"
    and "\<forall>n. is_tag_file n \<and> files g (TagsDir, n) \<noteq> None \<longrightarrow> n \<in> set names"
    and listing: "\<not> faults g Stat tags_dir" "\<not> faults g Scan tags_dir"
  shows "remove_broken_links_from_tags filename g =
         (Done, fold (\<lambda>n. remove_broken_links_from_page filename (TagsDir, n)) names g)"
proof -
  let ?loop = "fold (\<lambda>n. remove_broken_links_from_page filename (TagsDir, n)) names g"
  let ?result = "g\<lparr>files :=
                (\<lambda>p. if fst p = TagsDir \<and> is_tag_file (snd p)
                     then files (remove_broken_links_from_page filename p g) p
                     else files g p)\<rparr>"
  note f = fold_remove_broken_links [OF assms(1), of filename g]
  have "?loop = ?result"
  proof (rule generator_eqI)
    show "files ?loop = files ?result"
    proof (rule ext)
      fix p
      show "files ?loop p = files ?result p"
      proof (cases "fst p = TagsDir \<and> is_tag_file (snd p)")
        case True
        show ?thesis
        proof (cases "snd p \<in> set names")
          case True
          with \<open>fst p = TagsDir \<and> is_tag_file (snd p)\<close> f show ?thesis
            by simp
        next
          case False
          with True assms(3) have "files g p = None" by (cases p) auto
          with True False f show ?thesis
            by (simp add: remove_broken_links_from_page_missing)
        qed
      next
        case False
        with assms(2) have "\<not> (fst p = TagsDir \<and> snd p \<in> set names)" by auto
        with False f show ?thesis
          by auto
      qed
    qed
  qed (simp_all add: f)
  with listing show ?thesis
    by (simp add: remove_broken_links_from_tags_def)
qed

end
